theory Spec2Isabelle
  imports Complex_Main "HOL-Library.AList" "HOL-Library.Sublist"
begin

section \<open>The style-prop generator of polaris-react (scripts/get-style-props/index.mjs)\<close>

text \<open>
  The script is a one-shot generator: it reads a handful of configuration tables, checks
  the configured aliases, and writes a style file and a types file. The embedding follows
  the script function by function.

  Conventions of the embedding.
  \<^item> A JavaScript object used as a table (\<open>stylePropConfig\<close>, \<open>modifiers\<close>,
    \<open>cssLonghandProperties\<close>, ...) is the association list of its own enumerable
    properties in the order of \<open>Object.entries\<close>; a well-formed table has distinct keys.
    Reading a missing key gives \<open>undefined\<close> (\<open>None\<close>), and reading a property of
    \<open>undefined\<close> throws a \<open>TypeError\<close>.
  \<^item> The tables the script builds itself (\<open>inverseAliases\<close>, \<open>cssPropsToTokenGroup\<close>)
    start as the object \<open>{}\<close>: a read of a key that is not an own property finds the
    member of \<open>Object.prototype\<close> of that name, if there is one, and
    \<open>Object.entries\<close> lists the keys that are array indices first, in ascending order,
    and the other keys in the order of their creation.
  \<^item> For a style prop that is not an own key of \<open>cssLonghandProperties\<close> the read
    \<open>cssLonghandProperties[prop].type\<close> is taken to throw at once. (For a style prop
    named like a member of \<open>Object.prototype\<close> the script reads the inherited member,
    whose \<open>type\<close> is \<open>undefined\<close>, and throws its \<open>TypeError\<close> later, from
    \<open>arr.includes\<close> or from \<open>type.join\<close>, in the latter case after the message
    about the alias collisions is printed; it ends by the same exception.)
  \<^item> An ECMAScript \<open>Set\<close> is its list of entries in insertion order, in which a deleted
    entry leaves an empty slot, as in the language specification; a set iterator is an
    index into that list.
  \<^item> Library functions that are not part of the script (\<open>endent\<close>, \<open>decamelize\<close>,
    \<open>toPx\<close>, \<open>JSON.stringify\<close>, the value mapper of \<open>data.mjs\<close>) are parameters.
\<close>

subsection \<open>ECMAScript sets\<close>

type_synonym 'a js_set = "'a option list"

definition set_has :: "'a js_set \<Rightarrow> 'a \<Rightarrow> bool" where
  "set_has s x = (Some x \<in> set s)"

definition set_add :: "'a js_set \<Rightarrow> 'a \<Rightarrow> 'a js_set" where
  "set_add s x = (if set_has s x then s else s @ [Some x])"

definition new_Set :: "'a list \<Rightarrow> 'a js_set" where
  "new_Set xs = foldl set_add [] xs"

definition set_delete :: "'a js_set \<Rightarrow> 'a \<Rightarrow> 'a js_set" where
  "set_delete s x = map (\<lambda>e. if e = Some x then None else e) s"

text \<open>\<open>Array.from(s)\<close>: the entries that are not empty, in insertion order.\<close>

primrec array_from :: "'a js_set \<Rightarrow> 'a list" where
  "array_from [] = []"
| "array_from (e # es) = (case e of None \<Rightarrow> array_from es | Some x \<Rightarrow> x # array_from es)"

definition set_size :: "'a js_set \<Rightarrow> nat" where
  "set_size s = length (array_from s)"

subsection \<open>The array helpers\<close>

text \<open>
  The inner loop of \<open>getArrayIntersection\<close>,
  \<^verbatim>\<open>for (const elem of intersection) { if (!arr.includes(elem)) intersection.delete(elem); }\<close>,
  deletes from the set it iterates. The iterator re-reads the number of entries at every
  step and skips empty slots; \<open>i\<close> is its index. Not returning is the value \<open>None\<close>.
\<close>

partial_function (option) intersection_inner ::
  "'a list \<Rightarrow> 'a js_set \<Rightarrow> nat \<Rightarrow> 'a js_set option" where
  "intersection_inner arr intersection i =
     (if i < length intersection then
        (case intersection ! i of
           None \<Rightarrow> intersection_inner arr intersection (Suc i)
         | Some elem \<Rightarrow>
             if elem \<notin> set arr
             then intersection_inner arr (set_delete intersection elem) (Suc i)
             else intersection_inner arr intersection (Suc i))
      else Some intersection)"

declare intersection_inner.simps [code]

fun intersection_outer :: "'a list list \<Rightarrow> 'a js_set \<Rightarrow> 'a js_set option" where
  "intersection_outer [] intersection = Some intersection"
| "intersection_outer (arr # arrs) intersection =
     (case intersection_inner arr intersection 0 of
        None \<Rightarrow> None
      | Some intersection' \<Rightarrow> intersection_outer arrs intersection')"

definition getArrayIntersection :: "'a list list \<Rightarrow> 'a list option" where
  "getArrayIntersection arrs =
     (let union = new_Set (concat arrs);
          intersection = new_Set (array_from union)
      in map_option array_from (intersection_outer arrs intersection))"

text \<open>\<open>arrs[0]\<close> of no arrays is \<open>undefined\<close>, and \<open>new Set(undefined)\<close> is empty.\<close>

definition getArrayDifference :: "'a list list \<Rightarrow> 'a list" where
  "getArrayDifference arrs =
     (let union = new_Set (case arrs of [] \<Rightarrow> [] | a # _ \<Rightarrow> a)
      in array_from (foldl (\<lambda>u arr. foldl set_delete u arr) union (drop 1 arrs)))"

definition arraysAreEqualSets :: "'a list list \<Rightarrow> bool" where
  "arraysAreEqualSets arrs =
     (let firstSet = new_Set (case arrs of [] \<Rightarrow> [] | a # _ \<Rightarrow> a)
      in list_all
           (\<lambda>arr. let thisSet = new_Set arr
                  in if set_size firstSet \<noteq> set_size thisSet then False
                     else list_all (\<lambda>elem. set_has thisSet elem) (array_from firstSet))
           (drop 1 arrs))"

subsection \<open>Strings, tables, exceptions\<close>

text \<open>\<open>Array.prototype.join\<close>.\<close>

fun join :: "string \<Rightarrow> string list \<Rightarrow> string" where
  "join sep [] = []"
| "join sep [x] = x"
| "join sep (x # y # ys) = x @ sep @ join sep (y # ys)"

text \<open>
  An untagged template literal: the constant chunks with the values between them (there
  is one chunk more than there are values).
\<close>

fun template :: "string list \<Rightarrow> string list \<Rightarrow> string" where
  "template [] vs = concat vs"
| "template (c # cs) [] = c @ concat cs"
| "template (c # cs) (v # vs) = c @ v @ template cs vs"

text \<open>\<open>s.replace(pat, '')\<close> with a string pattern: the first occurrence is removed.\<close>

fun replace_first :: "string \<Rightarrow> string \<Rightarrow> string" where
  "replace_first pat [] = []"
| "replace_first pat (c # cs) =
     (if prefix pat (c # cs) then drop (length pat) (c # cs) else c # replace_first pat cs)"

text \<open>A value that may be \<open>undefined\<close>, as a template literal prints it.\<close>

definition to_string :: "string option \<Rightarrow> string" where
  "to_string v = (case v of None \<Rightarrow> ''undefined'' | Some s \<Rightarrow> s)"

text \<open>\<open>xs[0]\<close> printed by a template literal or used as a property key.\<close>

definition first_key :: "string list \<Rightarrow> string" where
  "first_key xs = (case xs of [] \<Rightarrow> ''undefined'' | x # _ \<Rightarrow> x)"

datatype js_error = TypeError

datatype 'a completion = Normal 'a | Throw js_error | Exit int

text \<open>\<open>table[k].field\<close>: the read of a property of \<open>undefined\<close> throws.\<close>

definition get :: "('k \<times> 'a) list \<Rightarrow> 'k \<Rightarrow> js_error + 'a" where
  "get table k = (case map_of table k of None \<Rightarrow> Inl TypeError | Some v \<Rightarrow> Inr v)"

definition hasOwn :: "('k \<times> 'a) list \<Rightarrow> 'k \<Rightarrow> bool" where
  "hasOwn table k = (map_of table k \<noteq> None)"

text \<open>\<open>xs.map(f)\<close> for a callback that may throw: the first exception ends the loop.\<close>

fun map_throw :: "('a \<Rightarrow> js_error + 'b) \<Rightarrow> 'a list \<Rightarrow> js_error + 'b list" where
  "map_throw f [] = Inr []"
| "map_throw f (x # xs) =
     (case f x of
        Inl e \<Rightarrow> Inl e
      | Inr y \<Rightarrow> (case map_throw f xs of Inl e \<Rightarrow> Inl e | Inr ys \<Rightarrow> Inr (y # ys)))"

text \<open>A loop (\<open>reduce\<close>, \<open>for ... of\<close>) whose body may throw.\<close>

fun fold_throw :: "('s \<Rightarrow> 'a \<Rightarrow> js_error + 's) \<Rightarrow> 's \<Rightarrow> 'a list \<Rightarrow> js_error + 's" where
  "fold_throw f acc [] = Inr acc"
| "fold_throw f acc (x # xs) =
     (case f acc x of Inl e \<Rightarrow> Inl e | Inr acc' \<Rightarrow> fold_throw f acc' xs)"

text \<open>
  An array index is the canonical decimal text of an integer from 0 to \<open>2\<^sup>3\<^sup>2 - 2\<close>.
  \<open>Object.entries\<close> lists the array indices first, in ascending order, then the other
  keys in the order of their creation: a new key is put at its place in that order.
\<close>

definition digit :: "char \<Rightarrow> bool" where
  "digit c = (c \<in> set ''0123456789'')"

definition digits_value :: "string \<Rightarrow> nat" where
  "digits_value k = foldl (\<lambda>n c. 10 * n + (of_char c - 48)) 0 k"

definition is_array_index :: "string \<Rightarrow> bool" where
  "is_array_index k =
     (case k of
        [] \<Rightarrow> False
      | c # cs \<Rightarrow> list_all digit k \<and> (cs = [] \<or> c \<noteq> CHR ''0'') \<and> digits_value k \<le> 4294967294)"

fun insert_key :: "string \<Rightarrow> 'a \<Rightarrow> (string \<times> 'a) list \<Rightarrow> (string \<times> 'a) list" where
  "insert_key k v [] = [(k, v)]"
| "insert_key k v ((k', v') # rest) =
     (if is_array_index k \<and> (\<not> is_array_index k' \<or> digits_value k < digits_value k')
      then (k, v) # (k', v') # rest
      else (k', v') # insert_key k v rest)"

text \<open>\<open>obj[k] = v\<close> on own properties: a present key keeps its place.\<close>

definition assign :: "string \<Rightarrow> 'a \<Rightarrow> (string \<times> 'a) list \<Rightarrow> (string \<times> 'a) list" where
  "assign k v table = (if hasOwn table k then AList.update k v table else insert_key k v table)"

text \<open>
  The names of the members of \<open>Object.prototype\<close>. Each member is a function, but for
  \<open>__proto__\<close>, an accessor whose getter gives \<open>Object.prototype\<close> itself and whose
  setter ignores a value that is not an object.
\<close>

definition prototype_members :: "string list" where
  "prototype_members =
     [''constructor'', ''__defineGetter__'', ''__defineSetter__'', ''hasOwnProperty'',
      ''__lookupGetter__'', ''__lookupSetter__'', ''isPrototypeOf'', ''propertyIsEnumerable'',
      ''toString'', ''valueOf'', ''__proto__'', ''toLocaleString'']"

subsection \<open>The inputs of the script\<close>

datatype 'v default_value = Undefined | Function string | Static 'v

record 'v config_entry =
  aliases :: "string list option"
  getDefault :: "'v default_value"

record longhand =
  jsDoc :: string
  type :: "string list"

text \<open>
  The tables imported from \<open>data.mjs\<close> and \<open>@shopify/polaris-tokens\<close>, the result of
  \<open>getCSSTypeLonghandProperties\<close> (which queries the TypeScript compiler), and the
  library functions. \<open>'v\<close> is the type of static default values. A function default is
  its source text (\<open>getDefault.toString()\<close>).
\<close>

record 'v input =
  disallowedCSSProperties :: "string list"
  disallowedCSSPropertyValues :: "string list"
  stylePropConfig :: "(string \<times> 'v config_entry) list"
  modifiersData :: "(string \<times> string) list"
  cssCustomPropertyNamespace :: string
  styleFile :: string
  typesFile :: string
  tokenizedCSSStyleProps :: "(string \<times> string list) list"
  themeBreakpoints :: "(string \<times> string) list"
  cssLonghandProperties :: "(string \<times> longhand) list"
  endent :: "string list \<Rightarrow> string list \<Rightarrow> string"
  decamelize :: "string \<Rightarrow> string"
  toPx :: "string \<Rightarrow> string option"
  stringify :: "string \<Rightarrow> string"
  stringifyValue :: "'v \<Rightarrow> string"
  BoxValueMapperFactory :: "(string \<times> string) list \<Rightarrow> 'v \<Rightarrow> string \<Rightarrow> string"
  BoxValueMapperFactory_toString :: string

text \<open>\<open>JSON.stringify\<close> of an array of strings, without and with an indent of 2.\<close>

definition stringify_array :: "'v input \<Rightarrow> string list \<Rightarrow> string" where
  "stringify_array inp xs = ''['' @ join '','' (map (stringify inp) xs) @ '']''"

definition stringify_array_indented :: "'v input \<Rightarrow> string list \<Rightarrow> string" where
  "stringify_array_indented inp xs =
     (if xs = [] then ''[]''
      else ''[\<newline>  '' @ join '',\<newline>  '' (map (stringify inp) xs) @ ''\<newline>]'')"

subsection \<open>The module-level tables\<close>

definition breakpoints :: "'v input \<Rightarrow> (string \<times> string option) list" where
  "breakpoints inp =
     map (\<lambda>(key, breakpoint). (replace_first ''breakpoints-'' key, toPx inp breakpoint))
       (themeBreakpoints inp)"

definition aliases_or_empty :: "'v config_entry \<Rightarrow> string list" where
  "aliases_or_empty e = (case aliases e of None \<Rightarrow> [] | Some as \<Rightarrow> as)"

definition allAliases :: "'v input \<Rightarrow> string list" where
  "allAliases inp =
     array_from (new_Set (concat (map (\<lambda>(prop, e). aliases_or_empty e) (stylePropConfig inp))))"

text \<open>
  \<^verbatim>\<open>acc[alias] = acc[alias] ?? []; acc[alias].push(prop);\<close>
  on the accumulator that starts as \<open>{}\<close>. When the alias is an own key, the prop is
  pushed to its array. When it is not, but is the name of a member of
  \<open>Object.prototype\<close>, \<open>acc[alias]\<close> is that member, which is neither \<open>null\<close> nor
  \<open>undefined\<close> and has no \<open>push\<close>: the call \<open>acc[alias].push(prop)\<close> throws a
  \<open>TypeError\<close>. Otherwise the alias becomes a new key with the array of that one prop.
\<close>

definition push_alias ::
  "string \<Rightarrow> (string \<times> string list) list \<Rightarrow> string \<Rightarrow> js_error + (string \<times> string list) list" where
  "push_alias prop acc alias =
     (case map_of acc alias of
        Some props \<Rightarrow> Inr (assign alias (props @ [prop]) acc)
      | None \<Rightarrow>
          if alias \<in> set prototype_members then Inl TypeError
          else Inr (assign alias [prop] acc))"

definition inverseAliases :: "'v input \<Rightarrow> js_error + (string \<times> string list) list" where
  "inverseAliases inp =
     fold_throw (\<lambda>acc (prop, e). fold_throw (push_alias prop) acc (aliases_or_empty e))
       [] (stylePropConfig inp)"

text \<open>
  \<^verbatim>\<open>acc[prop] = tokenGroup;\<close>
  The assignment of a string to \<open>__proto__\<close> goes to the setter of
  \<open>Object.prototype\<close>, which ignores it; every other key becomes or stays an own key.
\<close>

definition cssPropsToTokenGroup :: "'v input \<Rightarrow> (string \<times> string) list" where
  "cssPropsToTokenGroup inp =
     foldl (\<lambda>acc (tokenGroup, props).
              foldl (\<lambda>acc prop. if prop = ''__proto__'' then acc else assign prop tokenGroup acc)
                acc props)
       [] (tokenizedCSSStyleProps inp)"

subsection \<open>verifyAliases\<close>

definition aliasCollisions :: "'v input \<Rightarrow> string list" where
  "aliasCollisions inp =
     filter (\<lambda>longhandProperty.
         longhandProperty \<notin> set (disallowedCSSProperties inp) \<and>
         longhandProperty \<in> set (allAliases inp))
       (map fst (cssLonghandProperties inp))"

text \<open>\<open>props.map((prop) => cssLonghandProperties[prop].type)\<close>\<close>

definition lookupTypes :: "'v input \<Rightarrow> string list \<Rightarrow> js_error + string list list" where
  "lookupTypes inp props =
     map_throw (\<lambda>prop. case get (cssLonghandProperties inp) prop of
                          Inl e \<Rightarrow> Inl e | Inr l \<Rightarrow> Inr (type l)) props"

text \<open>
  The \<open>forEach\<close> over \<open>Object.entries(inverseAliases)\<close>; \<open>typeMismatches\<close> is the
  array it pushes to. An exception or a loop that does not return ends it.
\<close>

fun typeMismatches_loop ::
  "'v input \<Rightarrow> (string \<times> string list) list \<Rightarrow> string list \<Rightarrow> (js_error + string list) option" where
  "typeMismatches_loop inp [] typeMismatches = Some (Inr typeMismatches)"
| "typeMismatches_loop inp ((alias, props) # rest) typeMismatches =
     (case lookupTypes inp props of
        Inl e \<Rightarrow> Some (Inl e)
      | Inr types \<Rightarrow>
          (case getArrayIntersection types of
             None \<Rightarrow> None
           | Some intersection \<Rightarrow>
               typeMismatches_loop inp rest
                 (if length intersection = 0 then typeMismatches @ [alias] else typeMismatches)))"

definition collisionMessage :: "'v input \<Rightarrow> string list \<Rightarrow> string" where
  "collisionMessage inp collisions =
     endent inp
       [''\<newline>          The following CSS properties collide with style prop aliases:\<newline>\<newline>          '',
        ''\<newline>\<newline>          Aliases which happen to have the same name as a CSS property must be added to `disallowedCSSProperties[]` to ensure correct typings.\<newline>        '']
       [join '', '' collisions]"

definition mismatchAlias ::
  "'v input \<Rightarrow> (string \<times> string list) list \<Rightarrow> string \<Rightarrow> js_error + string" where
  "mismatchAlias inp table alias =
     (case get table alias of
        Inl e \<Rightarrow> Inl e
      | Inr props \<Rightarrow>
          (case map_throw
                  (\<lambda>prop. case get (cssLonghandProperties inp) prop of
                             Inl e \<Rightarrow> Inl e
                           | Inr l \<Rightarrow> Inr (prop @ '': '' @ join '' | '' (type l) @ '';''))
                  props of
             Inl e \<Rightarrow> Inl e
           | Inr lines \<Rightarrow>
               Inr (endent inp
                      [''\<newline>                Alias `'',
                       ''` is a fallback for:\<newline>                  '',
                       ''\<newline>              '']
                      [alias, join ''\<newline>  '' lines])))"

definition mismatchMessage ::
  "'v input \<Rightarrow> (string \<times> string list) list \<Rightarrow> string list \<Rightarrow> js_error + string" where
  "mismatchMessage inp table mismatches =
     (case map_throw (mismatchAlias inp table) mismatches of
        Inl e \<Rightarrow> Inl e
      | Inr blocks \<Rightarrow>
          Inr (endent inp
                 [''\<newline>          Cannot use aliases as fallback; constituent CSS Properties do not have any overlap\<newline>\<newline>          '',
                  ''\<newline>        '']
                 [join ''\<newline>\<newline>'' blocks]))"

text \<open>
  The argument \<open>table\<close> is the module-level \<open>inverseAliases\<close>, which exists when
  the function is called. The result is the list of messages given to
  \<open>console.error\<close> and how the call ends: it returns, it throws, or it leaves the process
  with \<open>process.exit(-1)\<close>.
\<close>

definition verifyAliases ::
  "'v input \<Rightarrow> (string \<times> string list) list \<Rightarrow> (string list \<times> unit completion) option" where
  "verifyAliases inp table =
     (let collisions = aliasCollisions inp in
      case typeMismatches_loop inp table [] of
        None \<Rightarrow> None
      | Some (Inl e) \<Rightarrow> Some ([], Throw e)
      | Some (Inr typeMismatches) \<Rightarrow>
          if length collisions \<noteq> 0 \<or> length typeMismatches \<noteq> 0 then
            (let printed = (if length collisions \<noteq> 0 then [collisionMessage inp collisions] else [])
             in if length typeMismatches \<noteq> 0 then
                  (case mismatchMessage inp table typeMismatches of
                     Inl e \<Rightarrow> Some (printed, Throw e)
                   | Inr message \<Rightarrow> Some (printed @ [message], Exit (- 1)))
                else Some (printed, Exit (- 1)))
          else Some ([], Normal ()))"

subsection \<open>writeCSSMediaVars\<close>

definition breakpointsWithoutXs :: "'v input \<Rightarrow> (string \<times> string option) list" where
  "breakpointsWithoutXs inp = drop 1 (breakpoints inp)"

definition baseBreakpointKey :: string where
  "baseBreakpointKey = []"

text \<open>\<open>{...breakpoints[0], key: baseBreakpointKey}\<close>: with no breakpoint at all the
  object has the key only.\<close>

definition breakpointsWithBaseXs :: "'v input \<Rightarrow> (string \<times> string option) list" where
  "breakpointsWithBaseXs inp =
     (baseBreakpointKey, case breakpoints inp of [] \<Rightarrow> None | (key, v) # _ \<Rightarrow> v)
       # breakpointsWithoutXs inp"

definition defaults :: "'v input \<Rightarrow> (string \<times> string) list \<Rightarrow> string" where
  "defaults inp modifiers =
     endent inp [''\<newline>    '', ''\<newline>\<newline>    '', ''\<newline>  '']
       [join ''\<newline>''
          (map (\<lambda>(key, v). ''--'' @ cssCustomPropertyNamespace inp @ key @ '': initial;'')
             (breakpointsWithoutXs inp)),
        join ''\<newline>\<newline>''
          (map (\<lambda>(selector, modifierName).
                  join ''\<newline>''
                    (map (\<lambda>(key, v).
                            ''--'' @ cssCustomPropertyNamespace inp @ key @ modifierName @ '': initial;'')
                       (breakpointsWithBaseXs inp)))
             modifiers)]"

definition mediaQueries :: "'v input \<Rightarrow> string" where
  "mediaQueries inp =
     join ''\<newline>''
       (map (\<lambda>(key, v).
               ''@media screen and (min-width: '' @ to_string v @ '') { .Box { --''
                 @ cssCustomPropertyNamespace inp @ key @ '': ; } }'')
          (breakpointsWithoutXs inp))"

text \<open>The default is written when \<open>getDefault\<close> is neither \<open>undefined\<close> nor a function.\<close>

definition static_defaults :: "'v input \<Rightarrow> (string \<times> 'v) list" where
  "static_defaults inp =
     concat (map (\<lambda>(styleProp, e). case getDefault e of Static v \<Rightarrow> [(styleProp, v)] | _ \<Rightarrow> [])
               (stylePropConfig inp))"

definition longhandTokenGroups :: "'v input \<Rightarrow> (string \<times> string) list" where
  "longhandTokenGroups inp =
     filter (\<lambda>(prop, tokenGroup).
               hasOwn (cssLonghandProperties inp) prop \<and> prop \<notin> set (allAliases inp))
       (cssPropsToTokenGroup inp)"

definition defaultCSSProperties :: "'v input \<Rightarrow> string" where
  "defaultCSSProperties inp =
     endent inp [[], []]
       [join []
          (map (\<lambda>(styleProp, v).
                  decamelize inp styleProp @ '': ''
                    @ BoxValueMapperFactory inp (longhandTokenGroups inp) v styleProp @ '';\<newline>'')
             (static_defaults inp))]"

definition selectorsEnabled :: "'v input \<Rightarrow> (string \<times> string) list \<Rightarrow> string" where
  "selectorsEnabled inp modifiers =
     join ''\<newline>\<newline>''
       (map (\<lambda>(selector, modifierName).
               endent inp [''\<newline>        .Box'', '' {\<newline>          '', ''\<newline>        }'']
                 [selector,
                  join ''\<newline>''
                    (map (\<lambda>(key, v).
                            ''--'' @ cssCustomPropertyNamespace inp @ key @ modifierName @ '': ''
                              @ (if key = baseBreakpointKey then []
                                 else ''var(--'' @ cssCustomPropertyNamespace inp @ key @ '')'')
                              @ '';'')
                       (breakpointsWithBaseXs inp))])
          modifiers)"

text \<open>The text given to \<open>file.write\<close>.\<close>

definition writeCSSMediaVars :: "'v input \<Rightarrow> (string \<times> string) list \<Rightarrow> string" where
  "writeCSSMediaVars inp modifiers =
     endent inp
       [''\<newline>    /* THIS FILE IS AUTO GENERATED, DO NOT TOUCH */\<newline>    .Box {\<newline>      '',
        ''\<newline>      '',
        ''\<newline>    }\<newline>\<newline>    '',
        ''\<newline>\<newline>    '',
        ''\<newline>  '']
       [defaultCSSProperties inp, defaults inp modifiers, mediaQueries inp,
        selectorsEnabled inp modifiers]"

subsection \<open>writeTSProperties\<close>

definition generateTSPickList :: "string list \<Rightarrow> nat \<Rightarrow> string" where
  "generateTSPickList keys indent = join (''\<newline>'' @ replicate indent CHR '' '' @ ''| '') keys"

definition joinEnglish :: "string list \<Rightarrow> string" where
  "joinEnglish arr =
     (if length arr = 1 then first_key arr
      else let joined = join '', '' (butlast arr)
           in if length arr < 2 then joined
              else joined @ '' and '' @ last arr)"

text \<open>
  The result is the text of the alias's type. The call throws when a style prop is not a
  key of \<open>cssLonghandProperties\<close>, and does not return when an intersection does not.
\<close>

definition createMinimumCommonUnionForAlias ::
  "'v input \<Rightarrow> string list \<Rightarrow> (js_error + string) option" where
  "createMinimumCommonUnionForAlias inp styleProps =
     (case lookupTypes inp styleProps of
        Inl e \<Rightarrow> Some (Inl e)
      | Inr types \<Rightarrow>
          if arraysAreEqualSets types
          then Some (Inr (''LonghandStyleProps['' @ [CHR 0x27] @ first_key styleProps @ [CHR 0x27] @ '']''))
          else
            (case getArrayIntersection types of
               None \<Rightarrow> None
             | Some typeIntersection \<Rightarrow>
                 if length typeIntersection = 0 then Some (Inr ''never'')
                 else
                   (let symetricalDifference = getArrayDifference [concat types, typeIntersection]
                    in case types of
                         [] \<Rightarrow> Some (Inl TypeError)
                       | first # _ \<Rightarrow>
                           (case getArrayIntersection [first, symetricalDifference] of
                              None \<Rightarrow> None
                            | Some typesToRemoveFromFirst \<Rightarrow>
                                Some (Inr (endent inp
                                  [''\<newline>      Exclude<\<newline>          LonghandStyleProps['' @ [CHR 0x27],
                                   [CHR 0x27] @ ''],\<newline>          '',
                                   ''\<newline>        >\<newline>    '']
                                  [first_key styleProps,
                                   generateTSPickList typesToRemoveFromFirst 0]))))))"

text \<open>
  \<^verbatim>\<open>`${prop} = props.${prop} ?? ${stylePropConfig[prop].aliases.map(...).join(' ?? ')};`\<close>
\<close>

definition fallbackLine :: "'v input \<Rightarrow> string \<Rightarrow> js_error + string" where
  "fallbackLine inp prop =
     (case get (stylePropConfig inp) prop of
        Inl e \<Rightarrow> Inl e
      | Inr e \<Rightarrow>
          (case aliases e of
             None \<Rightarrow> Inl TypeError
           | Some as \<Rightarrow>
               Inr (prop @ '' = props.'' @ prop @ '' ?? ''
                      @ join '' ?? '' (map (\<lambda>fallbackProp. ''props.'' @ fallbackProp) as) @ '';'')))"

text \<open>One member of \<open>interface StylePropAliases\<close>.\<close>

definition aliasMember :: "'v input \<Rightarrow> string \<times> string list \<Rightarrow> (js_error + string) option" where
  "aliasMember inp entry =
     (case entry of (alias, styleProps) \<Rightarrow>
        (let english = joinEnglish (map (\<lambda>prop. ''`'' @ prop @ ''`'') styleProps) in
         case map_throw (fallbackLine inp) styleProps of
           Inl e \<Rightarrow> Some (Inl e)
         | Inr fallbacks \<Rightarrow>
             (let sees = map (\<lambda>prop. ''@see {@link LonghandStyleProps.'' @ prop @ ''}'') styleProps in
              case createMinimumCommonUnionForAlias inp styleProps of
                None \<Rightarrow> None
              | Some (Inl e) \<Rightarrow> Some (Inl e)
              | Some (Inr aliasType) \<Rightarrow>
                  Some (Inr (''\<newline>  /**\<newline>   * Alias for setting '' @ english
                    @ '':\<newline>   *\<newline>   * ```\<newline>   * '' @ join ''\<newline>   * '' fallbacks
                    @ ''\<newline>   * ```\<newline>   *\<newline>   * '' @ join ''\<newline>   * '' sees
                    @ ''\<newline>   */\<newline>  '' @ alias @ ''?: '' @ aliasType @ '';'')))))"

text \<open>\<open>Object.entries(inverseAliases).map(...)\<close>, one alias after the other.\<close>

fun aliasMembers ::
  "'v input \<Rightarrow> (string \<times> string list) list \<Rightarrow> (js_error + string list) option" where
  "aliasMembers inp [] = Some (Inr [])"
| "aliasMembers inp (entry # entries) =
     (case aliasMember inp entry of
        None \<Rightarrow> None
      | Some (Inl e) \<Rightarrow> Some (Inl e)
      | Some (Inr member) \<Rightarrow>
          (case aliasMembers inp entries of
             None \<Rightarrow> None
           | Some (Inl e) \<Rightarrow> Some (Inl e)
           | Some (Inr members) \<Rightarrow> Some (Inr (member # members))))"

definition disallowedStandardLonghandProperties :: "'v input \<Rightarrow> string" where
  "disallowedStandardLonghandProperties inp =
     generateTSPickList
       (map (\<lambda>prop. [CHR 0x27] @ prop @ [CHR 0x27])
          (filter (\<lambda>prop. hasOwn (cssLonghandProperties inp) prop)
             (disallowedCSSProperties inp @ allAliases inp)))
       2"

text \<open>\<open>aliases?.length\<close> is truthy for a defined, non-empty array.\<close>

definition stylePropAliasFallbacks :: "'v input \<Rightarrow> string" where
  "stylePropAliasFallbacks inp =
     join ''\<newline>  ''
       (concat (map (\<lambda>(styleProp, e).
                  case aliases e of
                    None \<Rightarrow> []
                  | Some as \<Rightarrow>
                      if length as \<noteq> 0 then [styleProp @ '': '' @ stringify_array inp as @ '','']
                      else [])
               (stylePropConfig inp)))"

definition stylePropDefaults :: "'v input \<Rightarrow> string" where
  "stylePropDefaults inp =
     join ''\<newline>  ''
       (concat (map (\<lambda>(styleProp, e).
                  case getDefault e of
                    Undefined \<Rightarrow> []
                  | Function source \<Rightarrow> [styleProp @ '': '' @ source @ '','']
                  | Static v \<Rightarrow> [styleProp @ '': '' @ stringifyValue inp v @ '',''])
               (stylePropConfig inp)))"

definition longhandTokenGroupMap :: "'v input \<Rightarrow> string" where
  "longhandTokenGroupMap inp =
     join '',\<newline>  ''
       (map (\<lambda>(prop, tokenGroup). prop @ '': '' @ stringify inp tokenGroup)
          (longhandTokenGroups inp))"

text \<open>\<open>JSON.stringify(undefined)\<close> is \<open>undefined\<close>.\<close>

definition aliasTokenGroupMap :: "'v input \<Rightarrow> (string \<times> string list) list \<Rightarrow> string" where
  "aliasTokenGroupMap inp table =
     join '',\<newline>  ''
       (map (\<lambda>(alias, properties).
               alias @ '': ''
                 @ to_string (map_option (stringify inp)
                     (map_of (cssPropsToTokenGroup inp) (first_key properties))))
          (filter (\<lambda>(alias, properties). hasOwn (cssPropsToTokenGroup inp) (first_key properties))
             table))"

subsection \<open>The constant text of the types file (the template literal of writeTSProperties)\<close>

definition tsChunk0 :: string where
  "tsChunk0 =
     concat [
      ''/* THIS FILE IS AUTO GENERATED, DO NOT TOUCH */\<newline>'',
      ''import type {StandardLonghandProperties, Globals} from '' @ [CHR 0x27] @ ''csstype'' @ [CHR 0x27] @ '';\<newline>'',
      ''import type {breakpointsAliases,BreakpointsAlias,TokenizedStyleProps} from '' @ [CHR 0x27] @ ''@shopify/polaris-tokens'' @ [CHR 0x27] @ '';\<newline>'',
      ''import type {PickIndexSignature, OmitIndexSignature, Simplify}  from '' @ [CHR 0x27] @ ''type-fest'' @ [CHR 0x27] @ '';\<newline>'',
      ''\<newline>'',
      ''import type {ResponsiveProp, ResponsivePropObject} from '' @ [CHR 0x27] @ ''../../utilities/css'' @ [CHR 0x27] @ '';\<newline>'',
      ''\<newline>'',
      ''/**\<newline>'',
      '' * Pick only the keys in `PickFrom` which are also in `IntersectWith`.\<newline>'',
      '' */\<newline>'',
      ''type PickIntersection<PickFrom, IntersectWith> = Pick<\<newline>'',
      ''  PickFrom,\<newline>'',
      ''  keyof IntersectWith & keyof PickFrom\<newline>'',
      ''>;\<newline>'']"

definition tsChunk1 :: string where
  "tsChunk1 =
     concat [
      ''\<newline>'',
      ''// Force Typescript to flatten out a union type to its concrete values\<newline>'',
      ''type WrapInObject<T> = T extends unknown ? { key: T } : never;\<newline>'',
      ''type Unwrap<T> = T extends { key: unknown } ? T['' @ [CHR 0x22] @ ''key'' @ [CHR 0x22] @ ''] : never;\<newline>'',
      ''\<newline>'',
      ''/**\<newline>'',
      '' * The subset of all CSS that we support in Polaris (does not include aliases).\<newline>'',
      '' */\<newline>'',
      ''type SupportedCSSStyleProps = Omit<\<newline>'',
      ''  // Why Longhand properties and not ALL properties?\<newline>'',
      ''  // Shorthand properties need to come before longhand properties so\<newline>'',
      ''  // the most specific (longhand) applies based on CSS order.\<newline>'',
      ''  // For example, `flex-flow` is a shorthand of `<flex-direction> <flex-wrap>`,\<newline>'',
      ''  // and so must come before both of those.\<newline>'',
      ''  //\<newline>'',
      ''  // Challenges with supporting shorthand properties:\<newline>'',
      ''  // a. Cannot use alphabetical sorting (`flex-direction` would end up before\<newline>'',
      ''  // `flex-flow` which is invalid).\<newline>'',
      ''  // b. Cannot use `property.logicalProperyGroup` from `@webref/css` as that'' @ [CHR 0x27] @ ''s\<newline>'',
      ''  // not reliable (doesn'' @ [CHR 0x27] @ ''t even exist for the `flex` family of properties).\<newline>'',
      ''  // c. Cannot rely on the order of properties in an @webref/css specification\<newline>'',
      ''  // containing both long and shorthand variants since later '' @ [CHR 0x22] @ ''Delta'' @ [CHR 0x22] @ '' specs might\<newline>'',
      ''  // introduce new shorthands (and so would come after the longhand when\<newline>'',
      ''  // iterating and therefore are invalid).\<newline>'',
      ''  // d. mdn data appears to have an incomplete list of shorthand properties.\<newline>'',
      ''  //\<newline>'',
      ''  // Possible solutions:\<newline>'',
      ''  // 1. Use data like { '' @ [CHR 0x27] @ ''flex-flow'' @ [CHR 0x27] @ '': ['' @ [CHR 0x27] @ ''flex-direction'' @ [CHR 0x27] @ '', '' @ [CHR 0x27] @ ''flex-wrap'' @ [CHR 0x27] @ ''] } to sort\<newline>'',
      ''  //    longhands after shorthands\<newline>'',
      ''  // 2. Rely on csstype to filter out all the shorthand properties completely.\<newline>'',
      ''  //\<newline>'',
      ''  // We'' @ [CHR 0x27] @ ''re chosing solution #2 here; filtering out shorthand CSS Properties.\<newline>'',
      ''  // Note that in a later step where we create '' @ [CHR 0x22] @ ''aliases'' @ [CHR 0x22] @ '' to enable a builder to\<newline>'',
      ''  // pass a single value which acts as a fallback for the props specified as\<newline>'',
      ''  // fallbacks. Some of these aliases may have identical names to the shorthand\<newline>'',
      ''  // properties, but shouldn'' @ [CHR 0x27] @ ''t be confused as being the same.\<newline>'',
      ''  StandardLonghandProperties,\<newline>'',
      ''  DisallowedStandardLonghandProperties\<newline>'',
      ''>;\<newline>'',
      ''\<newline>'',
      ''type SimpleMergeByUnion<Destination, Source> = {\<newline>'',
      ''  // Grab everything that'' @ [CHR 0x27] @ ''s in Destination, but not in Source\<newline>'',
      ''  [Key in keyof Destination as Key extends keyof Source ? never : Key]: Destination[Key]\<newline>'',
      ''} & {\<newline>'',
      ''  // Grab everything that'' @ [CHR 0x27] @ ''s in Source, but not in Destination\<newline>'',
      ''  [Key in keyof Source as Key extends keyof Destination ? never : Key]: Source[Key]\<newline>'',
      ''} & {\<newline>'',
      ''  // Union everything that'' @ [CHR 0x27] @ ''s in both Source and Destination\<newline>'',
      ''  // Doing '' @ [CHR 0x27] @ ''as'' @ [CHR 0x27] @ '' here ensures we never end up with a property with type '' @ [CHR 0x27] @ ''never'' @ [CHR 0x27] @ ''\<newline>'',
      ''  [Key in keyof Destination as Key extends keyof Source ? Key : never]:\<newline>'',
      ''    Key extends keyof Source\<newline>'',
      ''      ? Destination[Key] | Source[Key]\<newline>'',
      ''      // This should never happen thanks to our '' @ [CHR 0x27] @ ''as'' @ [CHR 0x27] @ '' above, but is needed to\<newline>'',
      ''      // satisfy the indexing of '' @ [CHR 0x27] @ ''Source'' @ [CHR 0x27] @ ''.\<newline>'',
      ''      : never;\<newline>'',
      ''};\<newline>'',
      ''\<newline>'',
      ''// Splitting out index signatures ensures Typescript doesn'' @ [CHR 0x27] @ ''t incorrectly narrow\<newline>'',
      ''// down to just the index signatures themselves, wiping out the more specific\<newline>'',
      ''// signatures which we want to keep.\<newline>'',
      ''type MergeByUnion<Destination, Source> =\<newline>'',
      ''  SimpleMergeByUnion<PickIndexSignature<Destination>, PickIndexSignature<Source>>\<newline>'',
      ''  & SimpleMergeByUnion<OmitIndexSignature<Destination>, OmitIndexSignature<Source>>;\<newline>'',
      ''\<newline>'',
      ''/**\<newline>'',
      '' * Some of our supported CSS properties must have a value from\<newline>'',
      '' * `@shopify/polaris-tokens`, so we override those properties here\<newline>'',
      '' *\<newline>'',
      '' * @example\<newline>'',
      '' * `padding-inline-start` can only accept the `space-*` tokens.\<newline>'',
      '' */\<newline>'',
      ''type LonghandStyleProps = MergeByUnion<\<newline>'',
      ''  SupportedCSSStyleProps,\<newline>'',
      ''  // `@shopify/polaris-tokens` may type more CSS properties than we want to\<newline>'',
      ''  // support here, so ensure we'' @ [CHR 0x27] @ ''re only picking the ones we explicityly support\<newline>'',
      ''  PickIntersection<TokenizedStyleProps, SupportedCSSStyleProps>\<newline>'',
      ''>;\<newline>'',
      ''\<newline>'',
      ''type StyleProps = LonghandStyleProps & StylePropAliases;\<newline>'',
      ''\<newline>'',
      ''/**\<newline>'',
      '' * A combination of raw CSS style props, tokenized style props (derived from\<newline>'',
      '' * `@shopify/polaris-tokens`), and helpful aliases for frequently used props.\<newline>'',
      '' */\<newline>'',
      ''export type ResponsiveStyleProps = {\<newline>'',
      ''  [K in keyof StyleProps]?: ResponsiveProp<\<newline>'',
      ''    // Excluding globally disallowed values as the last thing we do ensures none\<newline>'',
      ''    // slip through the cracks in the above type definitions.\<newline>'',
      ''    Unwrap<WrapInObject<Exclude<StyleProps[K], (typeof disallowedCSSPropertyValues)[number]>>>\<newline>'',
      ''  >;\<newline>'',
      ''};\<newline>'',
      ''\<newline>'',
      ''/**\<newline>'',
      '' * A combination of raw CSS style props, tokenized style props (derived from\<newline>'',
      '' * `@shopify/polaris-tokens`), helpful aliases for frequently used props, and\<newline>'',
      ''* the modifiers '']"

definition tsChunk2 :: string where
  "tsChunk2 =
     concat [
      ''.\<newline>'',
      '' */\<newline>'',
      ''export type ResponsiveStylePropsWithModifiers = Simplify<\<newline>'',
      ''  ResponsiveStyleProps & {\<newline>'',
      ''    [K in typeof modifiers[number]]?: ResponsiveStyleProps;\<newline>'',
      ''  }\<newline>'',
      ''>;\<newline>'',
      ''\<newline>'',
      ''export type ResponsiveStylePropObjects = {\<newline>'',
      ''  [T in keyof ResponsiveStyleProps]?: ResponsiveStyleProps[T] extends ResponsiveProp<\<newline>'',
      ''    infer V\<newline>'',
      ''  >\<newline>'',
      ''    ? ResponsivePropObject<V>\<newline>'',
      ''    : never;\<newline>'',
      ''};\<newline>'',
      ''\<newline>'',
      ''/**\<newline>'',
      ''* Polaris specifies some aliases which are used as fallback values when an\<newline>'',
      ''* explicit style prop isn'' @ [CHR 0x27] @ ''t set. Aliases may themselves fallback to other\<newline>'',
      ''* aliases. Some aliases may be tokenized values or CSS values, but never both.\<newline>'',
      ''*\<newline>'',
      '' * @example\<newline>'',
      '' * `justify` is an alias to `justifyItems` when `justifyItems` isn'' @ [CHR 0x27] @ ''t set.\<newline>'',
      ''*\<newline>'',
      ''* <Box justify='' @ [CHR 0x22] @ ''center'' @ [CHR 0x22] @ '' />\<newline>'',
      ''* =>\<newline>'',
      ''* style={{ justifyItems: '' @ [CHR 0x27] @ ''center'' @ [CHR 0x27] @ '' }}\<newline>'',
      ''*\<newline>'',
      ''* <Box justifyItems='' @ [CHR 0x22] @ ''left'' @ [CHR 0x22] @ '' justify='' @ [CHR 0x22] @ ''center'' @ [CHR 0x22] @ '' />\<newline>'',
      ''* =>\<newline>'',
      ''* style={{ justifyItems: '' @ [CHR 0x27] @ ''left'' @ [CHR 0x27] @ '' }}\<newline>'',
      ''*\<newline>'',
      ''* @example\<newline>'',
      ''* `paddingInline` is an alias to `paddingInlineStart` and\<newline>'',
      ''* `paddingInlineEnd` when they aren'' @ [CHR 0x27] @ ''t set.\<newline>'',
      ''*\<newline>'',
      ''* <Box paddingInline='' @ [CHR 0x22] @ ''space-400'' @ [CHR 0x22] @ '' />\<newline>'',
      ''* =>\<newline>'',
      ''* style={{\<newline>'',
      ''*   paddingInlineStart: '' @ [CHR 0x27] @ ''400'' @ [CHR 0x27] @ '',\<newline>'',
      ''*   paddingInlineEnd: '' @ [CHR 0x27] @ ''400'' @ [CHR 0x27] @ '',\<newline>'',
      ''* }}\<newline>'',
      ''*\<newline>'',
      ''* <Box paddingInline='' @ [CHR 0x22] @ ''space-400'' @ [CHR 0x22] @ '' paddingInlineEnd='' @ [CHR 0x22] @ ''space-600'' @ [CHR 0x22] @ '' />\<newline>'',
      ''* =>\<newline>'',
      ''* style={{\<newline>'',
      ''*   paddingInlineStart: '' @ [CHR 0x27] @ ''400'' @ [CHR 0x27] @ '',\<newline>'',
      ''*   paddingInlineEnd: '' @ [CHR 0x27] @ ''600'' @ [CHR 0x27] @ '',\<newline>'',
      ''* }}\<newline>'',
      ''*\<newline>'',
      ''* @example\<newline>'',
      ''* `padding` is an alias to `paddingInline` and `paddingBlock` which themselves\<newline>'',
      ''* are aliases to `paddingInlineStart`, `paddingInlineEnd` and\<newline>'',
      ''* `paddingBlockStart`, `paddingBlockEnd` respectively.\<newline>'',
      ''*\<newline>'',
      ''* <Box padding='' @ [CHR 0x22] @ ''space-400'' @ [CHR 0x22] @ '' />\<newline>'',
      ''* => style={{\<newline>'',
      ''*   paddingInlineStart: '' @ [CHR 0x27] @ ''400'' @ [CHR 0x27] @ '',\<newline>'',
      ''*   paddingInlineEnd: '' @ [CHR 0x27] @ ''400'' @ [CHR 0x27] @ '',\<newline>'',
      ''*   paddingBlockStart: '' @ [CHR 0x27] @ ''400'' @ [CHR 0x27] @ '',\<newline>'',
      ''*   paddingBlockEnd: '' @ [CHR 0x27] @ ''400'' @ [CHR 0x27] @ '',\<newline>'',
      ''* }}\<newline>'',
      ''*\<newline>'',
      ''* <Box paddingBlock='' @ [CHR 0x22] @ ''space-800'' @ [CHR 0x22] @ '' padding='' @ [CHR 0x22] @ ''space-400'' @ [CHR 0x22] @ '' paddingInlineEnd='' @ [CHR 0x22] @ ''space-600'' @ [CHR 0x22] @ '' />\<newline>'',
      ''* => style={{\<newline>'',
      ''*   paddingInlineStart: '' @ [CHR 0x27] @ ''400'' @ [CHR 0x27] @ '',\<newline>'',
      ''*   paddingInlineEnd: '' @ [CHR 0x27] @ ''600'' @ [CHR 0x27] @ '',\<newline>'',
      ''*   paddingBlockStart: '' @ [CHR 0x27] @ ''800'' @ [CHR 0x27] @ '',\<newline>'',
      ''*   paddingBlockEnd: '' @ [CHR 0x27] @ ''800'' @ [CHR 0x27] @ '',\<newline>'',
      ''* }}\<newline>'',
      ''*/\<newline>'',
      ''interface StylePropAliases {'']"

definition tsChunk3 :: string where
  "tsChunk3 =
     concat [
      ''\<newline>'',
      ''};\<newline>'',
      ''\<newline>'',
      ''/**\<newline>'',
      '' * CSS properties we don'' @ [CHR 0x27] @ ''t support.\<newline>'',
      '' *\<newline>'',
      '' * Note: Some '' @ [CHR 0x27] @ ''disallowed'' @ [CHR 0x27] @ '' properties happen to share a name with allowed\<newline>'',
      '' * aliases (eg; `paddingInline` is an alias for `paddingInlineStart` and\<newline>'',
      '' * `paddingInlineEnd`), so they appear in the list below, but are later\<newline>'',
      '' * included in the final `StyleProps` type.\<newline>'',
      '' */\<newline>'',
      ''type DisallowedStandardLonghandProperties = '']"

definition tsChunk4 :: string where
  "tsChunk4 =
     concat [
      '';\<newline>'',
      ''\<newline>'',
      ''/**\<newline>'',
      '' * Props which act as an alias to one or more more specific props.\<newline>'',
      '' *\<newline>'',
      '' * For example; '' @ [CHR 0x27] @ ''padding'' @ [CHR 0x27] @ '' is an alias to '' @ [CHR 0x27] @ ''padding-inline-start'' @ [CHR 0x27] @ '',\<newline>'',
      '' * '' @ [CHR 0x27] @ ''padding-inline-end'' @ [CHR 0x27] @ '', etc, when those individual props aren'' @ [CHR 0x27] @ ''t set.\<newline>'',
      '' */\<newline>'',
      ''export const stylePropAliasFallbacks = {\<newline>'',
      ''  '']"

definition tsChunk5 :: string where
  "tsChunk5 =
     concat [
      ''\<newline>'',
      ''} satisfies { [K in keyof SupportedCSSStyleProps]?: (keyof StyleProps)[] };\<newline>'',
      ''\<newline>'',
      ''// Extract a unique set of just the alias names\<newline>'',
      ''export const stylePropAliasNames: (keyof StyleProps)[] = Array.from(\<newline>'',
      ''  new Set(Object.values(stylePropAliasFallbacks).flat())\<newline>'',
      '');\<newline>'',
      ''\<newline>'',
      ''type StaticDefaultValue<K extends keyof SupportedCSSStyleProps> =\<newline>'',
      ''  | SupportedCSSStyleProps[K]\<newline>'',
      ''  | undefined;\<newline>'',
      ''\<newline>'',
      ''type DynamicDefaultValue<K extends keyof SupportedCSSStyleProps> = (\<newline>'',
      ''  props: ResponsiveStylePropObjects\<newline>'',
      '') => SupportedCSSStyleProps[K] | undefined;\<newline>'',
      ''\<newline>'',
      ''export type PropDefaults = {\<newline>'',
      ''  [K in keyof SupportedCSSStyleProps]?:\<newline>'',
      ''    | StaticDefaultValue<K>\<newline>'',
      ''    | DynamicDefaultValue<K>;\<newline>'',
      ''};\<newline>'',
      ''\<newline>'',
      ''export const stylePropDefaults = {\<newline>'',
      ''  '']"

definition tsChunk6 :: string where
  "tsChunk6 =
     concat [
      ''\<newline>'',
      ''} satisfies PropDefaults;\<newline>'',
      ''\<newline>'',
      ''/**\<newline>'',
      '' * A list of values that if passed to any styleProp on our Box component should\<newline>'',
      '' * warn the user, and bail early from the css property injection procedure. We\<newline>'',
      '' * do this as there is no good way for us to explicitly disallow this string\<newline>'',
      '' * literal in our types holistically for every style property.\<newline>'',
      '' */\<newline>'',
      ''export const disallowedCSSPropertyValues = '']"

definition tsChunk7 :: string where
  "tsChunk7 =
     concat [
      '' satisfies Globals[];\<newline>'',
      ''\<newline>'',
      ''/**\<newline>'',
      '' * Style props which only accept tokens need to be assigned to a token group.\<newline>'',
      '' */\<newline>'',
      ''export const stylePropTokenGroupMap = {\<newline>'',
      ''  // Longhand CSS Style Props\<newline>'',
      ''  '']"

definition tsChunk8 :: string where
  "tsChunk8 =
     concat [
      '',\<newline>'',
      ''\<newline>'',
      ''  // Aliases\<newline>'',
      ''  '']"

definition tsChunk9 :: string where
  "tsChunk9 =
     concat [
      '',\<newline>'',
      ''} as const;\<newline>'',
      ''\<newline>'',
      ''export const cssCustomPropertyNamespace = '']"

definition tsChunk10 :: string where
  "tsChunk10 =
     concat [
      '';\<newline>'',
      ''\<newline>'',
      ''export const modifiers = '']"

definition tsChunk11 :: string where
  "tsChunk11 =
     concat [
      '' as const;\<newline>'',
      ''\<newline>'',
      ''export const baseStylePropsModifierKey = '' @ [CHR 0x27] @ [CHR 0x27] @ '' as const;\<newline>'',
      ''type BaseStylePropsModifierKey = typeof baseStylePropsModifierKey;\<newline>'',
      ''\<newline>'',
      ''export const baseStylePropsBreakpointKey = '' @ [CHR 0x27] @ [CHR 0x27] @ '' as const;\<newline>'',
      ''type BaseStylePropsBreakpointKey = typeof baseStylePropsBreakpointKey;\<newline>'',
      ''\<newline>'',
      ''export type BreakpointsAliasesWithBaseKey =\<newline>'',
      ''  | BaseStylePropsBreakpointKey\<newline>'',
      ''  | Exclude<BreakpointsAlias, (typeof breakpointsAliases)[0]>;\<newline>'',
      ''\<newline>'',
      ''// The '' @ [CHR 0x22] @ ''base'' @ [CHR 0x22] @ '' styles always come last after other modifiers\<newline>'',
      ''export const allModifiers: ((typeof modifiers)[number] | BaseStylePropsModifierKey)[] =\<newline>'',
      ''  [...modifiers, baseStylePropsModifierKey];\<newline>'',
      ''\<newline>'',
      ''export type ValueMapperFactory = (map: typeof stylePropTokenGroupMap) => (\<newline>'',
      ''  value: ResponsiveStyleProps[typeof prop],\<newline>'',
      ''  prop: keyof typeof stylePropTokenGroupMap,\<newline>'',
      ''  breakpoint: BreakpointsAlias,\<newline>'',
      ''  modifier: (typeof allModifiers)[number],\<newline>'',
      '') => unknown;\<newline>'',
      ''export const valueMapperFactory: ValueMapperFactory= '']"

definition tsChunk12 :: string where
  "tsChunk12 =
     concat [
      '';\<newline>'']"

definition tsTemplate :: "string list" where
  "tsTemplate =
     [tsChunk0, tsChunk1, tsChunk2, tsChunk3, tsChunk4, tsChunk5, tsChunk6, tsChunk7,
      tsChunk8, tsChunk9, tsChunk10, tsChunk11, tsChunk12]"

text \<open>
  The text given to \<open>targetFile.write\<close>: the template literal with its twelve values, of
  which the first is the empty string. The argument \<open>table\<close> is the module-level
  \<open>inverseAliases\<close>. Only the members of \<open>StylePropAliases\<close> can throw or fail to return.
\<close>

definition writeTSProperties ::
  "'v input \<Rightarrow> (string \<times> string list) list \<Rightarrow> (js_error + string) option" where
  "writeTSProperties inp table =
     (let english = joinEnglish (map snd (modifiersData inp)) in
      case aliasMembers inp table of
        None \<Rightarrow> None
      | Some (Inl e) \<Rightarrow> Some (Inl e)
      | Some (Inr members) \<Rightarrow>
          Some (Inr (template tsTemplate
            [[],
             english,
             join ''\<newline>'' members,
             disallowedStandardLonghandProperties inp,
             stylePropAliasFallbacks inp,
             stylePropDefaults inp,
             stringify_array_indented inp (disallowedCSSPropertyValues inp),
             longhandTokenGroupMap inp,
             aliasTokenGroupMap inp table,
             stringify inp (cssCustomPropertyNamespace inp),
             stringify_array inp (map snd (modifiersData inp)),
             BoxValueMapperFactory_toString inp])))"

subsection \<open>The script\<close>

text \<open>
  What the script does to the outside: the messages it prints with \<open>console.error\<close> and
  its calls of \<open>fs.open(path, 'w+')\<close>, \<open>file.write(text)\<close> and \<open>file.close()\<close>, in
  order. The file operations themselves are taken to succeed.
\<close>

datatype event = ConsoleError string | Open string | Write string string | Close string

text \<open>
  \<^verbatim>\<open>verifyAliases();
  const sassFile = await fs.open(styleFile, 'w+');
  await writeCSSMediaVars(sassFile, modifiersData);
  await sassFile.close();
  const tsFile = await fs.open(typesFile, 'w+');
  await writeTSProperties(tsFile);
  await tsFile.close();\<close>
  Before these statements the module builds its tables, of which \<open>inverseAliases\<close> can
  throw. The text of a file is computed after the file is opened and before it is written.
\<close>

definition script :: "'v input \<Rightarrow> (event list \<times> unit completion) option" where
  "script inp =
     (case inverseAliases inp of
        Inl e \<Rightarrow> Some ([], Throw e)
      | Inr table \<Rightarrow>
          (case verifyAliases inp table of
             None \<Rightarrow> None
           | Some (printed, Throw e) \<Rightarrow> Some (map ConsoleError printed, Throw e)
           | Some (printed, Exit code) \<Rightarrow> Some (map ConsoleError printed, Exit code)
           | Some (printed, Normal u) \<Rightarrow>
               (let sass = map ConsoleError printed
                      @ [Open (styleFile inp),
                         Write (styleFile inp) (writeCSSMediaVars inp (modifiersData inp)),
                         Close (styleFile inp),
                         Open (typesFile inp)]
                in case writeTSProperties inp table of
                     None \<Rightarrow> None
                   | Some (Inl e) \<Rightarrow> Some (sass, Throw e)
                   | Some (Inr text) \<Rightarrow>
                       Some (sass @ [Write (typesFile inp) text, Close (typesFile inp)], Normal ()))))"

text \<open>
  The files, from path to content, and the effect of the events on them: the flag
  \<open>w+\<close> creates or truncates the file, and a write goes to the end of what the handle
  has written.
\<close>

type_synonym files = "string \<Rightarrow> string option"

fun apply_event :: "files \<Rightarrow> event \<Rightarrow> files" where
  "apply_event fs (ConsoleError message) = fs"
| "apply_event fs (Open path) = fs(path \<mapsto> [])"
| "apply_event fs (Write path text) =
     fs(path \<mapsto> (case fs path of None \<Rightarrow> text | Some content \<Rightarrow> content @ text))"
| "apply_event fs (Close path) = fs"

definition replay :: "event list \<Rightarrow> files \<Rightarrow> files" where
  "replay events fs = foldl apply_event fs events"

subsection \<open>Toast (the auto-dismiss timeout of the effect)\<close>

text \<open>
  A JavaScript number, as far as the effect looks at it: it is tested for truthiness and
  compared, never computed with. \<open>Finite 0\<close> stands for both zeros.
\<close>

datatype number = NaN | NegInfinity | Finite real | Infinity

definition truthy :: "number option \<Rightarrow> bool" where
  "truthy d = (case d of None \<Rightarrow> False | Some NaN \<Rightarrow> False | Some (Finite r) \<Rightarrow> r \<noteq> 0 | Some _ \<Rightarrow> True)"

text \<open>\<open>a < b\<close> on numbers; a comparison with \<open>undefined\<close> or \<open>NaN\<close> is false.\<close>

fun less_number :: "number \<Rightarrow> number \<Rightarrow> bool" where
  "less_number NaN b = False"
| "less_number a NaN = False"
| "less_number a NegInfinity = False"
| "less_number NegInfinity b = True"
| "less_number Infinity b = False"
| "less_number (Finite r) Infinity = True"
| "less_number (Finite r) (Finite q) = (r < q)"

definition DEFAULT_TOAST_DURATION :: number where
  "DEFAULT_TOAST_DURATION = Finite 5000"

definition DEFAULT_TOAST_DURATION_WITH_ACTION :: number where
  "DEFAULT_TOAST_DURATION_WITH_ACTION = Finite 10000"

definition toast_warning :: string where
  "toast_warning = ''Toast with action should persist for at least 10,000 milliseconds to give the merchant enough time to act on it.''"

text \<open>
  The body of the effect up to \<open>setTimeout(onDismiss, timeoutDuration)\<close>: what it logs
  with \<open>console.log\<close>, and the delay it gives to \<open>setTimeout\<close>. The action is an object
  when it is given, so it is truthy exactly when it is given.
\<close>

definition Toast :: "number option \<Rightarrow> 'a option \<Rightarrow> string list \<times> number" where
  "Toast duration action =
     (let timeoutDuration =
            (case duration of
               Some d \<Rightarrow> if truthy duration then d else DEFAULT_TOAST_DURATION
             | None \<Rightarrow> DEFAULT_TOAST_DURATION)
      in if action \<noteq> None \<and> \<not> truthy duration
         then ([], DEFAULT_TOAST_DURATION_WITH_ACTION)
         else if action \<noteq> None \<and> truthy duration \<and>
                 (case duration of
                    Some d \<Rightarrow> less_number d DEFAULT_TOAST_DURATION_WITH_ACTION
                  | None \<Rightarrow> False)
         then ([toast_warning], timeoutDuration)
         else ([], timeoutDuration))"

subsection \<open>Notions used in the statements and proofs\<close>

text \<open>What one pass of the inner loop of \<open>getArrayIntersection\<close> leaves of an entry.\<close>

definition keep :: "'a list \<Rightarrow> 'a option \<Rightarrow> 'a option" where
  "keep arr e = (case e of None \<Rightarrow> None | Some x \<Rightarrow> if x \<in> set arr then Some x else None)"

text \<open>\<open>inverseAliases[a]\<close>, empty when the alias is not a key.\<close>

definition inv_lookup :: "(string \<times> string list) list \<Rightarrow> string \<Rightarrow> string list" where
  "inv_lookup acc a = (case map_of acc a of None \<Rightarrow> [] | Some ps \<Rightarrow> ps)"

definition nonempty_values :: "(string \<times> string list) list \<Rightarrow> bool" where
  "nonempty_values acc = (\<forall>a. map_of acc a \<noteq> Some [])"

text \<open>
  A small configuration: two style props that fall back to the alias \<open>gap\<close>, one
  modifier, three breakpoints. The library functions are the simplest ones of their
  types; \<open>endent\<close> is the plain template literal.
\<close>

definition example_input :: "string input" where
  "example_input =
     \<lparr> disallowedCSSProperties = [''gap''],
       disallowedCSSPropertyValues = [''inherit''],
       stylePropConfig =
         [(''rowGap'', \<lparr>aliases = Some [''gap''], getDefault = Undefined\<rparr>),
          (''columnGap'', \<lparr>aliases = Some [''gap''], getDefault = Static ''0''\<rparr>),
          (''display'', \<lparr>aliases = None, getDefault = Function ''() => 1''\<rparr>)],
       modifiersData = [('':hover'', ''_hover'')],
       cssCustomPropertyNamespace = ''_'',
       styleFile = ''Box.scss'',
       typesFile = ''generated-data.ts'',
       tokenizedCSSStyleProps = [(''space'', [''rowGap'', ''columnGap''])],
       themeBreakpoints =
         [(''breakpoints-xs'', ''0px''), (''breakpoints-sm'', ''490px''),
          (''breakpoints-md'', ''768px'')],
       cssLonghandProperties =
         [(''rowGap'', \<lparr>jsDoc = [], type = [''Globals'', ''string'']\<rparr>),
          (''columnGap'', \<lparr>jsDoc = [], type = [''Globals'', ''string'', ''normal'']\<rparr>),
          (''display'', \<lparr>jsDoc = [], type = [''Globals'']\<rparr>),
          (''gap'', \<lparr>jsDoc = [], type = [''Globals'', ''string'']\<rparr>)],
       endent = template,
       decamelize = (\<lambda>s. s),
       toPx = Some,
       stringify = (\<lambda>s. [CHR 0x22] @ s @ [CHR 0x22]),
       stringifyValue = (\<lambda>s. [CHR 0x22] @ s @ [CHR 0x22]),
       BoxValueMapperFactory = (\<lambda>m v p. v),
       BoxValueMapperFactory_toString = ''(map) => (v) => v'' \<rparr>"

text \<open>
  The table of the aliases as the loop builds it when no push throws, whether some alias
  has the name of a member of \<open>Object.prototype\<close> (then a push throws), and the
  example with such an alias.
\<close>

definition push_prop ::
  "string \<Rightarrow> (string \<times> string list) list \<Rightarrow> string \<Rightarrow> (string \<times> string list) list" where
  "push_prop prop acc alias =
     assign alias ((case map_of acc alias of None \<Rightarrow> [] | Some props \<Rightarrow> props) @ [prop]) acc"

definition alias_table :: "'v input \<Rightarrow> (string \<times> string list) list" where
  "alias_table inp =
     foldl (\<lambda>acc (prop, e). foldl (push_prop prop) acc (aliases_or_empty e)) [] (stylePropConfig inp)"

definition prototype_alias :: "'v input \<Rightarrow> bool" where
  "prototype_alias inp =
     list_ex (\<lambda>(prop, e). list_ex (\<lambda>a. a \<in> set prototype_members) (aliases_or_empty e))
       (stylePropConfig inp)"

definition no_prototype_keys :: "(string \<times> 'a) list \<Rightarrow> bool" where
  "no_prototype_keys acc = (\<forall>k\<in>fst ` set acc. k \<notin> set prototype_members)"

definition prototype_input :: "string input" where
  "prototype_input =
     example_input
       \<lparr> stylePropConfig :=
           [(''rowGap'', \<lparr>aliases = Some [''constructor''], getDefault = Undefined\<rparr>)] \<rparr>"

text \<open>
  The words of the specification about alias verification, stated on the configuration
  alone. The type list of a style prop (none when csstype does not know the prop), the
  style props that name an alias (its constituents), whether the type lists of some
  props have an element in common, whether a csstype longhand property that is not
  disallowed has the name of an alias, and whether some alias has constituents whose
  type lists have no element in common.
\<close>

definition types_of :: "'v input \<Rightarrow> string \<Rightarrow> string list" where
  "types_of inp prop =
     (case map_of (cssLonghandProperties inp) prop of None \<Rightarrow> [] | Some l \<Rightarrow> type l)"

definition constituents :: "'v input \<Rightarrow> string \<Rightarrow> string list" where
  "constituents inp a =
     map fst (filter (\<lambda>(prop, e). a \<in> set (aliases_or_empty e)) (stylePropConfig inp))"

definition has_overlap :: "'v input \<Rightarrow> string list \<Rightarrow> bool" where
  "has_overlap inp props =
     list_ex (\<lambda>t. list_all (\<lambda>prop. t \<in> set (types_of inp prop)) props)
       (concat (map (types_of inp) props))"

definition alias_collision :: "'v input \<Rightarrow> bool" where
  "alias_collision inp =
     list_ex (\<lambda>(name, l).
                name \<notin> set (disallowedCSSProperties inp) \<and>
                list_ex (\<lambda>(prop, e). name \<in> set (aliases_or_empty e)) (stylePropConfig inp))
       (cssLonghandProperties inp)"

definition type_mismatch :: "'v input \<Rightarrow> bool" where
  "type_mismatch inp =
     list_ex (\<lambda>(prop, e). list_ex (\<lambda>a. \<not> has_overlap inp (constituents inp a)) (aliases_or_empty e))
       (stylePropConfig inp)"

text \<open>Every style prop that has an alias is a key of \<open>cssLonghandProperties\<close>.\<close>

definition aliased_props_known :: "'v input \<Rightarrow> bool" where
  "aliased_props_known inp =
     list_all (\<lambda>(prop, e). aliases_or_empty e = [] \<or> hasOwn (cssLonghandProperties inp) prop)
       (stylePropConfig inp)"

text \<open>Every style prop of the entries is a key of \<open>cssLonghandProperties\<close>.\<close>

definition entries_known :: "'v input \<Rightarrow> (string \<times> string list) list \<Rightarrow> bool" where
  "entries_known inp entries =
     list_all (\<lambda>(alias, props). list_all (hasOwn (cssLonghandProperties inp)) props) entries"

text \<open>
  The example with a misspelt style prop: \<open>rowGapp\<close> is not a csstype property, and
  its alias \<open>gap\<close> has the name of a longhand property that is not disallowed.
\<close>

definition misspelt_input :: "string input" where
  "misspelt_input =
     example_input
       \<lparr> disallowedCSSProperties := [],
         stylePropConfig := [(''rowGapp'', \<lparr>aliases = Some [''gap''], getDefault = Undefined\<rparr>)] \<rparr>"

text \<open>
  The example with an alias collision: \<open>gap\<close> is a longhand property, an alias, and not
  disallowed.
\<close>

definition colliding_input :: "string input" where
  "colliding_input = example_input \<lparr> disallowedCSSProperties := [] \<rparr>"

text \<open>
  \<open>s.split(c)\<close> for a separator of one character, to read a generated text back as
  its lines; and the lines the specification expects in the style file: the media rule
  and the \<open>initial\<close> declaration of a breakpoint, and the declaration of a breakpoint
  under a modifier.
\<close>

fun split_on :: "char \<Rightarrow> string \<Rightarrow> string list" where
  "split_on c [] = [[]]"
| "split_on c (x # xs) =
     (if x = c then [] # split_on c xs
      else (case split_on c xs of [] \<Rightarrow> [[x]] | l # ls \<Rightarrow> (x # l) # ls))"

definition newline_free :: "string \<Rightarrow> bool" where
  "newline_free s = (CHR ''\<newline>'' \<notin> set s)"

definition media_rule :: "'v input \<Rightarrow> string \<times> string option \<Rightarrow> string" where
  "media_rule inp =
     (\<lambda>(key, v). ''@media screen and (min-width: '' @ to_string v @ '') { .Box { --''
                   @ cssCustomPropertyNamespace inp @ key @ '': ; } }'')"

definition initial_declaration :: "'v input \<Rightarrow> string \<times> string option \<Rightarrow> string" where
  "initial_declaration inp =
     (\<lambda>(key, v). ''--'' @ cssCustomPropertyNamespace inp @ key @ '': initial;'')"




text \<open>
  The texts of the types file without the exceptions: the value that
  \<open>getArrayIntersection\<close> returns, the fallback line of a style prop, the type of an
  alias when the type lists of its style props overlap, and the member of
  \<open>StylePropAliases\<close> for an alias.
\<close>

definition intersection_value :: "'a list list \<Rightarrow> 'a list" where
  "intersection_value arrs =
     filter (\<lambda>x. \<forall>a\<in>set arrs. x \<in> set a)
       (array_from (new_Set (array_from (new_Set (concat arrs)))))"

definition fallback_text :: "'v input \<Rightarrow> string \<Rightarrow> string" where
  "fallback_text inp prop =
     prop @ '' = props.'' @ prop @ '' ?? ''
       @ join '' ?? ''
           (map (\<lambda>fallbackProp. ''props.'' @ fallbackProp)
              (case map_of (stylePropConfig inp) prop of None \<Rightarrow> [] | Some e \<Rightarrow> aliases_or_empty e))
       @ '';''"

definition alias_type_text :: "'v input \<Rightarrow> string list \<Rightarrow> string" where
  "alias_type_text inp styleProps =
     (let types = map (types_of inp) styleProps in
      if arraysAreEqualSets types
      then ''LonghandStyleProps['' @ [CHR 0x27] @ first_key styleProps @ [CHR 0x27] @ '']''
      else
        (let typeIntersection = intersection_value types;
             symetricalDifference = getArrayDifference [concat types, typeIntersection];
             typesToRemoveFromFirst =
               intersection_value [case types of [] \<Rightarrow> [] | first # _ \<Rightarrow> first, symetricalDifference]
         in endent inp
              [''\<newline>      Exclude<\<newline>          LonghandStyleProps['' @ [CHR 0x27],
               [CHR 0x27] @ ''],\<newline>          '',
               ''\<newline>        >\<newline>    '']
              [first_key styleProps, generateTSPickList typesToRemoveFromFirst 0]))"

definition alias_member_text :: "'v input \<Rightarrow> string \<times> string list \<Rightarrow> string" where
  "alias_member_text inp =
     (\<lambda>(alias, styleProps).
        ''\<newline>  /**\<newline>   * Alias for setting ''
          @ joinEnglish (map (\<lambda>prop. ''`'' @ prop @ ''`'') styleProps)
          @ '':\<newline>   *\<newline>   * ```\<newline>   * ''
          @ join ''\<newline>   * '' (map (fallback_text inp) styleProps)
          @ ''\<newline>   * ```\<newline>   *\<newline>   * ''
          @ join ''\<newline>   * ''
              (map (\<lambda>prop. ''@see {@link LonghandStyleProps.'' @ prop @ ''}'') styleProps)
          @ ''\<newline>   */\<newline>  '' @ alias @ ''?: '' @ alias_type_text inp styleProps @ '';'')"

section \<open>Properties\<close>

subsection \<open>Sets and the array helpers\<close>

lemma array_from_append: "array_from (s @ t) = array_from s @ array_from t"
  by (induction s) (auto split: option.splits)

lemma set_array_from: "set (array_from s) = {x. Some x \<in> set s}"
  by (induction s) (auto split: option.splits)

lemma set_has_iff: "set_has s x \<longleftrightarrow> x \<in> set (array_from s)"
  by (simp add: set_has_def set_array_from)

lemma array_from_set_add:
  "array_from (set_add s x) =
     (if x \<in> set (array_from s) then array_from s else array_from s @ [x])"
  by (simp add: set_add_def set_has_iff array_from_append)

lemma set_foldl_set_add:
  "set (array_from (foldl set_add s xs)) = set (array_from s) \<union> set xs"
  by (induction xs arbitrary: s) (auto simp: array_from_set_add)

lemma distinct_foldl_set_add:
  "distinct (array_from s) \<Longrightarrow> distinct (array_from (foldl set_add s xs))"
  by (induction xs arbitrary: s) (auto simp: array_from_set_add)

lemma set_new_Set: "set (array_from (new_Set xs)) = set xs"
  by (simp add: new_Set_def set_foldl_set_add)

lemma distinct_new_Set: "distinct (array_from (new_Set xs))"
  by (simp add: new_Set_def distinct_foldl_set_add)

lemma map_keep_set_delete:
  "x \<notin> set arr \<Longrightarrow> map (keep arr) (set_delete s x) = map (keep arr) s"
  by (auto simp: set_delete_def keep_def)

lemma length_set_delete: "length (set_delete s x) = length s"
  by (simp add: set_delete_def)

text \<open>
  The inner loop returns from every index, on every set: the number of entries does not
  change, and the index grows. The entries before the index have been visited.
\<close>

lemma intersection_inner_eq:
  "\<forall>j<i. keep arr (s ! j) = s ! j \<Longrightarrow> intersection_inner arr s i = Some (map (keep arr) s)"
proof (induction "length s - i" arbitrary: s i)
  case 0
  then have "map (keep arr) s = s"
    by (auto simp: list_eq_iff_nth_eq)
  with 0 show ?case
    by (subst intersection_inner.simps) simp
next
  case (Suc n)
  then have i: "i < length s" by simp
  show ?case
  proof (cases "s ! i")
    case None
    have "\<forall>j<Suc i. keep arr (s ! j) = s ! j"
      using Suc.prems None by (auto simp: less_Suc_eq keep_def)
    moreover have "n = length s - Suc i" using Suc.hyps(2) by simp
    ultimately have "intersection_inner arr s (Suc i) = Some (map (keep arr) s)"
      using Suc.hyps(1) by blast
    then show ?thesis using i None
      by (subst intersection_inner.simps) simp
  next
    case (Some elem)
    show ?thesis
    proof (cases "elem \<in> set arr")
      case True
      have "\<forall>j<Suc i. keep arr (s ! j) = s ! j"
        using Suc.prems Some True by (auto simp: less_Suc_eq keep_def)
      moreover have "n = length s - Suc i" using Suc.hyps(2) by simp
      ultimately have "intersection_inner arr s (Suc i) = Some (map (keep arr) s)"
        using Suc.hyps(1) by blast
      then show ?thesis using i Some True
        by (subst intersection_inner.simps) simp
    next
      case False
      let ?s = "set_delete s elem"
      have "\<forall>j<Suc i. keep arr (?s ! j) = ?s ! j"
        using Suc.prems Some i by (auto simp: less_Suc_eq keep_def set_delete_def)
      moreover have "n = length ?s - Suc i"
        using Suc.hyps(2) by (simp add: length_set_delete)
      ultimately have "intersection_inner arr ?s (Suc i) = Some (map (keep arr) ?s)"
        using Suc.hyps(1) by blast
      then show ?thesis using i Some False
        by (subst intersection_inner.simps) (simp add: map_keep_set_delete)
    qed
  qed
qed

lemma array_from_map_keep:
  "array_from (map (keep arr) s) = filter (\<lambda>x. x \<in> set arr) (array_from s)"
  by (induction s) (auto simp: keep_def split: option.splits)

lemma intersection_outer_eq:
  "\<exists>r. intersection_outer arrs s = Some r \<and>
     array_from r = filter (\<lambda>x. \<forall>a\<in>set arrs. x \<in> set a) (array_from s)"
proof (induction arrs arbitrary: s)
  case Nil
  then show ?case by simp
next
  case (Cons arr arrs)
  have "intersection_inner arr s 0 = Some (map (keep arr) s)"
    by (rule intersection_inner_eq) simp
  moreover obtain r where "intersection_outer arrs (map (keep arr) s) = Some r"
    and "array_from r = filter (\<lambda>x. \<forall>a\<in>set arrs. x \<in> set a) (array_from (map (keep arr) s))"
    using Cons.IH by blast
  ultimately show ?case
    by (auto simp: array_from_map_keep intro!: filter_cong)
qed

lemma getArrayIntersection_eq:
  "getArrayIntersection arrs =
     Some (filter (\<lambda>x. \<forall>a\<in>set arrs. x \<in> set a)
             (array_from (new_Set (array_from (new_Set (concat arrs))))))"
  using intersection_outer_eq [of arrs "new_Set (array_from (new_Set (concat arrs)))"]
  by (auto simp: getArrayIntersection_def Let_def)

text \<open>
  C7. For every list of arrays, \<open>getArrayIntersection\<close> returns, and what it returns is
  free of duplicates and holds exactly the elements that occur in every one of the
  arrays; called with no array it returns the empty array.
\<close>

theorem getArrayIntersection_correct:
  "\<exists>r. getArrayIntersection arrs = Some r \<and> distinct r \<and>
       set r = {x \<in> \<Union> (set ` set arrs). \<forall>a\<in>set arrs. x \<in> set a} \<and>
       (arrs \<noteq> [] \<longrightarrow> set r = (\<Inter>a\<in>set arrs. set a)) \<and>
       (arrs = [] \<longrightarrow> r = [])"
proof -
  let ?u = "array_from (new_Set (array_from (new_Set (concat arrs))))"
  let ?r = "filter (\<lambda>x. \<forall>a\<in>set arrs. x \<in> set a) ?u"
  have u: "set ?u = \<Union> (set ` set arrs)"
    by (simp add: set_new_Set)
  have "getArrayIntersection arrs = Some ?r"
    by (rule getArrayIntersection_eq)
  moreover have "distinct ?r"
    by (simp add: distinct_new_Set)
  moreover have s: "set ?r = {x \<in> \<Union> (set ` set arrs). \<forall>a\<in>set arrs. x \<in> set a}"
    using u by auto
  moreover have "arrs \<noteq> [] \<longrightarrow> set ?r = (\<Inter>a\<in>set arrs. set a)"
  proof
    assume "arrs \<noteq> []"
    then obtain a where "a \<in> set arrs" by (cases arrs) auto
    then show "set ?r = (\<Inter>a\<in>set arrs. set a)"
      unfolding s by auto
  qed
  moreover have "arrs = [] \<longrightarrow> ?r = []"
    by (simp add: new_Set_def)
  ultimately show ?thesis by blast
qed

theorem getArrayIntersection_correct_witness:
  "\<exists>r. getArrayIntersection [[''a'', ''b'', ''c'', ''b''], [''c'', ''b'', ''e''], [''b'', ''c'']] = Some r
       \<and> distinct r \<and> set r = {''b'', ''c''}"
  using getArrayIntersection_correct
          [of "[[''a'', ''b'', ''c'', ''b''], [''c'', ''b'', ''e''], [''b'', ''c'']]"]
  by auto

subsection \<open>The alias tables\<close>

lemma map_of_insert_key:
  "map_of t k = None \<Longrightarrow> map_of (insert_key k v t) = (map_of t)(k \<mapsto> v)"
proof (induction t)
  case Nil
  then show ?case by simp
next
  case (Cons kv t)
  obtain k' v' where kv: "kv = (k', v')" by (cases kv)
  have ne: "k' \<noteq> k" and n: "map_of t k = None"
    using Cons.prems by (auto simp: kv split: if_splits)
  show ?case
    using Cons.IH [OF n] ne by (auto simp: kv fun_upd_twist)
qed

lemma keys_insert_key: "fst ` set (insert_key k v t) = insert k (fst ` set t)"
proof (induction t)
  case Nil
  then show ?case by simp
next
  case (Cons kv t)
  obtain k' v' where kv: "kv = (k', v')" by (cases kv)
  show ?case
  proof (cases "is_array_index k \<and> (\<not> is_array_index k' \<or> digits_value k < digits_value k')")
    case True
    then show ?thesis by (simp add: kv)
  next
    case False
    have "insert_key k v (kv # t) = (k', v') # insert_key k v t"
      unfolding kv insert_key.simps by (rule if_not_P [OF False])
    then show ?thesis
      using Cons.IH by (auto simp: kv)
  qed
qed

lemma distinct_insert_key:
  "k \<notin> fst ` set t \<Longrightarrow> distinct (map fst t) \<Longrightarrow> distinct (map fst (insert_key k v t))"
proof (induction t)
  case Nil
  then show ?case by simp
next
  case (Cons kv t)
  obtain k' v' where kv: "kv = (k', v')" by (cases kv)
  have "k' \<notin> fst ` set (insert_key k v t)"
    using Cons.prems by (auto simp: keys_insert_key kv)
  then show ?case
    using Cons by (auto simp: kv)
qed

lemma map_of_assign: "map_of (assign k v t) = (map_of t)(k \<mapsto> v)"
  by (simp add: assign_def hasOwn_def update_conv' map_of_insert_key)

lemma keys_assign: "fst ` set (assign k v t) = insert k (fst ` set t)"
proof -
  have "dom (map_of (assign k v t)) = insert k (dom (map_of t))"
    by (simp add: map_of_assign)
  then show ?thesis by (simp add: dom_map_of_conv_image_fst)
qed

lemma distinct_assign: "distinct (map fst t) \<Longrightarrow> distinct (map fst (assign k v t))"
  by (auto simp: assign_def hasOwn_def distinct_update map_of_eq_None_iff intro: distinct_insert_key)

lemma inv_lookup_push:
  "inv_lookup (push_prop prop acc alias) a =
     (if a = alias then inv_lookup acc a @ [prop] else inv_lookup acc a)"
  by (simp add: inv_lookup_def push_prop_def map_of_assign)

lemma inv_lookup_foldl_push:
  "inv_lookup (foldl (push_prop prop) acc as) a = inv_lookup acc a @ replicate (count_list as a) prop"
  by (induction as arbitrary: acc) (auto simp: inv_lookup_push replicate_app_Cons_same)

lemma inv_lookup_foldl:
  "inv_lookup (foldl (\<lambda>acc (prop, e). foldl (push_prop prop) acc (aliases_or_empty e)) acc cfg) a =
     inv_lookup acc a @ concat (map (\<lambda>(prop, e). replicate (count_list (aliases_or_empty e) a) prop) cfg)"
  by (induction cfg arbitrary: acc) (auto simp: inv_lookup_foldl_push)

lemma nonempty_push: "nonempty_values acc \<Longrightarrow> nonempty_values (push_prop prop acc alias)"
  by (auto simp: nonempty_values_def push_prop_def map_of_assign)

lemma nonempty_foldl_push: "nonempty_values acc \<Longrightarrow> nonempty_values (foldl (push_prop prop) acc as)"
  by (induction as arbitrary: acc) (auto simp: nonempty_push)

lemma nonempty_foldl:
  "nonempty_values acc \<Longrightarrow>
   nonempty_values (foldl (\<lambda>acc (prop, e). foldl (push_prop prop) acc (aliases_or_empty e)) acc cfg)"
  by (induction cfg arbitrary: acc) (auto simp: nonempty_foldl_push)

lemma nonempty_alias_table: "nonempty_values (alias_table inp)"
  unfolding alias_table_def by (rule nonempty_foldl) (simp add: nonempty_values_def)

lemma inv_lookup_alias_table:
  "inv_lookup (alias_table inp) a =
     concat (map (\<lambda>(prop, e). replicate (count_list (aliases_or_empty e) a) prop) (stylePropConfig inp))"
  unfolding alias_table_def by (simp add: inv_lookup_foldl) (simp add: inv_lookup_def)

lemma distinct_push: "distinct (map fst acc) \<Longrightarrow> distinct (map fst (push_prop prop acc alias))"
  by (simp add: push_prop_def distinct_assign)

lemma distinct_foldl_push: "distinct (map fst acc) \<Longrightarrow> distinct (map fst (foldl (push_prop prop) acc as))"
  by (induction as arbitrary: acc) (auto simp: distinct_push)

lemma distinct_alias_table_aux:
  "distinct (map fst acc) \<Longrightarrow>
   distinct (map fst (foldl (\<lambda>acc (prop, e). foldl (push_prop prop) acc (aliases_or_empty e)) acc cfg))"
  by (induction cfg arbitrary: acc) (auto simp: distinct_foldl_push)

lemma distinct_alias_table: "distinct (map fst (alias_table inp))"
  unfolding alias_table_def by (rule distinct_alias_table_aux) simp

lemma map_of_alias_table:
  "map_of (alias_table inp) a =
     (let ps = concat (map (\<lambda>(prop, e). replicate (count_list (aliases_or_empty e) a) prop) (stylePropConfig inp))
      in if ps = [] then None else Some ps)"
proof (cases "map_of (alias_table inp) a")
  case None
  then show ?thesis
    using inv_lookup_alias_table [of inp a] by (simp add: inv_lookup_def Let_def)
next
  case (Some ps)
  then have "ps \<noteq> []"
    using nonempty_alias_table [of inp] by (auto simp: nonempty_values_def)
  with Some show ?thesis
    using inv_lookup_alias_table [of inp a] by (simp add: inv_lookup_def Let_def)
qed

lemma set_allAliases:
  "set (allAliases inp) = (\<Union>(prop, e)\<in>set (stylePropConfig inp). set (aliases_or_empty e))"
  by (auto simp: allAliases_def set_new_Set)


text \<open>
  The loop that builds \<open>inverseAliases\<close> throws exactly when some alias has the name of
  a member of \<open>Object.prototype\<close>; otherwise it builds the table.
\<close>

lemma push_alias_eq:
  assumes "no_prototype_keys acc"
  shows "push_alias prop acc alias =
     (if alias \<in> set prototype_members then Inl TypeError else Inr (push_prop prop acc alias))"
proof (cases "map_of acc alias")
  case None
  then show ?thesis by (simp add: push_alias_def push_prop_def)
next
  case (Some props)
  then have "alias \<in> fst ` set acc"
    by (metis domI dom_map_of_conv_image_fst)
  then have "alias \<notin> set prototype_members"
    using assms unfolding no_prototype_keys_def by blast
  with Some show ?thesis by (simp add: push_alias_def push_prop_def)
qed

lemma no_prototype_keys_push:
  "no_prototype_keys acc \<Longrightarrow> alias \<notin> set prototype_members \<Longrightarrow>
   no_prototype_keys (push_prop prop acc alias)"
  by (simp add: no_prototype_keys_def push_prop_def keys_assign)

lemma fold_throw_push:
  "no_prototype_keys acc \<Longrightarrow>
   (if list_ex (\<lambda>a. a \<in> set prototype_members) as
    then fold_throw (push_alias prop) acc as = Inl TypeError
    else fold_throw (push_alias prop) acc as = Inr (foldl (push_prop prop) acc as) \<and>
         no_prototype_keys (foldl (push_prop prop) acc as))"
proof (induction as arbitrary: acc)
  case Nil
  then show ?case by simp
next
  case (Cons a as)
  show ?case
  proof (cases "a \<in> set prototype_members")
    case True
    then show ?thesis using Cons.prems by (simp add: push_alias_eq)
  next
    case False
    then have "no_prototype_keys (push_prop prop acc a)"
      using Cons.prems by (simp add: no_prototype_keys_push)
    then show ?thesis
      using Cons.IH [of "push_prop prop acc a"] Cons.prems False by (simp add: push_alias_eq)
  qed
qed

lemma fold_throw_config:
  "no_prototype_keys acc \<Longrightarrow>
   (if list_ex (\<lambda>(prop, e). list_ex (\<lambda>a. a \<in> set prototype_members) (aliases_or_empty e)) cfg
    then fold_throw (\<lambda>acc (prop, e). fold_throw (push_alias prop) acc (aliases_or_empty e)) acc cfg
           = Inl TypeError
    else fold_throw (\<lambda>acc (prop, e). fold_throw (push_alias prop) acc (aliases_or_empty e)) acc cfg
           = Inr (foldl (\<lambda>acc (prop, e). foldl (push_prop prop) acc (aliases_or_empty e)) acc cfg))"
proof (induction cfg arbitrary: acc)
  case Nil
  then show ?case by simp
next
  case (Cons pe cfg)
  obtain p e where pe: "pe = (p, e)" by (cases pe)
  note inner = fold_throw_push [OF Cons.prems, of "aliases_or_empty e" p]
  show ?case
  proof (cases "list_ex (\<lambda>a. a \<in> set prototype_members) (aliases_or_empty e)")
    case True
    then show ?thesis using inner by (simp add: pe)
  next
    case False
    then have f: "fold_throw (push_alias p) acc (aliases_or_empty e) =
        Inr (foldl (push_prop p) acc (aliases_or_empty e))"
      and n: "no_prototype_keys (foldl (push_prop p) acc (aliases_or_empty e))"
      using inner by simp_all
    show ?thesis
      using Cons.IH [OF n] False f by (simp add: pe)
  qed
qed

lemma inverseAliases_eq:
  "inverseAliases inp = (if prototype_alias inp then Inl TypeError else Inr (alias_table inp))"
  using fold_throw_config [of "[]" "stylePropConfig inp"]
  by (simp add: inverseAliases_def alias_table_def prototype_alias_def no_prototype_keys_def)

lemma inverseAliases_Inr:
  "inverseAliases inp = Inr table \<longleftrightarrow> \<not> prototype_alias inp \<and> table = alias_table inp"
  by (auto simp: inverseAliases_eq)




subsection \<open>Alias verification\<close>

lemma js_error_eq: "(e :: js_error) = TypeError"
  by (cases e) simp

lemma map_throw_Inr:
  "(\<And>x. x \<in> set xs \<Longrightarrow> f x = Inr (g x)) \<Longrightarrow> map_throw f xs = Inr (map g xs)"
  by (induction xs) auto

lemma map_throw_Inl:
  "x \<in> set xs \<Longrightarrow> f x = Inl e \<Longrightarrow> map_throw f xs = Inl TypeError"
  by (induction xs) (auto simp: js_error_eq split: sum.splits)

lemma lookupTypes_eq:
  "lookupTypes inp props =
     (if list_all (hasOwn (cssLonghandProperties inp)) props
      then Inr (map (types_of inp) props) else Inl TypeError)"
proof (cases "list_all (hasOwn (cssLonghandProperties inp)) props")
  case True
  have "map_throw (\<lambda>prop. case get (cssLonghandProperties inp) prop of
                          Inl e \<Rightarrow> Inl e | Inr l \<Rightarrow> Inr (type l)) props
        = Inr (map (types_of inp) props)"
    using True
    by (intro map_throw_Inr) (auto simp: list_all_iff hasOwn_def get_def types_of_def)
  with True show ?thesis by (simp add: lookupTypes_def)
next
  case False
  then obtain p where p: "p \<in> set props" "map_of (cssLonghandProperties inp) p = None"
    by (auto simp: list_all_iff hasOwn_def)
  have "map_throw (\<lambda>prop. case get (cssLonghandProperties inp) prop of
                          Inl e \<Rightarrow> Inl e | Inr l \<Rightarrow> Inr (type l)) props = Inl TypeError"
    by (rule map_throw_Inl [OF p(1), of _ TypeError]) (simp add: get_def p(2))
  with False show ?thesis by (simp add: lookupTypes_def)
qed

lemma has_overlap_iff:
  "has_overlap inp props \<longleftrightarrow>
     props \<noteq> [] \<and> (\<exists>t. \<forall>prop\<in>set props. t \<in> set (types_of inp prop))"
proof (cases props)
  case Nil
  then show ?thesis by (simp add: has_overlap_def)
next
  case (Cons p ps)
  then show ?thesis
    by (auto simp: has_overlap_def list_ex_iff list_all_iff)
qed

lemma has_overlap_cong: "set ps = set qs \<Longrightarrow> has_overlap inp ps = has_overlap inp qs"
  by (auto simp: has_overlap_iff)

lemma getArrayIntersection_types:
  "\<exists>r. getArrayIntersection (map (types_of inp) props) = Some r \<and>
       (length r = 0 \<longleftrightarrow> \<not> has_overlap inp props)"
proof -
  let ?arrs = "map (types_of inp) props"
  obtain r where r: "getArrayIntersection ?arrs = Some r"
    and s: "set r = {x \<in> \<Union> (set ` set ?arrs). \<forall>a\<in>set ?arrs. x \<in> set a}"
    using getArrayIntersection_eq [of ?arrs] by (auto simp: set_new_Set)
  have "r = [] \<longleftrightarrow> set r = {}" by simp
  also have "\<dots> \<longleftrightarrow> \<not> has_overlap inp props"
    unfolding s by (auto simp: has_overlap_def list_ex_iff list_all_iff)
  finally show ?thesis using r by simp
qed

lemma typeMismatches_loop_eq:
  "typeMismatches_loop inp entries acc =
     (if entries_known inp entries
      then Some (Inr (acc @ map fst (filter (\<lambda>(alias, props). \<not> has_overlap inp props) entries)))
      else Some (Inl TypeError))"
proof (induction entries arbitrary: acc)
  case Nil
  then show ?case by (simp add: entries_known_def)
next
  case (Cons entry entries)
  obtain al props where entry: "entry = (al, props)" by (cases entry)
  show ?case
  proof (cases "list_all (hasOwn (cssLonghandProperties inp)) props")
    case False
    then show ?thesis by (simp add: entry lookupTypes_eq entries_known_def)
  next
    case True
    obtain r where r: "getArrayIntersection (map (types_of inp) props) = Some r"
      and e: "length r = 0 \<longleftrightarrow> \<not> has_overlap inp props"
      using getArrayIntersection_types by blast
    show ?thesis
      using True r e Cons.IH by (simp add: entry lookupTypes_eq entries_known_def)
  qed
qed


lemma set_concat_replicate:
  "set (concat (map (\<lambda>(prop, e). replicate (count_list (aliases_or_empty e) a) prop) cfg)) =
     {p. \<exists>e. (p, e) \<in> set cfg \<and> a \<in> set (aliases_or_empty e)}"
  by (auto simp: count_list_0_iff)

lemma set_constituents:
  "set (constituents inp a) =
     {p. \<exists>e. (p, e) \<in> set (stylePropConfig inp) \<and> a \<in> set (aliases_or_empty e)}"
  by (auto simp: constituents_def) force

lemma in_allAliases_iff:
  "a \<in> set (allAliases inp) \<longleftrightarrow>
     (\<exists>p e. (p, e) \<in> set (stylePropConfig inp) \<and> a \<in> set (aliases_or_empty e))"
  by (auto simp: set_allAliases)

lemma inverse_entry:
  assumes "(a, ps) \<in> set (alias_table inp)"
  shows "set ps = set (constituents inp a)" and "ps \<noteq> []"
proof -
  have m: "map_of (alias_table inp) a = Some ps"
    using assms by (simp add: distinct_alias_table)
  then show "ps \<noteq> []"
    using nonempty_alias_table [of inp] by (auto simp: nonempty_values_def)
  have "ps = concat (map (\<lambda>(prop, e). replicate (count_list (aliases_or_empty e) a) prop)
                       (stylePropConfig inp))"
    using m by (simp add: map_of_alias_table Let_def split: if_splits)
  then show "set ps = set (constituents inp a)"
    by (simp only: set_concat_replicate set_constituents)
qed

lemma inverse_keys: "fst ` set (alias_table inp) = set (allAliases inp)"
proof -
  have "a \<in> fst ` set (alias_table inp) \<longleftrightarrow> a \<in> set (allAliases inp)" for a
  proof -
    let ?ps = "concat (map (\<lambda>(prop, e). replicate (count_list (aliases_or_empty e) a) prop)
                       (stylePropConfig inp))"
    have "a \<in> fst ` set (alias_table inp) \<longleftrightarrow> map_of (alias_table inp) a \<noteq> None"
      by (simp add: map_of_eq_None_iff)
    also have "\<dots> \<longleftrightarrow> ?ps \<noteq> []"
      by (simp add: map_of_alias_table Let_def)
    also have "\<dots> \<longleftrightarrow> set ?ps \<noteq> {}"
      by (simp only: set_empty)
    also have "\<dots> \<longleftrightarrow> a \<in> set (allAliases inp)"
      unfolding set_concat_replicate in_allAliases_iff by auto
    finally show ?thesis .
  qed
  then show ?thesis by blast
qed

lemma entries_known_inverse:
  "entries_known inp (alias_table inp) \<longleftrightarrow> aliased_props_known inp"
proof
  assume k: "entries_known inp (alias_table inp)"
  have "aliases_or_empty e = [] \<or> hasOwn (cssLonghandProperties inp) p"
    if pe: "(p, e) \<in> set (stylePropConfig inp)" for p e
  proof (cases "aliases_or_empty e")
    case Nil
    then show ?thesis by simp
  next
    case (Cons a as)
    then have "a \<in> set (aliases_or_empty e)"
      by simp
    then have "a \<in> set (allAliases inp)"
      using pe unfolding in_allAliases_iff by blast
    then obtain ps where ps: "(a, ps) \<in> set (alias_table inp)"
      using inverse_keys [of inp] by force
    have "p \<in> set (constituents inp a)"
      using pe \<open>a \<in> set (aliases_or_empty e)\<close> unfolding set_constituents by blast
    then have "p \<in> set ps"
      using inverse_entry(1) [OF ps] by simp
    then show ?thesis
      using k ps by (auto simp: entries_known_def list_all_iff)
  qed
  then show "aliased_props_known inp"
    by (auto simp: aliased_props_known_def list_all_iff)
next
  assume k: "aliased_props_known inp"
  have "hasOwn (cssLonghandProperties inp) p"
    if ps: "(a, ps) \<in> set (alias_table inp)" and p: "p \<in> set ps" for a ps p
  proof -
    have "p \<in> set (constituents inp a)"
      using inverse_entry(1) [OF ps] p by simp
    then obtain e where "(p, e) \<in> set (stylePropConfig inp)" "a \<in> set (aliases_or_empty e)"
      by (auto simp: set_constituents)
    then show ?thesis
      using k by (auto simp: aliased_props_known_def list_all_iff)
  qed
  then show "entries_known inp (alias_table inp)"
    by (auto simp: entries_known_def list_all_iff)
qed

lemma mismatch_iff:
  "filter (\<lambda>(a, props). \<not> has_overlap inp props) (alias_table inp) \<noteq> [] \<longleftrightarrow> type_mismatch inp"
proof
  assume "filter (\<lambda>(a, props). \<not> has_overlap inp props) (alias_table inp) \<noteq> []"
  then obtain a ps where ps: "(a, ps) \<in> set (alias_table inp)" and o: "\<not> has_overlap inp ps"
    by (auto simp: filter_empty_conv)
  have "a \<in> set (allAliases inp)"
    using ps inverse_keys [of inp] by force
  then obtain p e where "(p, e) \<in> set (stylePropConfig inp)" "a \<in> set (aliases_or_empty e)"
    by (auto simp: in_allAliases_iff)
  moreover have "\<not> has_overlap inp (constituents inp a)"
    using o has_overlap_cong [OF inverse_entry(1) [OF ps], of inp] by simp
  ultimately show "type_mismatch inp"
    by (auto simp: type_mismatch_def list_ex_iff)
next
  assume "type_mismatch inp"
  then obtain p e a where pe: "(p, e) \<in> set (stylePropConfig inp)" "a \<in> set (aliases_or_empty e)"
    and o: "\<not> has_overlap inp (constituents inp a)"
    by (auto simp: type_mismatch_def list_ex_iff)
  have "a \<in> set (allAliases inp)"
    using pe by (auto simp: in_allAliases_iff)
  then obtain ps where ps: "(a, ps) \<in> set (alias_table inp)"
    using inverse_keys [of inp] by force
  have "\<not> has_overlap inp ps"
    using o has_overlap_cong [OF inverse_entry(1) [OF ps], of inp] by simp
  with ps show "filter (\<lambda>(a, props). \<not> has_overlap inp props) (alias_table inp) \<noteq> []"
    by (auto simp: filter_empty_conv)
qed

lemma collisions_iff: "aliasCollisions inp \<noteq> [] \<longleftrightarrow> alias_collision inp"
  by (fastforce simp: aliasCollisions_def alias_collision_def filter_empty_conv list_ex_iff
        in_allAliases_iff)

lemma map_throw_ex:
  "(\<And>x. x \<in> set xs \<Longrightarrow> \<exists>y. f x = Inr y) \<Longrightarrow> \<exists>ys. map_throw f xs = Inr ys"
proof (induction xs)
  case Nil
  then show ?case by simp
next
  case (Cons x xs)
  obtain y where "f x = Inr y" using Cons.prems by auto
  moreover obtain ys where "map_throw f xs = Inr ys" using Cons by auto
  ultimately show ?case by simp
qed

lemma mismatchAlias_Inr:
  assumes "entries_known inp (alias_table inp)" and "(a, ps) \<in> set (alias_table inp)"
  shows "\<exists>m. mismatchAlias inp (alias_table inp) a = Inr m"
proof -
  let ?line = "\<lambda>prop. case get (cssLonghandProperties inp) prop of
                        Inl e \<Rightarrow> Inl e
                      | Inr l \<Rightarrow> Inr (prop @ '': '' @ join '' | '' (type l) @ '';'')"
  have g: "get (alias_table inp) a = Inr ps"
    using assms(2) by (simp add: get_def distinct_alias_table)
  have "\<exists>y. ?line q = Inr y" if "q \<in> set ps" for q
  proof -
    have "hasOwn (cssLonghandProperties inp) q"
      using assms that by (auto simp: entries_known_def list_all_iff)
    then show ?thesis
      by (auto simp: hasOwn_def get_def)
  qed
  then have "\<exists>lines. map_throw ?line ps = Inr lines"
    by (rule map_throw_ex)
  then obtain lines where "map_throw ?line ps = Inr lines" ..
  with g show ?thesis by (simp add: mismatchAlias_def)
qed

lemma mismatchMessage_Inr:
  assumes "entries_known inp (alias_table inp)" and "set mm \<subseteq> fst ` set (alias_table inp)"
  shows "\<exists>m. mismatchMessage inp (alias_table inp) mm = Inr m"
proof -
  have "\<exists>y. mismatchAlias inp (alias_table inp) a = Inr y" if am: "a \<in> set mm" for a
  proof -
    obtain ps where "(a, ps) \<in> set (alias_table inp)"
      using assms(2) am by force
    then show ?thesis
      by (rule mismatchAlias_Inr [OF assms(1)])
  qed
  then have "\<exists>blocks. map_throw (mismatchAlias inp (alias_table inp)) mm = Inr blocks"
    by (rule map_throw_ex)
  then obtain blocks where "map_throw (mismatchAlias inp (alias_table inp)) mm = Inr blocks" ..
  then show ?thesis by (simp add: mismatchMessage_def)
qed

lemma verifyAliases_throw:
  "\<not> aliased_props_known inp \<Longrightarrow> verifyAliases inp (alias_table inp) = Some ([], Throw TypeError)"
  by (simp add: verifyAliases_def typeMismatches_loop_eq entries_known_inverse)

lemma verifyAliases_normal:
  "aliased_props_known inp \<Longrightarrow> \<not> alias_collision inp \<Longrightarrow> \<not> type_mismatch inp \<Longrightarrow>
   verifyAliases inp (alias_table inp) = Some ([], Normal ())"
  using mismatch_iff [of inp] collisions_iff [of inp]
  by (simp add: verifyAliases_def typeMismatches_loop_eq entries_known_inverse)

lemma verifyAliases_exit:
  assumes "aliased_props_known inp" and "alias_collision inp \<or> type_mismatch inp"
  shows "\<exists>printed. verifyAliases inp (alias_table inp) = Some (printed, Exit (- 1)) \<and> printed \<noteq> []"
proof -
  let ?mm = "map fst (filter (\<lambda>(a, props). \<not> has_overlap inp props) (alias_table inp))"
  have k: "entries_known inp (alias_table inp)"
    using assms(1) by (simp add: entries_known_inverse)
  have loop: "typeMismatches_loop inp (alias_table inp) [] = Some (Inr ?mm)"
    using k by (simp add: typeMismatches_loop_eq)
  have "set ?mm \<subseteq> fst ` set (alias_table inp)"
    by auto
  then obtain m where m: "mismatchMessage inp (alias_table inp) ?mm = Inr m"
    using mismatchMessage_Inr [OF k] by blast
  have c: "aliasCollisions inp \<noteq> [] \<or> ?mm \<noteq> []"
    using assms(2) mismatch_iff [of inp] collisions_iff [of inp] by auto
  show ?thesis
  proof (cases "?mm = []")
    case True
    with c have "aliasCollisions inp \<noteq> []" by simp
    with True loop show ?thesis
      by (simp add: verifyAliases_def Let_def)
  next
    case False
    with loop m show ?thesis
      by (simp add: verifyAliases_def Let_def)
  qed
qed

lemma verifyAliases_Normal_iff:
  "verifyAliases inp (alias_table inp) = Some (printed, Normal u) \<longleftrightarrow>
     printed = [] \<and> aliased_props_known inp \<and> \<not> alias_collision inp \<and> \<not> type_mismatch inp"
proof (cases "aliased_props_known inp")
  case False
  then show ?thesis by (simp add: verifyAliases_throw)
next
  case known: True
  show ?thesis
  proof (cases "alias_collision inp \<or> type_mismatch inp")
    case True
    then obtain p where "verifyAliases inp (alias_table inp) = Some (p, Exit (- 1))"
      using verifyAliases_exit [OF known] by blast
    with True show ?thesis by auto
  next
    case False
    then show ?thesis using known by (auto simp: verifyAliases_normal)
  qed
qed

subsection \<open>The types file\<close>

lemma arraysAreEqualSets_Nil: "arraysAreEqualSets [] = True"
  by (simp add: arraysAreEqualSets_def)

lemma getArrayIntersection_ex: "\<exists>r. getArrayIntersection arrs = Some r"
  by (simp add: getArrayIntersection_eq)

lemma createMinimumCommonUnionForAlias_unknown:
  "\<not> list_all (hasOwn (cssLonghandProperties inp)) props \<Longrightarrow>
   createMinimumCommonUnionForAlias inp props = Some (Inl TypeError)"
  by (simp add: createMinimumCommonUnionForAlias_def lookupTypes_eq)

lemma createMinimumCommonUnionForAlias_known:
  assumes "list_all (hasOwn (cssLonghandProperties inp)) props"
  shows "\<exists>r. createMinimumCommonUnionForAlias inp props = Some (Inr r) \<and>
     (arraysAreEqualSets (map (types_of inp) props) \<longrightarrow>
        r = ''LonghandStyleProps['' @ [CHR 0x27] @ first_key props @ [CHR 0x27] @ '']'') \<and>
     (\<not> arraysAreEqualSets (map (types_of inp) props) \<and> \<not> has_overlap inp props \<longrightarrow>
        r = ''never'') \<and>
     (\<not> arraysAreEqualSets (map (types_of inp) props) \<and> has_overlap inp props \<longrightarrow>
        (\<exists>typesToRemoveFromFirst.
           r = endent inp
                 [''\<newline>      Exclude<\<newline>          LonghandStyleProps['' @ [CHR 0x27],
                  [CHR 0x27] @ ''],\<newline>          '',
                  ''\<newline>        >\<newline>    '']
                 [first_key props, generateTSPickList typesToRemoveFromFirst 0]))"
proof -
  let ?types = "map (types_of inp) props"
  have l: "lookupTypes inp props = Inr ?types"
    using assms by (simp add: lookupTypes_eq)
  obtain i where i: "getArrayIntersection ?types = Some i"
    and e: "length i = 0 \<longleftrightarrow> \<not> has_overlap inp props"
    using getArrayIntersection_types by blast
  show ?thesis
  proof (cases "arraysAreEqualSets ?types")
    case True
    then show ?thesis by (simp add: createMinimumCommonUnionForAlias_def l)
  next
    case ne: False
    then obtain first rest where t: "?types = first # rest"
      by (cases ?types) (auto simp: arraysAreEqualSets_Nil)
    show ?thesis
    proof (cases "has_overlap inp props")
      case False
      with ne e i show ?thesis by (simp add: createMinimumCommonUnionForAlias_def l)
    next
      case True
      obtain rm where rm: "getArrayIntersection [first, getArrayDifference [concat ?types, i]] = Some rm"
        using getArrayIntersection_ex by blast
      have "createMinimumCommonUnionForAlias inp props =
              Some (Inr (endent inp
                 [''\<newline>      Exclude<\<newline>          LonghandStyleProps['' @ [CHR 0x27],
                  [CHR 0x27] @ ''],\<newline>          '',
                  ''\<newline>        >\<newline>    '']
                 [first_key props, generateTSPickList rm 0]))"
        using ne True e i rm t
        by (simp add: createMinimumCommonUnionForAlias_def l Let_def del: map_eq_Cons_conv)
      with ne True show ?thesis by blast
    qed
  qed
qed

lemma createMinimumCommonUnionForAlias_ex:
  "\<exists>x. createMinimumCommonUnionForAlias inp props = Some x"
  using createMinimumCommonUnionForAlias_known [of inp props]
    createMinimumCommonUnionForAlias_unknown [of inp props]
  by (cases "list_all (hasOwn (cssLonghandProperties inp)) props") auto

lemma aliasMember_ex: "\<exists>x. aliasMember inp entry = Some x"
proof -
  obtain a ps where entry: "entry = (a, ps)" by (cases entry)
  obtain x where "createMinimumCommonUnionForAlias inp ps = Some x"
    using createMinimumCommonUnionForAlias_ex by blast
  then show ?thesis
    by (cases x) (auto simp: aliasMember_def entry Let_def split: sum.splits)
qed

lemma aliasMembers_ex: "\<exists>x. aliasMembers inp entries = Some x"
proof (induction entries)
  case Nil
  then show ?case by simp
next
  case (Cons entry entries)
  obtain x where "aliasMember inp entry = Some x" using aliasMember_ex by blast
  moreover obtain y where "aliasMembers inp entries = Some y" using Cons by blast
  ultimately show ?case by (auto split: sum.splits)
qed

lemma fallbackLine_Inr:
  "map_of (stylePropConfig inp) p = Some e \<Longrightarrow> aliases e = Some as \<Longrightarrow>
   \<exists>line. fallbackLine inp p = Inr line"
  by (simp add: fallbackLine_def get_def)

lemma aliasMember_Inr:
  assumes "list_all (hasOwn (cssLonghandProperties inp)) ps"
    and "\<And>p. p \<in> set ps \<Longrightarrow> \<exists>line. fallbackLine inp p = Inr line"
  shows "\<exists>m. aliasMember inp (a, ps) = Some (Inr m)"
proof -
  have "\<exists>fallbacks. map_throw (fallbackLine inp) ps = Inr fallbacks"
    using assms(2) by (rule map_throw_ex)
  then obtain fallbacks where f: "map_throw (fallbackLine inp) ps = Inr fallbacks" ..
  obtain r where "createMinimumCommonUnionForAlias inp ps = Some (Inr r)"
    using createMinimumCommonUnionForAlias_known [OF assms(1)] by blast
  with f show ?thesis by (simp add: aliasMember_def Let_def)
qed

lemma aliasMembers_Inr:
  assumes "\<And>entry. entry \<in> set entries \<Longrightarrow> \<exists>m. aliasMember inp entry = Some (Inr m)"
  shows "\<exists>ms. aliasMembers inp entries = Some (Inr ms)"
  using assms
proof (induction entries)
  case Nil
  then show ?case by simp
next
  case (Cons entry entries)
  have "\<exists>m. aliasMember inp entry = Some (Inr m)"
    by (rule Cons.prems) simp
  then obtain m where "aliasMember inp entry = Some (Inr m)" ..
  moreover have "\<exists>ms. aliasMembers inp entries = Some (Inr ms)"
    by (rule Cons.IH) (rule Cons.prems, simp)
  then obtain ms where "aliasMembers inp entries = Some (Inr ms)" ..
  ultimately show ?case by simp
qed

subsection \<open>The script\<close>



lemma getArrayIntersection_value: "getArrayIntersection arrs = Some (intersection_value arrs)"
  by (simp add: getArrayIntersection_eq intersection_value_def)

lemma verifyAliases_returns: "\<exists>printed c. verifyAliases inp table = Some (printed, c)"
proof (cases "entries_known inp table")
  case False
  then show ?thesis by (simp add: verifyAliases_def typeMismatches_loop_eq)
next
  case True
  let ?mm = "map fst (filter (\<lambda>(a, props). \<not> has_overlap inp props) table)"
  have loop: "typeMismatches_loop inp table [] = Some (Inr ?mm)"
    using True by (simp add: typeMismatches_loop_eq)
  show ?thesis
    by (cases "mismatchMessage inp table ?mm") (auto simp: verifyAliases_def loop Let_def)
qed

lemma writeTSProperties_returns: "\<exists>x. writeTSProperties inp table = Some x"
proof -
  obtain x where "aliasMembers inp table = Some x"
    using aliasMembers_ex by blast
  then show ?thesis
    by (cases x) (simp_all add: writeTSProperties_def)
qed

text \<open>The texts of the types file, when nothing throws.\<close>

lemma fallbackLine_text:
  "map_of (stylePropConfig inp) p = Some e \<Longrightarrow> aliases e = Some as \<Longrightarrow>
   fallbackLine inp p = Inr (fallback_text inp p)"
  by (simp add: fallbackLine_def fallback_text_def get_def aliases_or_empty_def)
     (rule arg_cong [of _ _ "join '' ?? ''"], simp)

lemma createMinimumCommonUnionForAlias_text:
  assumes "list_all (hasOwn (cssLonghandProperties inp)) ps" and "has_overlap inp ps"
  shows "createMinimumCommonUnionForAlias inp ps = Some (Inr (alias_type_text inp ps))"
proof -
  let ?types = "map (types_of inp) ps"
  have l: "lookupTypes inp ps = Inr ?types"
    using assms(1) by (simp add: lookupTypes_eq)
  have "length (intersection_value ?types) \<noteq> 0"
    using getArrayIntersection_types [of inp ps] assms(2)
    by (simp add: getArrayIntersection_value)
  then have ne: "intersection_value ?types \<noteq> []" by simp
  show ?thesis
  proof (cases "arraysAreEqualSets ?types")
    case True
    then show ?thesis
      by (simp add: createMinimumCommonUnionForAlias_def alias_type_text_def l)
  next
    case False
    then obtain first rest where t: "?types = first # rest"
      by (cases ?types) (auto simp: arraysAreEqualSets_Nil)
    show ?thesis
      using False ne t
      by (simp add: createMinimumCommonUnionForAlias_def alias_type_text_def l Let_def
            getArrayIntersection_value del: map_eq_Cons_conv)
  qed
qed

lemma aliasMember_text:
  assumes "list_all (hasOwn (cssLonghandProperties inp)) ps" and "has_overlap inp ps"
    and "\<And>p. p \<in> set ps \<Longrightarrow> fallbackLine inp p = Inr (fallback_text inp p)"
  shows "aliasMember inp (a, ps) = Some (Inr (alias_member_text inp (a, ps)))"
proof -
  have "map_throw (fallbackLine inp) ps = Inr (map (fallback_text inp) ps)"
    using assms(3) by (rule map_throw_Inr)
  then show ?thesis
    using createMinimumCommonUnionForAlias_text [OF assms(1,2)]
    by (simp add: aliasMember_def alias_member_text_def Let_def)
qed

lemma aliasMembers_text:
  assumes "\<And>entry. entry \<in> set entries \<Longrightarrow> aliasMember inp entry = Some (Inr (g entry))"
  shows "aliasMembers inp entries = Some (Inr (map g entries))"
  using assms
proof (induction entries)
  case Nil
  then show ?case by simp
next
  case (Cons entry entries)
  have "aliasMember inp entry = Some (Inr (g entry))"
    by (rule Cons.prems) simp
  moreover have "aliasMembers inp entries = Some (Inr (map g entries))"
    by (rule Cons.IH) (rule Cons.prems, simp)
  ultimately show ?case by simp
qed

lemma table_entry:
  assumes "aliased_props_known inp" and "\<not> type_mismatch inp"
    and "(a, ps) \<in> set (alias_table inp)"
  shows "list_all (hasOwn (cssLonghandProperties inp)) ps" and "has_overlap inp ps"
proof -
  show "list_all (hasOwn (cssLonghandProperties inp)) ps"
    using assms(1,3) entries_known_inverse [of inp]
    by (auto simp: entries_known_def list_all_iff)
  have "filter (\<lambda>(a, props). \<not> has_overlap inp props) (alias_table inp) = []"
    using assms(2) mismatch_iff [of inp] by blast
  then show "has_overlap inp ps"
    using assms(3) by (auto simp: filter_empty_conv)
qed

lemma writeTSProperties_text:
  assumes d: "distinct (map fst (stylePropConfig inp))"
    and k: "aliased_props_known inp" and m: "\<not> type_mismatch inp"
  shows "writeTSProperties inp (alias_table inp) =
     Some (Inr (template tsTemplate
            [[],
             joinEnglish (map snd (modifiersData inp)),
             join ''\<newline>'' (map (alias_member_text inp) (alias_table inp)),
             disallowedStandardLonghandProperties inp,
             stylePropAliasFallbacks inp,
             stylePropDefaults inp,
             stringify_array_indented inp (disallowedCSSPropertyValues inp),
             longhandTokenGroupMap inp,
             aliasTokenGroupMap inp (alias_table inp),
             stringify inp (cssCustomPropertyNamespace inp),
             stringify_array inp (map snd (modifiersData inp)),
             BoxValueMapperFactory_toString inp]))"
proof -
  have "aliasMember inp entry = Some (Inr (alias_member_text inp entry))"
    if en: "entry \<in> set (alias_table inp)" for entry
  proof -
    obtain a ps where entry: "entry = (a, ps)" by (cases entry)
    have aps: "(a, ps) \<in> set (alias_table inp)"
      using en by (simp add: entry)
    have "fallbackLine inp p = Inr (fallback_text inp p)" if p: "p \<in> set ps" for p
    proof -
      have "p \<in> set (constituents inp a)"
        using inverse_entry(1) [OF aps] p by simp
      then obtain e where e: "(p, e) \<in> set (stylePropConfig inp)" "a \<in> set (aliases_or_empty e)"
        by (auto simp: set_constituents)
      have "map_of (stylePropConfig inp) p = Some e"
        using d e(1) by simp
      moreover obtain as where "aliases e = Some as"
        using e(2) by (cases "aliases e") (auto simp: aliases_or_empty_def)
      ultimately show ?thesis by (rule fallbackLine_text)
    qed
    then show ?thesis
      unfolding entry by (rule aliasMember_text [OF table_entry [OF k m aps]])
  qed
  then have "aliasMembers inp (alias_table inp) =
      Some (Inr (map (alias_member_text inp) (alias_table inp)))"
    by (rule aliasMembers_text)
  then show ?thesis
    by (simp add: writeTSProperties_def)
qed

text \<open>How the script ends.\<close>

lemma script_prototype: "prototype_alias inp \<Longrightarrow> script inp = Some ([], Throw TypeError)"
  by (simp add: script_def inverseAliases_eq)

lemma script_exits:
  "\<not> prototype_alias inp \<Longrightarrow> verifyAliases inp (alias_table inp) = Some (printed, Exit code) \<Longrightarrow>
   script inp = Some (map ConsoleError printed, Exit code)"
  by (simp add: script_def inverseAliases_eq)


lemma script_completes:
  assumes "\<not> prototype_alias inp"
    and "verifyAliases inp (alias_table inp) = Some (printed, Normal u)"
    and "writeTSProperties inp (alias_table inp) = Some (Inr ts)"
  shows "script inp =
     Some ([Open (styleFile inp),
            Write (styleFile inp) (writeCSSMediaVars inp (modifiersData inp)),
            Close (styleFile inp),
            Open (typesFile inp),
            Write (typesFile inp) ts,
            Close (typesFile inp)], Normal ())"
proof -
  have "printed = []"
    using assms(2) by (simp add: verifyAliases_Normal_iff)
  then show ?thesis
    using assms by (simp add: script_def inverseAliases_eq)
qed


lemma replay_console: "replay (map ConsoleError printed) fs = fs"
  by (induction printed arbitrary: fs) (simp_all add: replay_def)





text \<open>
  C2. When alias verification succeeds, the generator emits both outputs: it opens the
  style file, writes the CSS custom-property scaffolding to it (the \<open>endent\<close> template
  with the default properties, the \<open>initial\<close> defaults, the media queries and the modifier
  rules) and closes it, then opens the types file, writes the generated type definitions
  to it (the template of \<open>writeTSProperties\<close> with its twelve values, the members of
  \<open>StylePropAliases\<close> among them) and closes it; nothing else happens, and the script
  runs to completion. (The keys of \<open>stylePropConfig\<close> are distinct, as those of every
  object.)
\<close>

theorem script_emits_both:
  assumes "distinct (map fst (stylePropConfig inp))"
    and "inverseAliases inp = Inr table"
    and "verifyAliases inp table = Some (printed, Normal ())"
  shows "script inp =
     Some ([Open (styleFile inp),
            Write (styleFile inp)
              (endent inp
                 [''\<newline>    /* THIS FILE IS AUTO GENERATED, DO NOT TOUCH */\<newline>    .Box {\<newline>      '',
                  ''\<newline>      '',
                  ''\<newline>    }\<newline>\<newline>    '',
                  ''\<newline>\<newline>    '',
                  ''\<newline>  '']
                 [defaultCSSProperties inp, defaults inp (modifiersData inp), mediaQueries inp,
                  selectorsEnabled inp (modifiersData inp)]),
            Close (styleFile inp),
            Open (typesFile inp),
            Write (typesFile inp)
              (template tsTemplate
                 [[],
                  joinEnglish (map snd (modifiersData inp)),
                  join ''\<newline>'' (map (alias_member_text inp) table),
                  disallowedStandardLonghandProperties inp,
                  stylePropAliasFallbacks inp,
                  stylePropDefaults inp,
                  stringify_array_indented inp (disallowedCSSPropertyValues inp),
                  longhandTokenGroupMap inp,
                  aliasTokenGroupMap inp table,
                  stringify inp (cssCustomPropertyNamespace inp),
                  stringify_array inp (map snd (modifiersData inp)),
                  BoxValueMapperFactory_toString inp]),
            Close (typesFile inp)], Normal ())"
proof -
  have np: "\<not> prototype_alias inp" and t: "table = alias_table inp"
    using assms(2) by (simp_all add: inverseAliases_Inr)
  have v: "verifyAliases inp (alias_table inp) = Some (printed, Normal ())"
    using assms(3) t by simp
  then have k: "aliased_props_known inp" and m: "\<not> type_mismatch inp"
    by (simp_all add: verifyAliases_Normal_iff)
  show ?thesis
    unfolding t
    using script_completes [OF np v writeTSProperties_text [OF assms(1) k m]]
    by (simp add: writeCSSMediaVars_def)
qed

theorem script_emits_both_witness:
  "distinct (map fst (stylePropConfig example_input)) \<and>
   inverseAliases example_input = Inr [(''gap'', [''rowGap'', ''columnGap''])] \<and>
   verifyAliases example_input [(''gap'', [''rowGap'', ''columnGap''])] = Some ([], Normal ()) \<and>
   script example_input =
     Some ([Open ''Box.scss'',
            Write ''Box.scss''
              (''\<newline>''
               @ ''    /* THIS FILE IS AUTO GENERATED, DO NOT TOUCH */\<newline>''
               @ ''    .Box {\<newline>''
               @ ''      columnGap: 0;\<newline>''
               @ ''\<newline>''
               @ ''      \<newline>''
               @ ''    --_sm: initial;\<newline>''
               @ ''--_md: initial;\<newline>''
               @ ''\<newline>''
               @ ''    --__hover: initial;\<newline>''
               @ ''--_sm_hover: initial;\<newline>''
               @ ''--_md_hover: initial;\<newline>''
               @ ''  \<newline>''
               @ ''    }\<newline>''
               @ ''\<newline>''
               @ ''    @media screen and (min-width: 490px) { .Box { --_sm: ; } }\<newline>''
               @ ''@media screen and (min-width: 768px) { .Box { --_md: ; } }\<newline>''
               @ ''\<newline>''
               @ ''    \<newline>''
               @ ''        .Box:hover {\<newline>''
               @ ''          --__hover: ;\<newline>''
               @ ''--_sm_hover: var(--_sm);\<newline>''
               @ ''--_md_hover: var(--_md);\<newline>''
               @ ''        }\<newline>''
               @ ''  ''),
            Close ''Box.scss'',
            Open ''generated-data.ts'',
            Write ''generated-data.ts''
              (concat
                [''/* THIS FILE IS AUTO GENERATED, DO NOT TOUCH */\<newline>'',
                 ''import type {StandardLonghandProperties, Globals} from '' @ [CHR 0x27] @ ''csstype'' @ [CHR 0x27] @ '';\<newline>'',
                 ''import type {breakpointsAliases,BreakpointsAlias,TokenizedStyleProps} from '' @ [CHR 0x27] @ ''@shopify/polaris-tokens'' @ [CHR 0x27] @ '';\<newline>'',
                 ''import type {PickIndexSignature, OmitIndexSignature, Simplify}  from '' @ [CHR 0x27] @ ''type-fest'' @ [CHR 0x27] @ '';\<newline>'',
                 ''\<newline>'',
                 ''import type {ResponsiveProp, ResponsivePropObject} from '' @ [CHR 0x27] @ ''../../utilities/css'' @ [CHR 0x27] @ '';\<newline>'',
                 ''\<newline>'',
                 ''/**\<newline>'',
                 '' * Pick only the keys in `PickFrom` which are also in `IntersectWith`.\<newline>'',
                 '' */\<newline>'',
                 ''type PickIntersection<PickFrom, IntersectWith> = Pick<\<newline>'',
                 ''  PickFrom,\<newline>'',
                 ''  keyof IntersectWith & keyof PickFrom\<newline>'',
                 ''>;\<newline>'',
                 ''\<newline>'',
                 ''// Force Typescript to flatten out a union type to its concrete values\<newline>'',
                 ''type WrapInObject<T> = T extends unknown ? { key: T } : never;\<newline>'',
                 ''type Unwrap<T> = T extends { key: unknown } ? T['' @ [CHR 0x22] @ ''key'' @ [CHR 0x22] @ ''] : never;\<newline>'',
                 ''\<newline>'',
                 ''/**\<newline>'',
                 '' * The subset of all CSS that we support in Polaris (does not include aliases).\<newline>'',
                 '' */\<newline>'',
                 ''type SupportedCSSStyleProps = Omit<\<newline>'',
                 ''  // Why Longhand properties and not ALL properties?\<newline>'',
                 ''  // Shorthand properties need to come before longhand properties so\<newline>'',
                 ''  // the most specific (longhand) applies based on CSS order.\<newline>'',
                 ''  // For example, `flex-flow` is a shorthand of `<flex-direction> <flex-wrap>`,\<newline>'',
                 ''  // and so must come before both of those.\<newline>'',
                 ''  //\<newline>'',
                 ''  // Challenges with supporting shorthand properties:\<newline>'',
                 ''  // a. Cannot use alphabetical sorting (`flex-direction` would end up before\<newline>'',
                 ''  // `flex-flow` which is invalid).\<newline>'',
                 ''  // b. Cannot use `property.logicalProperyGroup` from `@webref/css` as that'' @ [CHR 0x27] @ ''s\<newline>'',
                 ''  // not reliable (doesn'' @ [CHR 0x27] @ ''t even exist for the `flex` family of properties).\<newline>'',
                 ''  // c. Cannot rely on the order of properties in an @webref/css specification\<newline>'',
                 ''  // containing both long and shorthand variants since later '' @ [CHR 0x22] @ ''Delta'' @ [CHR 0x22] @ '' specs might\<newline>'',
                 ''  // introduce new shorthands (and so would come after the longhand when\<newline>'',
                 ''  // iterating and therefore are invalid).\<newline>'',
                 ''  // d. mdn data appears to have an incomplete list of shorthand properties.\<newline>'',
                 ''  //\<newline>'',
                 ''  // Possible solutions:\<newline>'',
                 ''  // 1. Use data like { '' @ [CHR 0x27] @ ''flex-flow'' @ [CHR 0x27] @ '': ['' @ [CHR 0x27] @ ''flex-direction'' @ [CHR 0x27] @ '', '' @ [CHR 0x27] @ ''flex-wrap'' @ [CHR 0x27] @ ''] } to sort\<newline>'',
                 ''  //    longhands after shorthands\<newline>'',
                 ''  // 2. Rely on csstype to filter out all the shorthand properties completely.\<newline>'',
                 ''  //\<newline>'',
                 ''  // We'' @ [CHR 0x27] @ ''re chosing solution #2 here; filtering out shorthand CSS Properties.\<newline>'',
                 ''  // Note that in a later step where we create '' @ [CHR 0x22] @ ''aliases'' @ [CHR 0x22] @ '' to enable a builder to\<newline>'',
                 ''  // pass a single value which acts as a fallback for the props specified as\<newline>'',
                 ''  // fallbacks. Some of these aliases may have identical names to the shorthand\<newline>'',
                 ''  // properties, but shouldn'' @ [CHR 0x27] @ ''t be confused as being the same.\<newline>'',
                 ''  StandardLonghandProperties,\<newline>'',
                 ''  DisallowedStandardLonghandProperties\<newline>'',
                 ''>;\<newline>'',
                 ''\<newline>'',
                 ''type SimpleMergeByUnion<Destination, Source> = {\<newline>'',
                 ''  // Grab everything that'' @ [CHR 0x27] @ ''s in Destination, but not in Source\<newline>'',
                 ''  [Key in keyof Destination as Key extends keyof Source ? never : Key]: Destination[Key]\<newline>'',
                 ''} & {\<newline>'',
                 ''  // Grab everything that'' @ [CHR 0x27] @ ''s in Source, but not in Destination\<newline>'',
                 ''  [Key in keyof Source as Key extends keyof Destination ? never : Key]: Source[Key]\<newline>'',
                 ''} & {\<newline>'',
                 ''  // Union everything that'' @ [CHR 0x27] @ ''s in both Source and Destination\<newline>'',
                 ''  // Doing '' @ [CHR 0x27] @ ''as'' @ [CHR 0x27] @ '' here ensures we never end up with a property with type '' @ [CHR 0x27] @ ''never'' @ [CHR 0x27] @ ''\<newline>'',
                 ''  [Key in keyof Destination as Key extends keyof Source ? Key : never]:\<newline>'',
                 ''    Key extends keyof Source\<newline>'',
                 ''      ? Destination[Key] | Source[Key]\<newline>'',
                 ''      // This should never happen thanks to our '' @ [CHR 0x27] @ ''as'' @ [CHR 0x27] @ '' above, but is needed to\<newline>'',
                 ''      // satisfy the indexing of '' @ [CHR 0x27] @ ''Source'' @ [CHR 0x27] @ ''.\<newline>'',
                 ''      : never;\<newline>'',
                 ''};\<newline>'',
                 ''\<newline>'',
                 ''// Splitting out index signatures ensures Typescript doesn'' @ [CHR 0x27] @ ''t incorrectly narrow\<newline>'',
                 ''// down to just the index signatures themselves, wiping out the more specific\<newline>'',
                 ''// signatures which we want to keep.\<newline>'',
                 ''type MergeByUnion<Destination, Source> =\<newline>'',
                 ''  SimpleMergeByUnion<PickIndexSignature<Destination>, PickIndexSignature<Source>>\<newline>'',
                 ''  & SimpleMergeByUnion<OmitIndexSignature<Destination>, OmitIndexSignature<Source>>;\<newline>'',
                 ''\<newline>'',
                 ''/**\<newline>'',
                 '' * Some of our supported CSS properties must have a value from\<newline>'',
                 '' * `@shopify/polaris-tokens`, so we override those properties here\<newline>'',
                 '' *\<newline>'',
                 '' * @example\<newline>'',
                 '' * `padding-inline-start` can only accept the `space-*` tokens.\<newline>'',
                 '' */\<newline>'',
                 ''type LonghandStyleProps = MergeByUnion<\<newline>'',
                 ''  SupportedCSSStyleProps,\<newline>'',
                 ''  // `@shopify/polaris-tokens` may type more CSS properties than we want to\<newline>'',
                 ''  // support here, so ensure we'' @ [CHR 0x27] @ ''re only picking the ones we explicityly support\<newline>'',
                 ''  PickIntersection<TokenizedStyleProps, SupportedCSSStyleProps>\<newline>'',
                 ''>;\<newline>'',
                 ''\<newline>'',
                 ''type StyleProps = LonghandStyleProps & StylePropAliases;\<newline>'',
                 ''\<newline>'',
                 ''/**\<newline>'',
                 '' * A combination of raw CSS style props, tokenized style props (derived from\<newline>'',
                 '' * `@shopify/polaris-tokens`), and helpful aliases for frequently used props.\<newline>'',
                 '' */\<newline>'',
                 ''export type ResponsiveStyleProps = {\<newline>'',
                 ''  [K in keyof StyleProps]?: ResponsiveProp<\<newline>'',
                 ''    // Excluding globally disallowed values as the last thing we do ensures none\<newline>'',
                 ''    // slip through the cracks in the above type definitions.\<newline>'',
                 ''    Unwrap<WrapInObject<Exclude<StyleProps[K], (typeof disallowedCSSPropertyValues)[number]>>>\<newline>'',
                 ''  >;\<newline>'',
                 ''};\<newline>'',
                 ''\<newline>'',
                 ''/**\<newline>'',
                 '' * A combination of raw CSS style props, tokenized style props (derived from\<newline>'',
                 '' * `@shopify/polaris-tokens`), helpful aliases for frequently used props, and\<newline>'',
                 ''* the modifiers '',
                 ''_hover'',
                 ''.\<newline>'',
                 '' */\<newline>'',
                 ''export type ResponsiveStylePropsWithModifiers = Simplify<\<newline>'',
                 ''  ResponsiveStyleProps & {\<newline>'',
                 ''    [K in typeof modifiers[number]]?: ResponsiveStyleProps;\<newline>'',
                 ''  }\<newline>'',
                 ''>;\<newline>'',
                 ''\<newline>'',
                 ''export type ResponsiveStylePropObjects = {\<newline>'',
                 ''  [T in keyof ResponsiveStyleProps]?: ResponsiveStyleProps[T] extends ResponsiveProp<\<newline>'',
                 ''    infer V\<newline>'',
                 ''  >\<newline>'',
                 ''    ? ResponsivePropObject<V>\<newline>'',
                 ''    : never;\<newline>'',
                 ''};\<newline>'',
                 ''\<newline>'',
                 ''/**\<newline>'',
                 ''* Polaris specifies some aliases which are used as fallback values when an\<newline>'',
                 ''* explicit style prop isn'' @ [CHR 0x27] @ ''t set. Aliases may themselves fallback to other\<newline>'',
                 ''* aliases. Some aliases may be tokenized values or CSS values, but never both.\<newline>'',
                 ''*\<newline>'',
                 '' * @example\<newline>'',
                 '' * `justify` is an alias to `justifyItems` when `justifyItems` isn'' @ [CHR 0x27] @ ''t set.\<newline>'',
                 ''*\<newline>'',
                 ''* <Box justify='' @ [CHR 0x22] @ ''center'' @ [CHR 0x22] @ '' />\<newline>'',
                 ''* =>\<newline>'',
                 ''* style={{ justifyItems: '' @ [CHR 0x27] @ ''center'' @ [CHR 0x27] @ '' }}\<newline>'',
                 ''*\<newline>'',
                 ''* <Box justifyItems='' @ [CHR 0x22] @ ''left'' @ [CHR 0x22] @ '' justify='' @ [CHR 0x22] @ ''center'' @ [CHR 0x22] @ '' />\<newline>'',
                 ''* =>\<newline>'',
                 ''* style={{ justifyItems: '' @ [CHR 0x27] @ ''left'' @ [CHR 0x27] @ '' }}\<newline>'',
                 ''*\<newline>'',
                 ''* @example\<newline>'',
                 ''* `paddingInline` is an alias to `paddingInlineStart` and\<newline>'',
                 ''* `paddingInlineEnd` when they aren'' @ [CHR 0x27] @ ''t set.\<newline>'',
                 ''*\<newline>'',
                 ''* <Box paddingInline='' @ [CHR 0x22] @ ''space-400'' @ [CHR 0x22] @ '' />\<newline>'',
                 ''* =>\<newline>'',
                 ''* style={{\<newline>'',
                 ''*   paddingInlineStart: '' @ [CHR 0x27] @ ''400'' @ [CHR 0x27] @ '',\<newline>'',
                 ''*   paddingInlineEnd: '' @ [CHR 0x27] @ ''400'' @ [CHR 0x27] @ '',\<newline>'',
                 ''* }}\<newline>'',
                 ''*\<newline>'',
                 ''* <Box paddingInline='' @ [CHR 0x22] @ ''space-400'' @ [CHR 0x22] @ '' paddingInlineEnd='' @ [CHR 0x22] @ ''space-600'' @ [CHR 0x22] @ '' />\<newline>'',
                 ''* =>\<newline>'',
                 ''* style={{\<newline>'',
                 ''*   paddingInlineStart: '' @ [CHR 0x27] @ ''400'' @ [CHR 0x27] @ '',\<newline>'',
                 ''*   paddingInlineEnd: '' @ [CHR 0x27] @ ''600'' @ [CHR 0x27] @ '',\<newline>'',
                 ''* }}\<newline>'',
                 ''*\<newline>'',
                 ''* @example\<newline>'',
                 ''* `padding` is an alias to `paddingInline` and `paddingBlock` which themselves\<newline>'',
                 ''* are aliases to `paddingInlineStart`, `paddingInlineEnd` and\<newline>'',
                 ''* `paddingBlockStart`, `paddingBlockEnd` respectively.\<newline>'',
                 ''*\<newline>'',
                 ''* <Box padding='' @ [CHR 0x22] @ ''space-400'' @ [CHR 0x22] @ '' />\<newline>'',
                 ''* => style={{\<newline>'',
                 ''*   paddingInlineStart: '' @ [CHR 0x27] @ ''400'' @ [CHR 0x27] @ '',\<newline>'',
                 ''*   paddingInlineEnd: '' @ [CHR 0x27] @ ''400'' @ [CHR 0x27] @ '',\<newline>'',
                 ''*   paddingBlockStart: '' @ [CHR 0x27] @ ''400'' @ [CHR 0x27] @ '',\<newline>'',
                 ''*   paddingBlockEnd: '' @ [CHR 0x27] @ ''400'' @ [CHR 0x27] @ '',\<newline>'',
                 ''* }}\<newline>'',
                 ''*\<newline>'',
                 ''* <Box paddingBlock='' @ [CHR 0x22] @ ''space-800'' @ [CHR 0x22] @ '' padding='' @ [CHR 0x22] @ ''space-400'' @ [CHR 0x22] @ '' paddingInlineEnd='' @ [CHR 0x22] @ ''space-600'' @ [CHR 0x22] @ '' />\<newline>'',
                 ''* => style={{\<newline>'',
                 ''*   paddingInlineStart: '' @ [CHR 0x27] @ ''400'' @ [CHR 0x27] @ '',\<newline>'',
                 ''*   paddingInlineEnd: '' @ [CHR 0x27] @ ''600'' @ [CHR 0x27] @ '',\<newline>'',
                 ''*   paddingBlockStart: '' @ [CHR 0x27] @ ''800'' @ [CHR 0x27] @ '',\<newline>'',
                 ''*   paddingBlockEnd: '' @ [CHR 0x27] @ ''800'' @ [CHR 0x27] @ '',\<newline>'',
                 ''* }}\<newline>'',
                 ''*/\<newline>'',
                 ''interface StylePropAliases {'',
                 ''\<newline>''
                   @ ''  /**\<newline>''
                   @ ''   * Alias for setting `rowGap` and `columnGap`:\<newline>''
                   @ ''   *\<newline>''
                   @ ''   * ```\<newline>''
                   @ ''   * rowGap = props.rowGap ?? props.gap;\<newline>''
                   @ ''   * columnGap = props.columnGap ?? props.gap;\<newline>''
                   @ ''   * ```\<newline>''
                   @ ''   *\<newline>''
                   @ ''   * @see {@link LonghandStyleProps.rowGap}\<newline>''
                   @ ''   * @see {@link LonghandStyleProps.columnGap}\<newline>''
                   @ ''   */\<newline>''
                   @ ''  gap?: \<newline>''
                   @ ''      Exclude<\<newline>''
                   @ ''          LonghandStyleProps['' @ [CHR 0x27] @ ''rowGap'' @ [CHR 0x27] @ ''],\<newline>''
                   @ ''          \<newline>''
                   @ ''        >\<newline>''
                   @ ''    ;'',
                 ''\<newline>'',
                 ''};\<newline>'',
                 ''\<newline>'',
                 ''/**\<newline>'',
                 '' * CSS properties we don'' @ [CHR 0x27] @ ''t support.\<newline>'',
                 '' *\<newline>'',
                 '' * Note: Some '' @ [CHR 0x27] @ ''disallowed'' @ [CHR 0x27] @ '' properties happen to share a name with allowed\<newline>'',
                 '' * aliases (eg; `paddingInline` is an alias for `paddingInlineStart` and\<newline>'',
                 '' * `paddingInlineEnd`), so they appear in the list below, but are later\<newline>'',
                 '' * included in the final `StyleProps` type.\<newline>'',
                 '' */\<newline>'',
                 ''type DisallowedStandardLonghandProperties = '',
                 [CHR 0x27] @ ''gap'' @ [CHR 0x27] @ ''\<newline>''
                   @ ''  | '' @ [CHR 0x27] @ ''gap'' @ [CHR 0x27],
                 '';\<newline>'',
                 ''\<newline>'',
                 ''/**\<newline>'',
                 '' * Props which act as an alias to one or more more specific props.\<newline>'',
                 '' *\<newline>'',
                 '' * For example; '' @ [CHR 0x27] @ ''padding'' @ [CHR 0x27] @ '' is an alias to '' @ [CHR 0x27] @ ''padding-inline-start'' @ [CHR 0x27] @ '',\<newline>'',
                 '' * '' @ [CHR 0x27] @ ''padding-inline-end'' @ [CHR 0x27] @ '', etc, when those individual props aren'' @ [CHR 0x27] @ ''t set.\<newline>'',
                 '' */\<newline>'',
                 ''export const stylePropAliasFallbacks = {\<newline>'',
                 ''  '',
                 ''rowGap: ['' @ [CHR 0x22] @ ''gap'' @ [CHR 0x22] @ ''],\<newline>''
                   @ ''  columnGap: ['' @ [CHR 0x22] @ ''gap'' @ [CHR 0x22] @ ''],'',
                 ''\<newline>'',
                 ''} satisfies { [K in keyof SupportedCSSStyleProps]?: (keyof StyleProps)[] };\<newline>'',
                 ''\<newline>'',
                 ''// Extract a unique set of just the alias names\<newline>'',
                 ''export const stylePropAliasNames: (keyof StyleProps)[] = Array.from(\<newline>'',
                 ''  new Set(Object.values(stylePropAliasFallbacks).flat())\<newline>'',
                 '');\<newline>'',
                 ''\<newline>'',
                 ''type StaticDefaultValue<K extends keyof SupportedCSSStyleProps> =\<newline>'',
                 ''  | SupportedCSSStyleProps[K]\<newline>'',
                 ''  | undefined;\<newline>'',
                 ''\<newline>'',
                 ''type DynamicDefaultValue<K extends keyof SupportedCSSStyleProps> = (\<newline>'',
                 ''  props: ResponsiveStylePropObjects\<newline>'',
                 '') => SupportedCSSStyleProps[K] | undefined;\<newline>'',
                 ''\<newline>'',
                 ''export type PropDefaults = {\<newline>'',
                 ''  [K in keyof SupportedCSSStyleProps]?:\<newline>'',
                 ''    | StaticDefaultValue<K>\<newline>'',
                 ''    | DynamicDefaultValue<K>;\<newline>'',
                 ''};\<newline>'',
                 ''\<newline>'',
                 ''export const stylePropDefaults = {\<newline>'',
                 ''  '',
                 ''columnGap: '' @ [CHR 0x22] @ ''0'' @ [CHR 0x22] @ '',\<newline>''
                   @ ''  display: () => 1,'',
                 ''\<newline>'',
                 ''} satisfies PropDefaults;\<newline>'',
                 ''\<newline>'',
                 ''/**\<newline>'',
                 '' * A list of values that if passed to any styleProp on our Box component should\<newline>'',
                 '' * warn the user, and bail early from the css property injection procedure. We\<newline>'',
                 '' * do this as there is no good way for us to explicitly disallow this string\<newline>'',
                 '' * literal in our types holistically for every style property.\<newline>'',
                 '' */\<newline>'',
                 ''export const disallowedCSSPropertyValues = '',
                 ''[\<newline>''
                   @ ''  '' @ [CHR 0x22] @ ''inherit'' @ [CHR 0x22] @ ''\<newline>''
                   @ '']'',
                 '' satisfies Globals[];\<newline>'',
                 ''\<newline>'',
                 ''/**\<newline>'',
                 '' * Style props which only accept tokens need to be assigned to a token group.\<newline>'',
                 '' */\<newline>'',
                 ''export const stylePropTokenGroupMap = {\<newline>'',
                 ''  // Longhand CSS Style Props\<newline>'',
                 ''  '',
                 ''rowGap: '' @ [CHR 0x22] @ ''space'' @ [CHR 0x22] @ '',\<newline>''
                   @ ''  columnGap: '' @ [CHR 0x22] @ ''space'' @ [CHR 0x22],
                 '',\<newline>'',
                 ''\<newline>'',
                 ''  // Aliases\<newline>'',
                 ''  '',
                 ''gap: '' @ [CHR 0x22] @ ''space'' @ [CHR 0x22],
                 '',\<newline>'',
                 ''} as const;\<newline>'',
                 ''\<newline>'',
                 ''export const cssCustomPropertyNamespace = '',
                 [CHR 0x22] @ ''_'' @ [CHR 0x22],
                 '';\<newline>'',
                 ''\<newline>'',
                 ''export const modifiers = '',
                 ''['' @ [CHR 0x22] @ ''_hover'' @ [CHR 0x22] @ '']'',
                 '' as const;\<newline>'',
                 ''\<newline>'',
                 ''export const baseStylePropsModifierKey = '' @ [CHR 0x27] @ [CHR 0x27] @ '' as const;\<newline>'',
                 ''type BaseStylePropsModifierKey = typeof baseStylePropsModifierKey;\<newline>'',
                 ''\<newline>'',
                 ''export const baseStylePropsBreakpointKey = '' @ [CHR 0x27] @ [CHR 0x27] @ '' as const;\<newline>'',
                 ''type BaseStylePropsBreakpointKey = typeof baseStylePropsBreakpointKey;\<newline>'',
                 ''\<newline>'',
                 ''export type BreakpointsAliasesWithBaseKey =\<newline>'',
                 ''  | BaseStylePropsBreakpointKey\<newline>'',
                 ''  | Exclude<BreakpointsAlias, (typeof breakpointsAliases)[0]>;\<newline>'',
                 ''\<newline>'',
                 ''// The '' @ [CHR 0x22] @ ''base'' @ [CHR 0x22] @ '' styles always come last after other modifiers\<newline>'',
                 ''export const allModifiers: ((typeof modifiers)[number] | BaseStylePropsModifierKey)[] =\<newline>'',
                 ''  [...modifiers, baseStylePropsModifierKey];\<newline>'',
                 ''\<newline>'',
                 ''export type ValueMapperFactory = (map: typeof stylePropTokenGroupMap) => (\<newline>'',
                 ''  value: ResponsiveStyleProps[typeof prop],\<newline>'',
                 ''  prop: keyof typeof stylePropTokenGroupMap,\<newline>'',
                 ''  breakpoint: BreakpointsAlias,\<newline>'',
                 ''  modifier: (typeof allModifiers)[number],\<newline>'',
                 '') => unknown;\<newline>'',
                 ''export const valueMapperFactory: ValueMapperFactory= '',
                 ''(map) => (v) => v'',
                 '';\<newline>'']),
            Close ''generated-data.ts''], Normal ())"
proof -
  have d: "distinct (map fst (stylePropConfig example_input))"
    by code_simp
  have t: "inverseAliases example_input = Inr [(''gap'', [''rowGap'', ''columnGap''])]"
    by code_simp
  have v: "verifyAliases example_input [(''gap'', [''rowGap'', ''columnGap''])] = Some ([], Normal ())"
    by code_simp
  have sf: "styleFile example_input = ''Box.scss''" and tf: "typesFile example_input = ''generated-data.ts''"
    by (simp_all add: example_input_def)
  have css: "endent example_input
       [''\<newline>    /* THIS FILE IS AUTO GENERATED, DO NOT TOUCH */\<newline>    .Box {\<newline>      '',
        ''\<newline>      '',
        ''\<newline>    }\<newline>\<newline>    '',
        ''\<newline>\<newline>    '',
        ''\<newline>  '']
       [defaultCSSProperties example_input, defaults example_input (modifiersData example_input), mediaQueries example_input,
        selectorsEnabled example_input (modifiersData example_input)] =
       ''\<newline>''
          @ ''    /* THIS FILE IS AUTO GENERATED, DO NOT TOUCH */\<newline>''
          @ ''    .Box {\<newline>''
          @ ''      columnGap: 0;\<newline>''
          @ ''\<newline>''
          @ ''      \<newline>''
          @ ''    --_sm: initial;\<newline>''
          @ ''--_md: initial;\<newline>''
          @ ''\<newline>''
          @ ''    --__hover: initial;\<newline>''
          @ ''--_sm_hover: initial;\<newline>''
          @ ''--_md_hover: initial;\<newline>''
          @ ''  \<newline>''
          @ ''    }\<newline>''
          @ ''\<newline>''
          @ ''    @media screen and (min-width: 490px) { .Box { --_sm: ; } }\<newline>''
          @ ''@media screen and (min-width: 768px) { .Box { --_md: ; } }\<newline>''
          @ ''\<newline>''
          @ ''    \<newline>''
          @ ''        .Box:hover {\<newline>''
          @ ''          --__hover: ;\<newline>''
          @ ''--_sm_hover: var(--_sm);\<newline>''
          @ ''--_md_hover: var(--_md);\<newline>''
          @ ''        }\<newline>''
          @ ''  ''"
    by code_simp
  have h1: "joinEnglish (map snd (modifiersData example_input)) =
       ''_hover''"
    by code_simp
  have h2: "join ''\<newline>'' (map (alias_member_text example_input) [(''gap'', [''rowGap'', ''columnGap''])]) =
       ''\<newline>''
          @ ''  /**\<newline>''
          @ ''   * Alias for setting `rowGap` and `columnGap`:\<newline>''
          @ ''   *\<newline>''
          @ ''   * ```\<newline>''
          @ ''   * rowGap = props.rowGap ?? props.gap;\<newline>''
          @ ''   * columnGap = props.columnGap ?? props.gap;\<newline>''
          @ ''   * ```\<newline>''
          @ ''   *\<newline>''
          @ ''   * @see {@link LonghandStyleProps.rowGap}\<newline>''
          @ ''   * @see {@link LonghandStyleProps.columnGap}\<newline>''
          @ ''   */\<newline>''
          @ ''  gap?: \<newline>''
          @ ''      Exclude<\<newline>''
          @ ''          LonghandStyleProps['' @ [CHR 0x27] @ ''rowGap'' @ [CHR 0x27] @ ''],\<newline>''
          @ ''          \<newline>''
          @ ''        >\<newline>''
          @ ''    ;''"
    by code_simp
  have h3: "disallowedStandardLonghandProperties example_input =
       [CHR 0x27] @ ''gap'' @ [CHR 0x27] @ ''\<newline>''
          @ ''  | '' @ [CHR 0x27] @ ''gap'' @ [CHR 0x27]"
    by code_simp
  have h4: "stylePropAliasFallbacks example_input =
       ''rowGap: ['' @ [CHR 0x22] @ ''gap'' @ [CHR 0x22] @ ''],\<newline>''
          @ ''  columnGap: ['' @ [CHR 0x22] @ ''gap'' @ [CHR 0x22] @ ''],''"
    by code_simp
  have h5: "stylePropDefaults example_input =
       ''columnGap: '' @ [CHR 0x22] @ ''0'' @ [CHR 0x22] @ '',\<newline>''
          @ ''  display: () => 1,''"
    by code_simp
  have h6: "stringify_array_indented example_input (disallowedCSSPropertyValues example_input) =
       ''[\<newline>''
          @ ''  '' @ [CHR 0x22] @ ''inherit'' @ [CHR 0x22] @ ''\<newline>''
          @ '']''"
    by code_simp
  have h7: "longhandTokenGroupMap example_input =
       ''rowGap: '' @ [CHR 0x22] @ ''space'' @ [CHR 0x22] @ '',\<newline>''
          @ ''  columnGap: '' @ [CHR 0x22] @ ''space'' @ [CHR 0x22]"
    by code_simp
  have h8: "aliasTokenGroupMap example_input [(''gap'', [''rowGap'', ''columnGap''])] =
       ''gap: '' @ [CHR 0x22] @ ''space'' @ [CHR 0x22]"
    by code_simp
  have h9: "stringify example_input (cssCustomPropertyNamespace example_input) =
       [CHR 0x22] @ ''_'' @ [CHR 0x22]"
    by code_simp
  have h10: "stringify_array example_input (map snd (modifiersData example_input)) =
       ''['' @ [CHR 0x22] @ ''_hover'' @ [CHR 0x22] @ '']''"
    by code_simp
  have h11: "BoxValueMapperFactory_toString example_input =
       ''(map) => (v) => v''"
    by code_simp
  have ts: "template tsTemplate
       [[],
        ''_hover'',
        ''\<newline>''
          @ ''  /**\<newline>''
          @ ''   * Alias for setting `rowGap` and `columnGap`:\<newline>''
          @ ''   *\<newline>''
          @ ''   * ```\<newline>''
          @ ''   * rowGap = props.rowGap ?? props.gap;\<newline>''
          @ ''   * columnGap = props.columnGap ?? props.gap;\<newline>''
          @ ''   * ```\<newline>''
          @ ''   *\<newline>''
          @ ''   * @see {@link LonghandStyleProps.rowGap}\<newline>''
          @ ''   * @see {@link LonghandStyleProps.columnGap}\<newline>''
          @ ''   */\<newline>''
          @ ''  gap?: \<newline>''
          @ ''      Exclude<\<newline>''
          @ ''          LonghandStyleProps['' @ [CHR 0x27] @ ''rowGap'' @ [CHR 0x27] @ ''],\<newline>''
          @ ''          \<newline>''
          @ ''        >\<newline>''
          @ ''    ;'',
        [CHR 0x27] @ ''gap'' @ [CHR 0x27] @ ''\<newline>''
          @ ''  | '' @ [CHR 0x27] @ ''gap'' @ [CHR 0x27],
        ''rowGap: ['' @ [CHR 0x22] @ ''gap'' @ [CHR 0x22] @ ''],\<newline>''
          @ ''  columnGap: ['' @ [CHR 0x22] @ ''gap'' @ [CHR 0x22] @ ''],'',
        ''columnGap: '' @ [CHR 0x22] @ ''0'' @ [CHR 0x22] @ '',\<newline>''
          @ ''  display: () => 1,'',
        ''[\<newline>''
          @ ''  '' @ [CHR 0x22] @ ''inherit'' @ [CHR 0x22] @ ''\<newline>''
          @ '']'',
        ''rowGap: '' @ [CHR 0x22] @ ''space'' @ [CHR 0x22] @ '',\<newline>''
          @ ''  columnGap: '' @ [CHR 0x22] @ ''space'' @ [CHR 0x22],
        ''gap: '' @ [CHR 0x22] @ ''space'' @ [CHR 0x22],
        [CHR 0x22] @ ''_'' @ [CHR 0x22],
        ''['' @ [CHR 0x22] @ ''_hover'' @ [CHR 0x22] @ '']'',
        ''(map) => (v) => v''] =
     concat
      [''/* THIS FILE IS AUTO GENERATED, DO NOT TOUCH */\<newline>'',
       ''import type {StandardLonghandProperties, Globals} from '' @ [CHR 0x27] @ ''csstype'' @ [CHR 0x27] @ '';\<newline>'',
       ''import type {breakpointsAliases,BreakpointsAlias,TokenizedStyleProps} from '' @ [CHR 0x27] @ ''@shopify/polaris-tokens'' @ [CHR 0x27] @ '';\<newline>'',
       ''import type {PickIndexSignature, OmitIndexSignature, Simplify}  from '' @ [CHR 0x27] @ ''type-fest'' @ [CHR 0x27] @ '';\<newline>'',
       ''\<newline>'',
       ''import type {ResponsiveProp, ResponsivePropObject} from '' @ [CHR 0x27] @ ''../../utilities/css'' @ [CHR 0x27] @ '';\<newline>'',
       ''\<newline>'',
       ''/**\<newline>'',
       '' * Pick only the keys in `PickFrom` which are also in `IntersectWith`.\<newline>'',
       '' */\<newline>'',
       ''type PickIntersection<PickFrom, IntersectWith> = Pick<\<newline>'',
       ''  PickFrom,\<newline>'',
       ''  keyof IntersectWith & keyof PickFrom\<newline>'',
       ''>;\<newline>'',
       ''\<newline>'',
       ''// Force Typescript to flatten out a union type to its concrete values\<newline>'',
       ''type WrapInObject<T> = T extends unknown ? { key: T } : never;\<newline>'',
       ''type Unwrap<T> = T extends { key: unknown } ? T['' @ [CHR 0x22] @ ''key'' @ [CHR 0x22] @ ''] : never;\<newline>'',
       ''\<newline>'',
       ''/**\<newline>'',
       '' * The subset of all CSS that we support in Polaris (does not include aliases).\<newline>'',
       '' */\<newline>'',
       ''type SupportedCSSStyleProps = Omit<\<newline>'',
       ''  // Why Longhand properties and not ALL properties?\<newline>'',
       ''  // Shorthand properties need to come before longhand properties so\<newline>'',
       ''  // the most specific (longhand) applies based on CSS order.\<newline>'',
       ''  // For example, `flex-flow` is a shorthand of `<flex-direction> <flex-wrap>`,\<newline>'',
       ''  // and so must come before both of those.\<newline>'',
       ''  //\<newline>'',
       ''  // Challenges with supporting shorthand properties:\<newline>'',
       ''  // a. Cannot use alphabetical sorting (`flex-direction` would end up before\<newline>'',
       ''  // `flex-flow` which is invalid).\<newline>'',
       ''  // b. Cannot use `property.logicalProperyGroup` from `@webref/css` as that'' @ [CHR 0x27] @ ''s\<newline>'',
       ''  // not reliable (doesn'' @ [CHR 0x27] @ ''t even exist for the `flex` family of properties).\<newline>'',
       ''  // c. Cannot rely on the order of properties in an @webref/css specification\<newline>'',
       ''  // containing both long and shorthand variants since later '' @ [CHR 0x22] @ ''Delta'' @ [CHR 0x22] @ '' specs might\<newline>'',
       ''  // introduce new shorthands (and so would come after the longhand when\<newline>'',
       ''  // iterating and therefore are invalid).\<newline>'',
       ''  // d. mdn data appears to have an incomplete list of shorthand properties.\<newline>'',
       ''  //\<newline>'',
       ''  // Possible solutions:\<newline>'',
       ''  // 1. Use data like { '' @ [CHR 0x27] @ ''flex-flow'' @ [CHR 0x27] @ '': ['' @ [CHR 0x27] @ ''flex-direction'' @ [CHR 0x27] @ '', '' @ [CHR 0x27] @ ''flex-wrap'' @ [CHR 0x27] @ ''] } to sort\<newline>'',
       ''  //    longhands after shorthands\<newline>'',
       ''  // 2. Rely on csstype to filter out all the shorthand properties completely.\<newline>'',
       ''  //\<newline>'',
       ''  // We'' @ [CHR 0x27] @ ''re chosing solution #2 here; filtering out shorthand CSS Properties.\<newline>'',
       ''  // Note that in a later step where we create '' @ [CHR 0x22] @ ''aliases'' @ [CHR 0x22] @ '' to enable a builder to\<newline>'',
       ''  // pass a single value which acts as a fallback for the props specified as\<newline>'',
       ''  // fallbacks. Some of these aliases may have identical names to the shorthand\<newline>'',
       ''  // properties, but shouldn'' @ [CHR 0x27] @ ''t be confused as being the same.\<newline>'',
       ''  StandardLonghandProperties,\<newline>'',
       ''  DisallowedStandardLonghandProperties\<newline>'',
       ''>;\<newline>'',
       ''\<newline>'',
       ''type SimpleMergeByUnion<Destination, Source> = {\<newline>'',
       ''  // Grab everything that'' @ [CHR 0x27] @ ''s in Destination, but not in Source\<newline>'',
       ''  [Key in keyof Destination as Key extends keyof Source ? never : Key]: Destination[Key]\<newline>'',
       ''} & {\<newline>'',
       ''  // Grab everything that'' @ [CHR 0x27] @ ''s in Source, but not in Destination\<newline>'',
       ''  [Key in keyof Source as Key extends keyof Destination ? never : Key]: Source[Key]\<newline>'',
       ''} & {\<newline>'',
       ''  // Union everything that'' @ [CHR 0x27] @ ''s in both Source and Destination\<newline>'',
       ''  // Doing '' @ [CHR 0x27] @ ''as'' @ [CHR 0x27] @ '' here ensures we never end up with a property with type '' @ [CHR 0x27] @ ''never'' @ [CHR 0x27] @ ''\<newline>'',
       ''  [Key in keyof Destination as Key extends keyof Source ? Key : never]:\<newline>'',
       ''    Key extends keyof Source\<newline>'',
       ''      ? Destination[Key] | Source[Key]\<newline>'',
       ''      // This should never happen thanks to our '' @ [CHR 0x27] @ ''as'' @ [CHR 0x27] @ '' above, but is needed to\<newline>'',
       ''      // satisfy the indexing of '' @ [CHR 0x27] @ ''Source'' @ [CHR 0x27] @ ''.\<newline>'',
       ''      : never;\<newline>'',
       ''};\<newline>'',
       ''\<newline>'',
       ''// Splitting out index signatures ensures Typescript doesn'' @ [CHR 0x27] @ ''t incorrectly narrow\<newline>'',
       ''// down to just the index signatures themselves, wiping out the more specific\<newline>'',
       ''// signatures which we want to keep.\<newline>'',
       ''type MergeByUnion<Destination, Source> =\<newline>'',
       ''  SimpleMergeByUnion<PickIndexSignature<Destination>, PickIndexSignature<Source>>\<newline>'',
       ''  & SimpleMergeByUnion<OmitIndexSignature<Destination>, OmitIndexSignature<Source>>;\<newline>'',
       ''\<newline>'',
       ''/**\<newline>'',
       '' * Some of our supported CSS properties must have a value from\<newline>'',
       '' * `@shopify/polaris-tokens`, so we override those properties here\<newline>'',
       '' *\<newline>'',
       '' * @example\<newline>'',
       '' * `padding-inline-start` can only accept the `space-*` tokens.\<newline>'',
       '' */\<newline>'',
       ''type LonghandStyleProps = MergeByUnion<\<newline>'',
       ''  SupportedCSSStyleProps,\<newline>'',
       ''  // `@shopify/polaris-tokens` may type more CSS properties than we want to\<newline>'',
       ''  // support here, so ensure we'' @ [CHR 0x27] @ ''re only picking the ones we explicityly support\<newline>'',
       ''  PickIntersection<TokenizedStyleProps, SupportedCSSStyleProps>\<newline>'',
       ''>;\<newline>'',
       ''\<newline>'',
       ''type StyleProps = LonghandStyleProps & StylePropAliases;\<newline>'',
       ''\<newline>'',
       ''/**\<newline>'',
       '' * A combination of raw CSS style props, tokenized style props (derived from\<newline>'',
       '' * `@shopify/polaris-tokens`), and helpful aliases for frequently used props.\<newline>'',
       '' */\<newline>'',
       ''export type ResponsiveStyleProps = {\<newline>'',
       ''  [K in keyof StyleProps]?: ResponsiveProp<\<newline>'',
       ''    // Excluding globally disallowed values as the last thing we do ensures none\<newline>'',
       ''    // slip through the cracks in the above type definitions.\<newline>'',
       ''    Unwrap<WrapInObject<Exclude<StyleProps[K], (typeof disallowedCSSPropertyValues)[number]>>>\<newline>'',
       ''  >;\<newline>'',
       ''};\<newline>'',
       ''\<newline>'',
       ''/**\<newline>'',
       '' * A combination of raw CSS style props, tokenized style props (derived from\<newline>'',
       '' * `@shopify/polaris-tokens`), helpful aliases for frequently used props, and\<newline>'',
       ''* the modifiers '',
       ''_hover'',
       ''.\<newline>'',
       '' */\<newline>'',
       ''export type ResponsiveStylePropsWithModifiers = Simplify<\<newline>'',
       ''  ResponsiveStyleProps & {\<newline>'',
       ''    [K in typeof modifiers[number]]?: ResponsiveStyleProps;\<newline>'',
       ''  }\<newline>'',
       ''>;\<newline>'',
       ''\<newline>'',
       ''export type ResponsiveStylePropObjects = {\<newline>'',
       ''  [T in keyof ResponsiveStyleProps]?: ResponsiveStyleProps[T] extends ResponsiveProp<\<newline>'',
       ''    infer V\<newline>'',
       ''  >\<newline>'',
       ''    ? ResponsivePropObject<V>\<newline>'',
       ''    : never;\<newline>'',
       ''};\<newline>'',
       ''\<newline>'',
       ''/**\<newline>'',
       ''* Polaris specifies some aliases which are used as fallback values when an\<newline>'',
       ''* explicit style prop isn'' @ [CHR 0x27] @ ''t set. Aliases may themselves fallback to other\<newline>'',
       ''* aliases. Some aliases may be tokenized values or CSS values, but never both.\<newline>'',
       ''*\<newline>'',
       '' * @example\<newline>'',
       '' * `justify` is an alias to `justifyItems` when `justifyItems` isn'' @ [CHR 0x27] @ ''t set.\<newline>'',
       ''*\<newline>'',
       ''* <Box justify='' @ [CHR 0x22] @ ''center'' @ [CHR 0x22] @ '' />\<newline>'',
       ''* =>\<newline>'',
       ''* style={{ justifyItems: '' @ [CHR 0x27] @ ''center'' @ [CHR 0x27] @ '' }}\<newline>'',
       ''*\<newline>'',
       ''* <Box justifyItems='' @ [CHR 0x22] @ ''left'' @ [CHR 0x22] @ '' justify='' @ [CHR 0x22] @ ''center'' @ [CHR 0x22] @ '' />\<newline>'',
       ''* =>\<newline>'',
       ''* style={{ justifyItems: '' @ [CHR 0x27] @ ''left'' @ [CHR 0x27] @ '' }}\<newline>'',
       ''*\<newline>'',
       ''* @example\<newline>'',
       ''* `paddingInline` is an alias to `paddingInlineStart` and\<newline>'',
       ''* `paddingInlineEnd` when they aren'' @ [CHR 0x27] @ ''t set.\<newline>'',
       ''*\<newline>'',
       ''* <Box paddingInline='' @ [CHR 0x22] @ ''space-400'' @ [CHR 0x22] @ '' />\<newline>'',
       ''* =>\<newline>'',
       ''* style={{\<newline>'',
       ''*   paddingInlineStart: '' @ [CHR 0x27] @ ''400'' @ [CHR 0x27] @ '',\<newline>'',
       ''*   paddingInlineEnd: '' @ [CHR 0x27] @ ''400'' @ [CHR 0x27] @ '',\<newline>'',
       ''* }}\<newline>'',
       ''*\<newline>'',
       ''* <Box paddingInline='' @ [CHR 0x22] @ ''space-400'' @ [CHR 0x22] @ '' paddingInlineEnd='' @ [CHR 0x22] @ ''space-600'' @ [CHR 0x22] @ '' />\<newline>'',
       ''* =>\<newline>'',
       ''* style={{\<newline>'',
       ''*   paddingInlineStart: '' @ [CHR 0x27] @ ''400'' @ [CHR 0x27] @ '',\<newline>'',
       ''*   paddingInlineEnd: '' @ [CHR 0x27] @ ''600'' @ [CHR 0x27] @ '',\<newline>'',
       ''* }}\<newline>'',
       ''*\<newline>'',
       ''* @example\<newline>'',
       ''* `padding` is an alias to `paddingInline` and `paddingBlock` which themselves\<newline>'',
       ''* are aliases to `paddingInlineStart`, `paddingInlineEnd` and\<newline>'',
       ''* `paddingBlockStart`, `paddingBlockEnd` respectively.\<newline>'',
       ''*\<newline>'',
       ''* <Box padding='' @ [CHR 0x22] @ ''space-400'' @ [CHR 0x22] @ '' />\<newline>'',
       ''* => style={{\<newline>'',
       ''*   paddingInlineStart: '' @ [CHR 0x27] @ ''400'' @ [CHR 0x27] @ '',\<newline>'',
       ''*   paddingInlineEnd: '' @ [CHR 0x27] @ ''400'' @ [CHR 0x27] @ '',\<newline>'',
       ''*   paddingBlockStart: '' @ [CHR 0x27] @ ''400'' @ [CHR 0x27] @ '',\<newline>'',
       ''*   paddingBlockEnd: '' @ [CHR 0x27] @ ''400'' @ [CHR 0x27] @ '',\<newline>'',
       ''* }}\<newline>'',
       ''*\<newline>'',
       ''* <Box paddingBlock='' @ [CHR 0x22] @ ''space-800'' @ [CHR 0x22] @ '' padding='' @ [CHR 0x22] @ ''space-400'' @ [CHR 0x22] @ '' paddingInlineEnd='' @ [CHR 0x22] @ ''space-600'' @ [CHR 0x22] @ '' />\<newline>'',
       ''* => style={{\<newline>'',
       ''*   paddingInlineStart: '' @ [CHR 0x27] @ ''400'' @ [CHR 0x27] @ '',\<newline>'',
       ''*   paddingInlineEnd: '' @ [CHR 0x27] @ ''600'' @ [CHR 0x27] @ '',\<newline>'',
       ''*   paddingBlockStart: '' @ [CHR 0x27] @ ''800'' @ [CHR 0x27] @ '',\<newline>'',
       ''*   paddingBlockEnd: '' @ [CHR 0x27] @ ''800'' @ [CHR 0x27] @ '',\<newline>'',
       ''* }}\<newline>'',
       ''*/\<newline>'',
       ''interface StylePropAliases {'',
       ''\<newline>''
         @ ''  /**\<newline>''
         @ ''   * Alias for setting `rowGap` and `columnGap`:\<newline>''
         @ ''   *\<newline>''
         @ ''   * ```\<newline>''
         @ ''   * rowGap = props.rowGap ?? props.gap;\<newline>''
         @ ''   * columnGap = props.columnGap ?? props.gap;\<newline>''
         @ ''   * ```\<newline>''
         @ ''   *\<newline>''
         @ ''   * @see {@link LonghandStyleProps.rowGap}\<newline>''
         @ ''   * @see {@link LonghandStyleProps.columnGap}\<newline>''
         @ ''   */\<newline>''
         @ ''  gap?: \<newline>''
         @ ''      Exclude<\<newline>''
         @ ''          LonghandStyleProps['' @ [CHR 0x27] @ ''rowGap'' @ [CHR 0x27] @ ''],\<newline>''
         @ ''          \<newline>''
         @ ''        >\<newline>''
         @ ''    ;'',
       ''\<newline>'',
       ''};\<newline>'',
       ''\<newline>'',
       ''/**\<newline>'',
       '' * CSS properties we don'' @ [CHR 0x27] @ ''t support.\<newline>'',
       '' *\<newline>'',
       '' * Note: Some '' @ [CHR 0x27] @ ''disallowed'' @ [CHR 0x27] @ '' properties happen to share a name with allowed\<newline>'',
       '' * aliases (eg; `paddingInline` is an alias for `paddingInlineStart` and\<newline>'',
       '' * `paddingInlineEnd`), so they appear in the list below, but are later\<newline>'',
       '' * included in the final `StyleProps` type.\<newline>'',
       '' */\<newline>'',
       ''type DisallowedStandardLonghandProperties = '',
       [CHR 0x27] @ ''gap'' @ [CHR 0x27] @ ''\<newline>''
         @ ''  | '' @ [CHR 0x27] @ ''gap'' @ [CHR 0x27],
       '';\<newline>'',
       ''\<newline>'',
       ''/**\<newline>'',
       '' * Props which act as an alias to one or more more specific props.\<newline>'',
       '' *\<newline>'',
       '' * For example; '' @ [CHR 0x27] @ ''padding'' @ [CHR 0x27] @ '' is an alias to '' @ [CHR 0x27] @ ''padding-inline-start'' @ [CHR 0x27] @ '',\<newline>'',
       '' * '' @ [CHR 0x27] @ ''padding-inline-end'' @ [CHR 0x27] @ '', etc, when those individual props aren'' @ [CHR 0x27] @ ''t set.\<newline>'',
       '' */\<newline>'',
       ''export const stylePropAliasFallbacks = {\<newline>'',
       ''  '',
       ''rowGap: ['' @ [CHR 0x22] @ ''gap'' @ [CHR 0x22] @ ''],\<newline>''
         @ ''  columnGap: ['' @ [CHR 0x22] @ ''gap'' @ [CHR 0x22] @ ''],'',
       ''\<newline>'',
       ''} satisfies { [K in keyof SupportedCSSStyleProps]?: (keyof StyleProps)[] };\<newline>'',
       ''\<newline>'',
       ''// Extract a unique set of just the alias names\<newline>'',
       ''export const stylePropAliasNames: (keyof StyleProps)[] = Array.from(\<newline>'',
       ''  new Set(Object.values(stylePropAliasFallbacks).flat())\<newline>'',
       '');\<newline>'',
       ''\<newline>'',
       ''type StaticDefaultValue<K extends keyof SupportedCSSStyleProps> =\<newline>'',
       ''  | SupportedCSSStyleProps[K]\<newline>'',
       ''  | undefined;\<newline>'',
       ''\<newline>'',
       ''type DynamicDefaultValue<K extends keyof SupportedCSSStyleProps> = (\<newline>'',
       ''  props: ResponsiveStylePropObjects\<newline>'',
       '') => SupportedCSSStyleProps[K] | undefined;\<newline>'',
       ''\<newline>'',
       ''export type PropDefaults = {\<newline>'',
       ''  [K in keyof SupportedCSSStyleProps]?:\<newline>'',
       ''    | StaticDefaultValue<K>\<newline>'',
       ''    | DynamicDefaultValue<K>;\<newline>'',
       ''};\<newline>'',
       ''\<newline>'',
       ''export const stylePropDefaults = {\<newline>'',
       ''  '',
       ''columnGap: '' @ [CHR 0x22] @ ''0'' @ [CHR 0x22] @ '',\<newline>''
         @ ''  display: () => 1,'',
       ''\<newline>'',
       ''} satisfies PropDefaults;\<newline>'',
       ''\<newline>'',
       ''/**\<newline>'',
       '' * A list of values that if passed to any styleProp on our Box component should\<newline>'',
       '' * warn the user, and bail early from the css property injection procedure. We\<newline>'',
       '' * do this as there is no good way for us to explicitly disallow this string\<newline>'',
       '' * literal in our types holistically for every style property.\<newline>'',
       '' */\<newline>'',
       ''export const disallowedCSSPropertyValues = '',
       ''[\<newline>''
         @ ''  '' @ [CHR 0x22] @ ''inherit'' @ [CHR 0x22] @ ''\<newline>''
         @ '']'',
       '' satisfies Globals[];\<newline>'',
       ''\<newline>'',
       ''/**\<newline>'',
       '' * Style props which only accept tokens need to be assigned to a token group.\<newline>'',
       '' */\<newline>'',
       ''export const stylePropTokenGroupMap = {\<newline>'',
       ''  // Longhand CSS Style Props\<newline>'',
       ''  '',
       ''rowGap: '' @ [CHR 0x22] @ ''space'' @ [CHR 0x22] @ '',\<newline>''
         @ ''  columnGap: '' @ [CHR 0x22] @ ''space'' @ [CHR 0x22],
       '',\<newline>'',
       ''\<newline>'',
       ''  // Aliases\<newline>'',
       ''  '',
       ''gap: '' @ [CHR 0x22] @ ''space'' @ [CHR 0x22],
       '',\<newline>'',
       ''} as const;\<newline>'',
       ''\<newline>'',
       ''export const cssCustomPropertyNamespace = '',
       [CHR 0x22] @ ''_'' @ [CHR 0x22],
       '';\<newline>'',
       ''\<newline>'',
       ''export const modifiers = '',
       ''['' @ [CHR 0x22] @ ''_hover'' @ [CHR 0x22] @ '']'',
       '' as const;\<newline>'',
       ''\<newline>'',
       ''export const baseStylePropsModifierKey = '' @ [CHR 0x27] @ [CHR 0x27] @ '' as const;\<newline>'',
       ''type BaseStylePropsModifierKey = typeof baseStylePropsModifierKey;\<newline>'',
       ''\<newline>'',
       ''export const baseStylePropsBreakpointKey = '' @ [CHR 0x27] @ [CHR 0x27] @ '' as const;\<newline>'',
       ''type BaseStylePropsBreakpointKey = typeof baseStylePropsBreakpointKey;\<newline>'',
       ''\<newline>'',
       ''export type BreakpointsAliasesWithBaseKey =\<newline>'',
       ''  | BaseStylePropsBreakpointKey\<newline>'',
       ''  | Exclude<BreakpointsAlias, (typeof breakpointsAliases)[0]>;\<newline>'',
       ''\<newline>'',
       ''// The '' @ [CHR 0x22] @ ''base'' @ [CHR 0x22] @ '' styles always come last after other modifiers\<newline>'',
       ''export const allModifiers: ((typeof modifiers)[number] | BaseStylePropsModifierKey)[] =\<newline>'',
       ''  [...modifiers, baseStylePropsModifierKey];\<newline>'',
       ''\<newline>'',
       ''export type ValueMapperFactory = (map: typeof stylePropTokenGroupMap) => (\<newline>'',
       ''  value: ResponsiveStyleProps[typeof prop],\<newline>'',
       ''  prop: keyof typeof stylePropTokenGroupMap,\<newline>'',
       ''  breakpoint: BreakpointsAlias,\<newline>'',
       ''  modifier: (typeof allModifiers)[number],\<newline>'',
       '') => unknown;\<newline>'',
       ''export const valueMapperFactory: ValueMapperFactory= '',
       ''(map) => (v) => v'',
       '';\<newline>'']"
    by (simp only: tsTemplate_def tsChunk0_def tsChunk1_def tsChunk2_def tsChunk3_def
          tsChunk4_def tsChunk5_def tsChunk6_def tsChunk7_def tsChunk8_def tsChunk9_def
          tsChunk10_def tsChunk11_def tsChunk12_def template.simps concat.simps
          append_assoc append_Nil append_Nil2)
  note e = script_emits_both
    [OF d t v, unfolded sf tf css h1 h2 h3 h4 h5 h6 h7 h8 h9 h10 h11 ts]
  show ?thesis
    by (intro conjI) (rule d t v e)+
qed


lemma verified_entry:
  assumes "verifyAliases inp (alias_table inp) = Some (printed, Normal u)"
    and "(a, props) \<in> set (alias_table inp)"
  shows "list_all (hasOwn (cssLonghandProperties inp)) props" and "has_overlap inp props"
  using assms table_entry [of inp a props] by (simp_all add: verifyAliases_Normal_iff)

text \<open>
  C4. After a successful alias verification, for every alias of \<open>inverseAliases\<close> the
  type lists of its style props are found and their intersection is not empty, so
  \<open>createMinimumCommonUnionForAlias\<close> does not take the branch that returns \<open>never\<close>:
  it returns the reference to the type of the first style prop (a text other than
  \<open>never\<close>) or the \<open>Exclude<...>\<close> expression over it that \<open>endent\<close> lays out.
\<close>

theorem never_unreachable:
  assumes "inverseAliases inp = Inr table"
    and "verifyAliases inp table = Some (printed, Normal ())"
    and "(a, styleProps) \<in> set table"
  shows "\<exists>types typeIntersection.
     lookupTypes inp styleProps = Inr types \<and>
     getArrayIntersection types = Some typeIntersection \<and>
     length typeIntersection \<noteq> 0 \<and>
     (createMinimumCommonUnionForAlias inp styleProps =
        Some (Inr (''LonghandStyleProps['' @ [CHR 0x27] @ first_key styleProps @ [CHR 0x27] @ '']'')) \<or>
      (\<exists>typesToRemoveFromFirst.
         createMinimumCommonUnionForAlias inp styleProps =
           Some (Inr (endent inp
             [''\<newline>      Exclude<\<newline>          LonghandStyleProps['' @ [CHR 0x27],
              [CHR 0x27] @ ''],\<newline>          '',
              ''\<newline>        >\<newline>    '']
             [first_key styleProps, generateTSPickList typesToRemoveFromFirst 0])))) \<and>
     ''LonghandStyleProps['' @ [CHR 0x27] @ first_key styleProps @ [CHR 0x27] @ '']'' \<noteq> ''never''"
proof -
  let ?types = "map (types_of inp) styleProps"
  have t: "table = alias_table inp"
    using assms(1) by (simp add: inverseAliases_Inr)
  have known: "list_all (hasOwn (cssLonghandProperties inp)) styleProps"
    and overlap: "has_overlap inp styleProps"
    using verified_entry [of inp printed "()" a styleProps] assms(2,3) t by simp_all
  have l: "lookupTypes inp styleProps = Inr ?types"
    using known by (simp add: lookupTypes_eq)
  obtain i where i: "getArrayIntersection ?types = Some i" and "length i \<noteq> 0"
    using getArrayIntersection_types [of inp styleProps] overlap by auto
  moreover obtain r where r: "createMinimumCommonUnionForAlias inp styleProps = Some (Inr r)"
    and eq: "arraysAreEqualSets ?types \<longrightarrow>
        r = ''LonghandStyleProps['' @ [CHR 0x27] @ first_key styleProps @ [CHR 0x27] @ '']''"
    and ex: "\<not> arraysAreEqualSets ?types \<and> has_overlap inp styleProps \<longrightarrow>
        (\<exists>typesToRemoveFromFirst.
           r = endent inp
                 [''\<newline>      Exclude<\<newline>          LonghandStyleProps['' @ [CHR 0x27],
                  [CHR 0x27] @ ''],\<newline>          '',
                  ''\<newline>        >\<newline>    '']
                 [first_key styleProps, generateTSPickList typesToRemoveFromFirst 0])"
    using createMinimumCommonUnionForAlias_known [OF known] by blast
  have "createMinimumCommonUnionForAlias inp styleProps =
        Some (Inr (''LonghandStyleProps['' @ [CHR 0x27] @ first_key styleProps @ [CHR 0x27] @ '']'')) \<or>
      (\<exists>typesToRemoveFromFirst.
         createMinimumCommonUnionForAlias inp styleProps =
           Some (Inr (endent inp
             [''\<newline>      Exclude<\<newline>          LonghandStyleProps['' @ [CHR 0x27],
              [CHR 0x27] @ ''],\<newline>          '',
              ''\<newline>        >\<newline>    '']
             [first_key styleProps, generateTSPickList typesToRemoveFromFirst 0])))"
    using r eq ex overlap by (cases "arraysAreEqualSets ?types") auto
  moreover have "''LonghandStyleProps['' @ [CHR 0x27] @ first_key styleProps @ [CHR 0x27] @ '']'' \<noteq> ''never''"
    by simp
  ultimately show ?thesis using l by blast
qed

theorem never_unreachable_witness:
  "inverseAliases example_input = Inr [(''gap'', [''rowGap'', ''columnGap''])] \<and>
   verifyAliases example_input [(''gap'', [''rowGap'', ''columnGap''])] = Some ([], Normal ()) \<and>
   getArrayIntersection [[''Globals'', ''string''], [''Globals'', ''string'', ''normal'']]
     = Some [''Globals'', ''string''] \<and>
   (\<exists>r. createMinimumCommonUnionForAlias example_input [''rowGap'', ''columnGap''] = Some (Inr r))"
proof -
  have t: "inverseAliases example_input = Inr [(''gap'', [''rowGap'', ''columnGap''])]"
    by code_simp
  have v: "verifyAliases example_input [(''gap'', [''rowGap'', ''columnGap''])] = Some ([], Normal ())"
    by code_simp
  have e: "(''gap'', [''rowGap'', ''columnGap'']) \<in> set [(''gap'', [''rowGap'', ''columnGap''])]"
    by simp
  have g: "getArrayIntersection [[''Globals'', ''string''], [''Globals'', ''string'', ''normal'']]
     = Some [''Globals'', ''string'']"
    by code_simp
  show ?thesis
    using t v g never_unreachable [OF t v e] by auto
qed

text \<open>
  C1, as the specification states it, fails, in two ways. With a style prop that csstype
  does not know, \<open>verifyAliases\<close> throws a \<open>TypeError\<close> at
  \<open>cssLonghandProperties[prop].type\<close>: there is an alias collision, yet no message is
  printed and the process does not exit with code -1. With an alias named
  \<open>constructor\<close> there is neither a collision nor a type mismatch, and the script
  throws a \<open>TypeError\<close> while it builds \<open>inverseAliases\<close>. The exception is a second
  way to fail.
\<close>

theorem verifyAliases_other_failure:
  "alias_collision misspelt_input \<and>
   aliasCollisions misspelt_input = [''gap''] \<and>
   inverseAliases misspelt_input = Inr [(''gap'', [''rowGapp''])] \<and>
   verifyAliases misspelt_input [(''gap'', [''rowGapp''])] = Some ([], Throw TypeError) \<and>
   script misspelt_input = Some ([], Throw TypeError) \<and>
   aliased_props_known prototype_input \<and>
   \<not> alias_collision prototype_input \<and>
   \<not> type_mismatch prototype_input \<and>
   inverseAliases prototype_input = Inl TypeError \<and>
   script prototype_input = Some ([], Throw TypeError)"
  by code_simp

text \<open>
  C1, amended. When no alias has the name of a member of \<open>Object.prototype\<close> and every
  style prop that has an alias is a key of \<open>cssLonghandProperties\<close>, the verification
  step is reached and ends in one of two ways: it prints at least one error and exits
  with code -1, or it returns having printed nothing. It exits exactly when there is an
  alias collision or an alias whose style props have type lists with no common element.
  When it exits, the script has only printed: no file was opened or written, and the
  files are what they were. When it returns, the script runs to completion.
\<close>

theorem verifyAliases_exit_iff:
  assumes "distinct (map fst (stylePropConfig inp))"
    and "\<not> prototype_alias inp" and "aliased_props_known inp"
  shows "\<exists>table printed c.
     inverseAliases inp = Inr table \<and>
     verifyAliases inp table = Some (printed, c) \<and>
     (c = Exit (- 1) \<or> c = Normal ()) \<and>
     (c = Exit (- 1) \<longleftrightarrow> alias_collision inp \<or> type_mismatch inp) \<and>
     (c = Exit (- 1) \<longrightarrow>
        printed \<noteq> [] \<and> script inp = Some (map ConsoleError printed, Exit (- 1)) \<and>
        (\<forall>fs. replay (map ConsoleError printed) fs = fs)) \<and>
     (c = Normal () \<longrightarrow> printed = [] \<and> (\<exists>events. script inp = Some (events, Normal ())))"
proof -
  have t: "inverseAliases inp = Inr (alias_table inp)"
    using assms(2) by (simp add: inverseAliases_eq)
  show ?thesis
  proof (cases "alias_collision inp \<or> type_mismatch inp")
    case True
    then obtain printed where p: "verifyAliases inp (alias_table inp) = Some (printed, Exit (- 1))"
      "printed \<noteq> []"
      using verifyAliases_exit [OF assms(3)] by blast
    have "script inp = Some (map ConsoleError printed, Exit (- 1))"
      using assms(2) p(1) by (rule script_exits)
    with t p True show ?thesis
      by (auto simp: replay_console)
  next
    case False
    then have v: "verifyAliases inp (alias_table inp) = Some ([], Normal ())"
      using assms(3) by (simp add: verifyAliases_normal)
    have "\<exists>ts. writeTSProperties inp (alias_table inp) = Some (Inr ts)"
      using writeTSProperties_text [OF assms(1,3)] False by simp
    then obtain ts where "writeTSProperties inp (alias_table inp) = Some (Inr ts)" ..
    then have "\<exists>events. script inp = Some (events, Normal ())"
      using script_completes [OF assms(2) v] by blast
    with t v False show ?thesis by auto
  qed
qed

theorem verifyAliases_exit_iff_witness:
  "distinct (map fst (stylePropConfig colliding_input)) \<and>
   \<not> prototype_alias colliding_input \<and>
   aliased_props_known colliding_input \<and>
   alias_collision colliding_input \<and>
   (\<exists>table printed. printed \<noteq> [] \<and> inverseAliases colliding_input = Inr table \<and>
      verifyAliases colliding_input table = Some (printed, Exit (- 1)) \<and>
      script colliding_input = Some (map ConsoleError printed, Exit (- 1)))"
proof -
  have d: "distinct (map fst (stylePropConfig colliding_input))"
    by code_simp
  have n: "\<not> prototype_alias colliding_input"
    by code_simp
  have k: "aliased_props_known colliding_input"
    by code_simp
  have c: "alias_collision colliding_input"
    by code_simp
  show ?thesis
    using d n k c verifyAliases_exit_iff [OF d n k] by auto
qed

lemma script_Normal_events:
  assumes "script inp = Some (events, Normal u)"
  shows "\<exists>table ts. inverseAliases inp = Inr table \<and> writeTSProperties inp table = Some (Inr ts) \<and>
     events = [Open (styleFile inp),
               Write (styleFile inp) (writeCSSMediaVars inp (modifiersData inp)),
               Close (styleFile inp),
               Open (typesFile inp),
               Write (typesFile inp) ts,
               Close (typesFile inp)]"
proof (cases "prototype_alias inp")
  case True
  then show ?thesis using assms by (simp add: script_prototype)
next
  case np: False
  then have t: "inverseAliases inp = Inr (alias_table inp)"
    by (simp add: inverseAliases_eq)
  obtain printed c where v: "verifyAliases inp (alias_table inp) = Some (printed, c)"
    using verifyAliases_returns by blast
  obtain x where w: "writeTSProperties inp (alias_table inp) = Some x"
    using writeTSProperties_returns by blast
  show ?thesis
  proof (cases c)
    case (Normal u')
    with v have p: "printed = []" by (simp add: verifyAliases_Normal_iff)
    show ?thesis
    proof (cases x)
      case (Inl e)
      with assms v w Normal t show ?thesis by (simp add: script_def)
    next
      case (Inr ts)
      with assms v w Normal p t show ?thesis by (auto simp: script_def)
    qed
  next
    case (Throw e)
    with assms v t show ?thesis by (simp add: script_def)
  next
    case (Exit code)
    with assms v t show ?thesis by (simp add: script_def)
  qed
qed

lemma replay_six:
  "replay [Open s, Write s css, Close s, Open t, Write t ts, Close t] fs =
     (fs(s \<mapsto> css))(t \<mapsto> ts)"
  by (auto simp: replay_def fun_eq_iff)

text \<open>
  C8. The script is a function of its inputs, and what a completed run leaves in the two
  files does not depend on what they held before: the types file holds the generated
  type definitions and the style file the generated CSS (the later text, should both
  paths be the same), so a second run on the same input produces the same texts and
  leaves the files as the first run left them.
\<close>

theorem script_deterministic:
  assumes "script inp = Some (events, Normal ())"
  shows "\<exists>table ts. inverseAliases inp = Inr table \<and> writeTSProperties inp table = Some (Inr ts) \<and>
     (\<forall>fs. replay events fs (typesFile inp) = Some ts) \<and>
     (\<forall>fs. replay events fs (styleFile inp) =
        Some (if styleFile inp = typesFile inp then ts
              else writeCSSMediaVars inp (modifiersData inp))) \<and>
     (\<forall>fs. replay events (replay events fs) = replay events fs)"
proof -
  obtain table ts where tb: "inverseAliases inp = Inr table"
    and ts: "writeTSProperties inp table = Some (Inr ts)"
    and ev: "events = [Open (styleFile inp),
               Write (styleFile inp) (writeCSSMediaVars inp (modifiersData inp)),
               Close (styleFile inp),
               Open (typesFile inp),
               Write (typesFile inp) ts,
               Close (typesFile inp)]"
    using script_Normal_events [OF assms] by blast
  have "replay events fs (typesFile inp) = Some ts" for fs
    unfolding ev replay_six by simp
  moreover have "replay events fs (styleFile inp) =
        Some (if styleFile inp = typesFile inp then ts
              else writeCSSMediaVars inp (modifiersData inp))" for fs
    unfolding ev replay_six by simp
  moreover have "replay events (replay events fs) = replay events fs" for fs
    unfolding ev replay_six by (auto simp: fun_eq_iff)
  ultimately show ?thesis using tb ts by blast
qed

theorem script_deterministic_witness:
  "(\<exists>events. script example_input = Some (events, Normal ()) \<and>
      (\<exists>ts. replay events Map.empty ''generated-data.ts'' = Some ts \<and>
            replay events [''generated-data.ts'' \<mapsto> ''old''] ''generated-data.ts'' = Some ts) \<and>
      replay events Map.empty ''Box.scss'' = replay events [''Box.scss'' \<mapsto> ''old''] ''Box.scss'')"
proof -
  have n: "\<not> prototype_alias example_input"
    by code_simp
  have v: "verifyAliases example_input (alias_table example_input) = Some ([], Normal ())"
    by code_simp
  have d: "distinct (map fst (stylePropConfig example_input))"
    by code_simp
  have k: "aliased_props_known example_input" and m: "\<not> type_mismatch example_input"
    by code_simp+
  note c = script_completes [OF n v writeTSProperties_text [OF d k m]]
  show ?thesis
    using c script_deterministic [OF c] by (auto simp: example_input_def)
qed

subsection \<open>The style file\<close>

lemma split_on_no_sep: "c \<notin> set s \<Longrightarrow> split_on c s = [s]"
  by (induction s) auto

lemma split_on_append: "c \<notin> set s \<Longrightarrow> split_on c (s @ c # rest) = s # split_on c rest"
  by (induction s) auto

lemma split_on_join_Cons:
  "(\<And>y. y \<in> set (x # xs) \<Longrightarrow> c \<notin> set y) \<Longrightarrow> split_on c (join [c] (x # xs)) = x # xs"
proof (induction xs arbitrary: x)
  case Nil
  then show ?case by (simp add: split_on_no_sep)
next
  case (Cons z zs)
  have "split_on c (join [c] (z # zs)) = z # zs"
    by (rule Cons.IH) (simp add: Cons.prems)
  moreover have "c \<notin> set x"
    by (rule Cons.prems) simp
  ultimately show ?case
    using split_on_append [of c x "join [c] (z # zs)"] by simp
qed

lemma split_on_join:
  "xs \<noteq> [] \<Longrightarrow> (\<And>x. x \<in> set xs \<Longrightarrow> c \<notin> set x) \<Longrightarrow> split_on c (join [c] xs) = xs"
  by (cases xs) (auto intro!: split_on_join_Cons)

lemma mediaQueries_eq:
  "mediaQueries inp = join ''\<newline>'' (map (media_rule inp) (drop 1 (breakpoints inp)))"
  by (simp add: mediaQueries_def media_rule_def breakpointsWithoutXs_def)

lemma defaults_eq:
  "defaults inp modifiers =
     endent inp [''\<newline>    '', ''\<newline>\<newline>    '', ''\<newline>  '']
       [join ''\<newline>'' (map (initial_declaration inp) (drop 1 (breakpoints inp))),
        join ''\<newline>\<newline>''
          (map (\<lambda>(selector, modifierName).
                  join ''\<newline>''
                    (map (\<lambda>(key, v).
                            ''--'' @ cssCustomPropertyNamespace inp @ key @ modifierName @ '': initial;'')
                       (breakpointsWithBaseXs inp)))
             modifiers)]"
  by (simp add: defaults_def initial_declaration_def breakpointsWithoutXs_def)



lemma newline_free_append [simp]: "newline_free (a @ b) \<longleftrightarrow> newline_free a \<and> newline_free b"
  by (auto simp: newline_free_def)

lemma newline_free_literal [simp]:
  "newline_free []" "newline_free (c # s) \<longleftrightarrow> c \<noteq> CHR ''\<newline>'' \<and> newline_free s"
  by (auto simp: newline_free_def)

lemma split_lines_join:
  "xs \<noteq> [] \<Longrightarrow> (\<And>x. x \<in> set xs \<Longrightarrow> newline_free x) \<Longrightarrow>
   split_on CHR ''\<newline>'' (join ''\<newline>'' xs) = xs"
  using split_on_join [of xs "CHR ''\<newline>''"] by (simp add: newline_free_def)

text \<open>
  C5. The text written to the style file is the \<open>endent\<close> template with the default
  properties, the \<open>initial\<close> defaults, the media queries and the modifier rules. The
  media queries are one line for each breakpoint but the first, in the order of the
  breakpoints: \<open>@media screen and (min-width: <value>) { .Box { --<namespace><key>: ; } }\<close>.
  The first value of the defaults, inside the \<open>.Box\<close> block, is one line
  \<open>--<namespace><key>: initial;\<close> for each of the same breakpoints, in the same order.
  (Namespace, keys and values hold no line break, so that the lines can be read back.)
\<close>

theorem media_rules:
  assumes ns: "newline_free (cssCustomPropertyNamespace inp)"
    and bps: "\<forall>(key, v)\<in>set (breakpoints inp). newline_free key \<and> newline_free (to_string v)"
  shows "writeCSSMediaVars inp modifiers =
       endent inp
         [''\<newline>    /* THIS FILE IS AUTO GENERATED, DO NOT TOUCH */\<newline>    .Box {\<newline>      '',
          ''\<newline>      '',
          ''\<newline>    }\<newline>\<newline>    '',
          ''\<newline>\<newline>    '',
          ''\<newline>  '']
         [defaultCSSProperties inp, defaults inp modifiers, mediaQueries inp,
          selectorsEnabled inp modifiers] \<and>
     (length (breakpoints inp) \<le> 1 \<longrightarrow> mediaQueries inp = []) \<and>
     (1 < length (breakpoints inp) \<longrightarrow>
        split_on CHR ''\<newline>'' (mediaQueries inp) = map (media_rule inp) (drop 1 (breakpoints inp))) \<and>
     (\<exists>initials others.
        defaults inp modifiers =
          endent inp [''\<newline>    '', ''\<newline>\<newline>    '', ''\<newline>  ''] [initials, others] \<and>
        (length (breakpoints inp) \<le> 1 \<longrightarrow> initials = []) \<and>
        (1 < length (breakpoints inp) \<longrightarrow>
           split_on CHR ''\<newline>'' initials =
             map (initial_declaration inp) (drop 1 (breakpoints inp)))) \<and>
     media_rule inp (key, v) =
       ''@media screen and (min-width: '' @ to_string v @ '') { .Box { --''
         @ cssCustomPropertyNamespace inp @ key @ '': ; } }'' \<and>
     initial_declaration inp (key, v) =
       ''--'' @ cssCustomPropertyNamespace inp @ key @ '': initial;''"
proof -
  let ?rest = "drop 1 (breakpoints inp)"
  have free: "newline_free (media_rule inp b) \<and> newline_free (initial_declaration inp b)"
    if "b \<in> set ?rest" for b
  proof -
    have "b \<in> set (breakpoints inp)" using that by (rule in_set_dropD)
    then show ?thesis
      using ns bps by (cases b) (auto simp: media_rule_def initial_declaration_def)
  qed
  have short: "?rest = []" if "length (breakpoints inp) \<le> 1"
    using that by simp
  have long: "?rest \<noteq> []" if "1 < length (breakpoints inp)"
    using that by simp
  have m0: "length (breakpoints inp) \<le> 1 \<longrightarrow> mediaQueries inp = []"
    using short by (simp add: mediaQueries_eq)
  have m1: "1 < length (breakpoints inp) \<longrightarrow>
        split_on CHR ''\<newline>'' (mediaQueries inp) = map (media_rule inp) ?rest"
    unfolding mediaQueries_eq using long free by (auto intro!: split_lines_join)
  let ?initials = "join ''\<newline>'' (map (initial_declaration inp) ?rest)"
  have i0: "length (breakpoints inp) \<le> 1 \<longrightarrow> ?initials = []"
    using short by simp
  have i1: "1 < length (breakpoints inp) \<longrightarrow>
        split_on CHR ''\<newline>'' ?initials = map (initial_declaration inp) ?rest"
    using long free by (auto intro!: split_lines_join)
  have d: "\<exists>initials others.
        defaults inp modifiers =
          endent inp [''\<newline>    '', ''\<newline>\<newline>    '', ''\<newline>  ''] [initials, others] \<and>
        (length (breakpoints inp) \<le> 1 \<longrightarrow> initials = []) \<and>
        (1 < length (breakpoints inp) \<longrightarrow>
           split_on CHR ''\<newline>'' initials = map (initial_declaration inp) ?rest)"
    using defaults_eq [of inp modifiers] i0 i1 by blast
  have w: "writeCSSMediaVars inp modifiers =
       endent inp
         [''\<newline>    /* THIS FILE IS AUTO GENERATED, DO NOT TOUCH */\<newline>    .Box {\<newline>      '',
          ''\<newline>      '',
          ''\<newline>    }\<newline>\<newline>    '',
          ''\<newline>\<newline>    '',
          ''\<newline>  '']
         [defaultCSSProperties inp, defaults inp modifiers, mediaQueries inp,
          selectorsEnabled inp modifiers]"
    by (simp add: writeCSSMediaVars_def)
  have r: "media_rule inp (key, v) =
       ''@media screen and (min-width: '' @ to_string v @ '') { .Box { --''
         @ cssCustomPropertyNamespace inp @ key @ '': ; } }''"
    by (simp add: media_rule_def)
  have n: "initial_declaration inp (key, v) =
       ''--'' @ cssCustomPropertyNamespace inp @ key @ '': initial;''"
    by (simp add: initial_declaration_def)
  show ?thesis
    by (intro conjI) (rule w m0 m1 d r n)+
qed


theorem media_rules_witness:
  "newline_free (cssCustomPropertyNamespace example_input) \<and>
   list_all (\<lambda>(key, v). newline_free key \<and> newline_free (to_string v)) (breakpoints example_input) \<and>
   split_on CHR ''\<newline>'' (mediaQueries example_input) =
     [''@media screen and (min-width: 490px) { .Box { --_sm: ; } }'',
      ''@media screen and (min-width: 768px) { .Box { --_md: ; } }'']"
proof -
  have ns: "newline_free (cssCustomPropertyNamespace example_input)"
    by code_simp
  have bps: "\<forall>(key, v)\<in>set (breakpoints example_input). newline_free key \<and> newline_free (to_string v)"
    by code_simp
  have l: "1 < length (breakpoints example_input)"
    by code_simp
  have r: "map (media_rule example_input) (drop 1 (breakpoints example_input)) =
     [''@media screen and (min-width: 490px) { .Box { --_sm: ; } }'',
      ''@media screen and (min-width: 768px) { .Box { --_md: ; } }'']"
    by code_simp
  show ?thesis
    using ns bps l r media_rules [OF ns bps, of "[]" "[]" None]
    by (simp add: list_all_iff)
qed




subsection \<open>Toast\<close>

text \<open>
  C10. The delay of the auto-dismiss timer is the given duration when it is truthy,
  otherwise 10000 ms when an action is given and 5000 ms when none is; with an action and
  a truthy duration below 10000 ms the duration is used all the same, and a warning is
  logged.
\<close>

theorem Toast_timeout:
  "(truthy (Some d) \<longrightarrow> snd (Toast (Some d) action) = d) \<and>
   (\<not> truthy duration \<and> action \<noteq> None \<longrightarrow>
      Toast duration action = ([], DEFAULT_TOAST_DURATION_WITH_ACTION)) \<and>
   (\<not> truthy duration \<and> action = None \<longrightarrow>
      Toast duration action = ([], DEFAULT_TOAST_DURATION)) \<and>
   (action \<noteq> None \<and> truthy (Some d) \<and> less_number d DEFAULT_TOAST_DURATION_WITH_ACTION \<longrightarrow>
      Toast (Some d) action = ([toast_warning], d)) \<and>
   DEFAULT_TOAST_DURATION = Finite 5000 \<and> DEFAULT_TOAST_DURATION_WITH_ACTION = Finite 10000"
  by (auto simp: Toast_def Let_def truthy_def DEFAULT_TOAST_DURATION_def
        DEFAULT_TOAST_DURATION_WITH_ACTION_def split: option.splits number.splits)

theorem Toast_timeout_witness:
  "Toast (Some (Finite 3000)) (Some ()) = ([toast_warning], Finite 3000) \<and>
   Toast (Some (Finite 0)) (Some ()) = ([], Finite 10000) \<and>
   Toast None (None :: unit option) = ([], Finite 5000)"
proof -
  have t: "truthy (Some (Finite 3000))" and f: "\<not> truthy (Some (Finite 0))" and n: "\<not> truthy None"
    by (simp_all add: truthy_def)
  have l: "less_number (Finite 3000) DEFAULT_TOAST_DURATION_WITH_ACTION"
    by (simp add: DEFAULT_TOAST_DURATION_WITH_ACTION_def)
  have "Toast (Some (Finite 3000)) (Some ()) = ([toast_warning], Finite 3000)"
    using Toast_timeout [of "Finite 3000" "Some ()" None] t l by blast
  moreover have "Toast (Some (Finite 0)) (Some ()) = ([], Finite 10000)"
    using Toast_timeout [of "Finite 3000" "Some ()" "Some (Finite 0)"] f by auto
  moreover have "Toast None (None :: unit option) = ([], Finite 5000)"
    using Toast_timeout [of "Finite 3000" "None :: unit option" None] n by auto
  ultimately show ?thesis by blast
qed

end
